theory Spec2Isabelle
  imports Complex_Main
begin

section \<open>Python values\<close>

text \<open>
  The program is Python. Its text values are modelled as \<^typ>\<open>string\<close>, holding the UTF-8
  bytes of the Python string; the Russian literals of the source are written out byte by
  byte, each with an English gloss. Functions of the Python standard library and of the
  \<open>requests\<close> package whose results the program only passes on (\<open>json.loads\<close>,
  \<open>json.dumps\<close>, \<open>float\<close>, \<open>str.strip\<close>, \<open>str.lower\<close>, \<open>"".join(s.split())\<close>,
  slicing by code point,
  \<open>str\<close> of a value that is not a string, the text of an \<open>HTTPError\<close> and of an
  interpreter exception) are parameters, collected in the record
  \<open>pylib\<close>: every theorem holds whatever these functions compute. Logging is not
  modelled.
\<close>

text \<open>A Python float: a finite value (every finite double is a rational), an infinity or NaN.\<close>

datatype pyfloat = Fin rat | PInf | NInf | NaN

text \<open>The comparison \<open>a <= b\<close> of Python: false as soon as one side is NaN.\<close>

fun float_le :: "pyfloat \<Rightarrow> pyfloat \<Rightarrow> bool" where
  "float_le NaN b = False"
| "float_le a NaN = False"
| "float_le NInf b = True"
| "float_le a PInf = True"
| "float_le (Fin a) (Fin b) = (a \<le> b)"
| "float_le (Fin a) NInf = False"
| "float_le PInf (Fin b) = False"
| "float_le PInf NInf = False"

text \<open>
  A decoded JSON document, which is also the shape of every payload the program builds:
  \<open>None\<close> is \<open>JNull\<close>, a \<open>dict\<close> is \<open>JObj\<close> with its items in order, read by
  \<^const>\<open>map_of\<close>.
\<close>

datatype json =
    JNull
  | JBool bool
  | JInt int
  | JFloat pyfloat
  | JStr string
  | JArr "json list"
  | JObj "(string \<times> json) list"

text \<open>
  Exceptions. \<open>Exception m\<close> is raised by the program itself, with message \<open>m\<close>. The
  next eight are raised by the interpreter; the text of \<open>str(e)\<close> for them belongs to the
  interpreter. \<open>MissingMember n\<close> is the \<open>AttributeError\<close> that the lookup of a member
  \<open>n\<close> an \<open>Enum\<close> class does not have raises; its text is \<open>n\<close>. The remaining ones come
  from libraries and carry their text: \<open>JSONDecodeError\<close> is the one of \<open>json.loads\<close>,
  \<open>ReqTimeout\<close> is \<open>requests.exceptions.Timeout\<close> (and its subclasses),
  \<open>ReqConnectionError\<close> a \<open>ConnectionError\<close> that is not a timeout, \<open>ReqException\<close>
  any other \<open>RequestException\<close> (an \<open>HTTPError\<close>, and
  \<open>requests.exceptions.JSONDecodeError\<close>, which \<open>response.json()\<close> raises),
  \<open>OtherError\<close> any other exception class.
\<close>

datatype exc =
    Exception string
  | KeyError
  | AttributeError
  | IndexError
  | TypeError
  | ValueError
  | OverflowError
  | UnicodeDecodeError
  | RecursionError
  | MissingMember string
  | JSONDecodeError string
  | ImportError string
  | ReqTimeout string
  | ReqConnectionError string
  | ReqException string
  | OtherError string

fun is_RequestException :: "exc \<Rightarrow> bool" where
  "is_RequestException (ReqTimeout m) = True"
| "is_RequestException (ReqConnectionError m) = True"
| "is_RequestException (ReqException m) = True"
| "is_RequestException e = False"

record pylib =
  json_loads :: "string \<Rightarrow> exc + json"
  json_dumps :: "json \<Rightarrow> string"
  float_of :: "json \<Rightarrow> exc + pyfloat"
  str_strip :: "string \<Rightarrow> string"
  str_lower :: "string \<Rightarrow> string"
  str_join_split :: "string \<Rightarrow> string"
  str_prefix :: "nat \<Rightarrow> string \<Rightarrow> string"
  str_value :: "json \<Rightarrow> string"
  http_error_text :: "int \<Rightarrow> string"
  interpreter_text :: "exc \<Rightarrow> string"

text \<open>\<open>str(e)\<close>.\<close>

fun str_exc :: "pylib \<Rightarrow> exc \<Rightarrow> string" where
  "str_exc lib (Exception m) = m"
| "str_exc lib (MissingMember n) = n"
| "str_exc lib (JSONDecodeError m) = m"
| "str_exc lib (ImportError m) = m"
| "str_exc lib (ReqTimeout m) = m"
| "str_exc lib (ReqConnectionError m) = m"
| "str_exc lib (ReqException m) = m"
| "str_exc lib (OtherError m) = m"
| "str_exc lib e = interpreter_text lib e"

text \<open>Sequencing of two steps that may raise: the second runs only if the first returned.\<close>

definition thn :: "exc + 'a \<Rightarrow> ('a \<Rightarrow> exc + 'b) \<Rightarrow> exc + 'b" where
  "thn r f = (case r of Inl e \<Rightarrow> Inl e | Inr v \<Rightarrow> f v)"

text \<open>The truth value of a Python object (\<open>if x\<close>, \<open>not x\<close>).\<close>

fun truthy :: "json \<Rightarrow> bool" where
  "truthy JNull = False"
| "truthy (JBool b) = b"
| "truthy (JInt i) = (i \<noteq> 0)"
| "truthy (JFloat f) = (f \<noteq> Fin 0)"
| "truthy (JStr s) = (s \<noteq> [])"
| "truthy (JArr xs) = (xs \<noteq> [])"
| "truthy (JObj kvs) = (kvs \<noteq> [])"

text \<open>\<open>d.get(k, default)\<close>: only a dict has the method.\<close>

fun py_get :: "json \<Rightarrow> string \<Rightarrow> json \<Rightarrow> exc + json" where
  "py_get (JObj kvs) k d = Inr (case map_of kvs k of None \<Rightarrow> d | Some v \<Rightarrow> v)"
| "py_get v k d = Inl AttributeError"

text \<open>\<open>k in d\<close> for a dict \<open>d\<close>.\<close>

definition has_key :: "string \<Rightarrow> (string \<times> json) list \<Rightarrow> bool" where
  "has_key k kvs = (map_of kvs k \<noteq> None)"

text \<open>\<open>sub in s\<close> for two strings.\<close>

fun str_in :: "string \<Rightarrow> string \<Rightarrow> bool" where
  "str_in sub [] = (sub = [])"
| "str_in sub (c # cs) = (take (length sub) (c # cs) = sub \<or> str_in sub cs)"

text \<open>
  \<open>k in x\<close> with a string \<open>k\<close> on the left: key membership in a dict, element membership
  in a list, substring of a string, \<open>TypeError\<close> for anything else.
\<close>

fun py_contains :: "string \<Rightarrow> json \<Rightarrow> exc + bool" where
  "py_contains k (JObj kvs) = Inr (has_key k kvs)"
| "py_contains k (JArr xs) = Inr (JStr k \<in> set xs)"
| "py_contains k (JStr s) = Inr (str_in k s)"
| "py_contains k v = Inl TypeError"

text \<open>\<open>x[k]\<close> with a string \<open>k\<close>: a dict answers or raises \<open>KeyError\<close>, nothing else takes a string.\<close>

fun py_getitem :: "json \<Rightarrow> string \<Rightarrow> exc + json" where
  "py_getitem (JObj kvs) k = (case map_of kvs k of None \<Rightarrow> Inl KeyError | Some v \<Rightarrow> Inr v)"
| "py_getitem v k = Inl TypeError"

text \<open>
  \<open>x[0]\<close>. A decoded JSON dict has string keys only, so the key \<open>0\<close> is never there. The
  first character of a string is its first byte and the continuation bytes after it.
\<close>

definition is_continuation :: "char \<Rightarrow> bool" where
  "is_continuation c = (128 \<le> (of_char c :: nat) \<and> (of_char c :: nat) < 192)"

fun py_index0 :: "json \<Rightarrow> exc + json" where
  "py_index0 (JArr []) = Inl IndexError"
| "py_index0 (JArr (x # xs)) = Inr x"
| "py_index0 (JObj kvs) = Inl KeyError"
| "py_index0 (JStr []) = Inl IndexError"
| "py_index0 (JStr (c # cs)) = Inr (JStr (c # takeWhile is_continuation cs))"
| "py_index0 v = Inl TypeError"

text \<open>\<open>str(n)\<close> for an integer, as an f-string prints a status code.\<close>

fun str_nat :: "nat \<Rightarrow> string" where
  "str_nat n = (if n < 10 then [char_of (48 + n)] else str_nat (n div 10) @ [char_of (48 + n mod 10)])"

declare str_nat.simps [simp del]

definition str_int :: "int \<Rightarrow> string" where
  "str_int i = (if i < 0 then CHR ''-'' # str_nat (nat (- i)) else str_nat (nat i))"

section \<open>The tool provider server (mcp_server.py)\<close>

subsection \<open>String literals of the server\<close>

definition msg_unknown_endpoint :: string where
  \<comment> \<open>Unknown endpoint\<close>
  "msg_unknown_endpoint =
     [CHR 0xD0, CHR 0x9D, CHR 0xD0, CHR 0xB5, CHR 0xD0, CHR 0xB8, CHR 0xD0, CHR 0xB7]
     @ [CHR 0xD0, CHR 0xB2, CHR 0xD0, CHR 0xB5, CHR 0xD1, CHR 0x81, CHR 0xD1, CHR 0x82]
     @ [CHR 0xD0, CHR 0xBD, CHR 0xD1, CHR 0x8B, CHR 0xD0, CHR 0xB9] @ '' ''
     @ [CHR 0xD1, CHR 0x8D, CHR 0xD0, CHR 0xBD, CHR 0xD0, CHR 0xB4, CHR 0xD0, CHR 0xBF]
     @ [CHR 0xD0, CHR 0xBE, CHR 0xD0, CHR 0xB8, CHR 0xD0, CHR 0xBD, CHR 0xD1, CHR 0x82]"

definition msg_internal_error :: string where
  \<comment> \<open>Internal server error (prefix)\<close>
  "msg_internal_error =
     [CHR 0xD0, CHR 0x92, CHR 0xD0, CHR 0xBD, CHR 0xD1, CHR 0x83, CHR 0xD1, CHR 0x82]
     @ [CHR 0xD1, CHR 0x80, CHR 0xD0, CHR 0xB5, CHR 0xD0, CHR 0xBD, CHR 0xD0, CHR 0xBD]
     @ [CHR 0xD1, CHR 0x8F, CHR 0xD1, CHR 0x8F] @ '' ''
     @ [CHR 0xD0, CHR 0xBE, CHR 0xD1, CHR 0x88, CHR 0xD0, CHR 0xB8, CHR 0xD0, CHR 0xB1]
     @ [CHR 0xD0, CHR 0xBA, CHR 0xD0, CHR 0xB0] @ '' ''
     @ [CHR 0xD1, CHR 0x81, CHR 0xD0, CHR 0xB5, CHR 0xD1, CHR 0x80, CHR 0xD0, CHR 0xB2]
     @ [CHR 0xD0, CHR 0xB5, CHR 0xD1, CHR 0x80, CHR 0xD0, CHR 0xB0] @ '': ''"

definition msg_bad_json :: string where
  \<comment> \<open>Malformed JSON (prefix)\<close>
  "msg_bad_json =
     [CHR 0xD0, CHR 0x9D, CHR 0xD0, CHR 0xB5, CHR 0xD0, CHR 0xBA, CHR 0xD0, CHR 0xBE]
     @ [CHR 0xD1, CHR 0x80, CHR 0xD1, CHR 0x80, CHR 0xD0, CHR 0xB5, CHR 0xD0, CHR 0xBA]
     @ [CHR 0xD1, CHR 0x82, CHR 0xD0, CHR 0xBD, CHR 0xD1, CHR 0x8B, CHR 0xD0, CHR 0xB9]
     @ '' JSON: ''"

definition msg_news_api_status :: string where
  \<comment> \<open>News API error: status (prefix)\<close>
  "msg_news_api_status =
     [CHR 0xD0, CHR 0x9E, CHR 0xD1, CHR 0x88, CHR 0xD0, CHR 0xB8, CHR 0xD0, CHR 0xB1]
     @ [CHR 0xD0, CHR 0xBA, CHR 0xD0, CHR 0xB0] @ '' API ''
     @ [CHR 0xD0, CHR 0xBD, CHR 0xD0, CHR 0xBE, CHR 0xD0, CHR 0xB2, CHR 0xD0, CHR 0xBE]
     @ [CHR 0xD1, CHR 0x81, CHR 0xD1, CHR 0x82, CHR 0xD0, CHR 0xB5, CHR 0xD0, CHR 0xB9]
     @ '': ''
     @ [CHR 0xD1, CHR 0x81, CHR 0xD1, CHR 0x82, CHR 0xD0, CHR 0xB0, CHR 0xD1, CHR 0x82]
     @ [CHR 0xD1, CHR 0x83, CHR 0xD1, CHR 0x81] @ '' ''"

definition msg_unexpected_format :: string where
  \<comment> \<open>Unexpected format of the API response (prefix)\<close>
  "msg_unexpected_format =
     [CHR 0xD0, CHR 0x9D, CHR 0xD0, CHR 0xB5, CHR 0xD0, CHR 0xBE, CHR 0xD0, CHR 0xB6]
     @ [CHR 0xD0, CHR 0xB8, CHR 0xD0, CHR 0xB4, CHR 0xD0, CHR 0xB0, CHR 0xD0, CHR 0xBD]
     @ [CHR 0xD0, CHR 0xBD, CHR 0xD1, CHR 0x8B, CHR 0xD0, CHR 0xB9] @ '' ''
     @ [CHR 0xD1, CHR 0x84, CHR 0xD0, CHR 0xBE, CHR 0xD1, CHR 0x80, CHR 0xD0, CHR 0xBC]
     @ [CHR 0xD0, CHR 0xB0, CHR 0xD1, CHR 0x82] @ '' ''
     @ [CHR 0xD0, CHR 0xBE, CHR 0xD1, CHR 0x82, CHR 0xD0, CHR 0xB2, CHR 0xD0, CHR 0xB5]
     @ [CHR 0xD1, CHR 0x82, CHR 0xD0, CHR 0xB0] @ '' ''
     @ [CHR 0xD0, CHR 0xBE, CHR 0xD1, CHR 0x82] @ '' API: ''"

definition msg_news_timeout :: string where
  \<comment> \<open>Timeout while requesting the news API\<close>
  "msg_news_timeout =
     [CHR 0xD0, CHR 0xA2, CHR 0xD0, CHR 0xB0, CHR 0xD0, CHR 0xB9, CHR 0xD0, CHR 0xBC]
     @ [CHR 0xD0, CHR 0xB0, CHR 0xD1, CHR 0x83, CHR 0xD1, CHR 0x82] @ '' ''
     @ [CHR 0xD0, CHR 0xBF, CHR 0xD1, CHR 0x80, CHR 0xD0, CHR 0xB8] @ '' ''
     @ [CHR 0xD0, CHR 0xB7, CHR 0xD0, CHR 0xB0, CHR 0xD0, CHR 0xBF, CHR 0xD1, CHR 0x80]
     @ [CHR 0xD0, CHR 0xBE, CHR 0xD1, CHR 0x81, CHR 0xD0, CHR 0xB5] @ '' ''
     @ [CHR 0xD0, CHR 0xBA] @ '' API ''
     @ [CHR 0xD0, CHR 0xBD, CHR 0xD0, CHR 0xBE, CHR 0xD0, CHR 0xB2, CHR 0xD0, CHR 0xBE]
     @ [CHR 0xD1, CHR 0x81, CHR 0xD1, CHR 0x82, CHR 0xD0, CHR 0xB5, CHR 0xD0, CHR 0xB9]"

definition msg_connection_error :: string where
  \<comment> \<open>Error connecting to the API (prefix)\<close>
  "msg_connection_error =
     [CHR 0xD0, CHR 0x9E, CHR 0xD1, CHR 0x88, CHR 0xD0, CHR 0xB8, CHR 0xD0, CHR 0xB1]
     @ [CHR 0xD0, CHR 0xBA, CHR 0xD0, CHR 0xB0] @ '' ''
     @ [CHR 0xD1, CHR 0x81, CHR 0xD0, CHR 0xBE, CHR 0xD0, CHR 0xB5, CHR 0xD0, CHR 0xB4]
     @ [CHR 0xD0, CHR 0xB8, CHR 0xD0, CHR 0xBD, CHR 0xD0, CHR 0xB5, CHR 0xD0, CHR 0xBD]
     @ [CHR 0xD0, CHR 0xB8, CHR 0xD1, CHR 0x8F] @ '' '' @ [CHR 0xD1, CHR 0x81] @ '' API: ''"

definition msg_network_error :: string where
  \<comment> \<open>Network error (prefix)\<close>
  "msg_network_error =
     [CHR 0xD0, CHR 0x9E, CHR 0xD1, CHR 0x88, CHR 0xD0, CHR 0xB8, CHR 0xD0, CHR 0xB1]
     @ [CHR 0xD0, CHR 0xBA, CHR 0xD0, CHR 0xB0] @ '' ''
     @ [CHR 0xD1, CHR 0x81, CHR 0xD0, CHR 0xB5, CHR 0xD1, CHR 0x82, CHR 0xD0, CHR 0xB8]
     @ '': ''"

definition msg_unexpected_error :: string where
  \<comment> \<open>Unexpected error (prefix)\<close>
  "msg_unexpected_error =
     [CHR 0xD0, CHR 0x9D, CHR 0xD0, CHR 0xB5, CHR 0xD0, CHR 0xBE, CHR 0xD0, CHR 0xB6]
     @ [CHR 0xD0, CHR 0xB8, CHR 0xD0, CHR 0xB4, CHR 0xD0, CHR 0xB0, CHR 0xD0, CHR 0xBD]
     @ [CHR 0xD0, CHR 0xBD, CHR 0xD0, CHR 0xB0, CHR 0xD1, CHR 0x8F] @ '' ''
     @ [CHR 0xD0, CHR 0xBE, CHR 0xD1, CHR 0x88, CHR 0xD0, CHR 0xB8, CHR 0xD0, CHR 0xB1]
     @ [CHR 0xD0, CHR 0xBA, CHR 0xD0, CHR 0xB0] @ '': ''"

definition msg_missing_coordinates :: string where
  \<comment> \<open>latitude and longitude must be given\<close>
  "msg_missing_coordinates =
     [CHR 0xD0, CHR 0x9D, CHR 0xD0, CHR 0xB5, CHR 0xD0, CHR 0xBE, CHR 0xD0, CHR 0xB1]
     @ [CHR 0xD1, CHR 0x85, CHR 0xD0, CHR 0xBE, CHR 0xD0, CHR 0xB4, CHR 0xD0, CHR 0xB8]
     @ [CHR 0xD0, CHR 0xBC, CHR 0xD0, CHR 0xBE] @ '' ''
     @ [CHR 0xD1, CHR 0x83, CHR 0xD0, CHR 0xBA, CHR 0xD0, CHR 0xB0, CHR 0xD0, CHR 0xB7]
     @ [CHR 0xD0, CHR 0xB0, CHR 0xD1, CHR 0x82, CHR 0xD1, CHR 0x8C] @ '' latitude ''
     @ [CHR 0xD0, CHR 0xB8] @ '' longitude''"

definition msg_coordinates_not_numbers :: string where
  \<comment> \<open>Coordinates must be numbers\<close>
  "msg_coordinates_not_numbers =
     [CHR 0xD0, CHR 0x9A, CHR 0xD0, CHR 0xBE, CHR 0xD0, CHR 0xBE, CHR 0xD1, CHR 0x80]
     @ [CHR 0xD0, CHR 0xB4, CHR 0xD0, CHR 0xB8, CHR 0xD0, CHR 0xBD, CHR 0xD0, CHR 0xB0]
     @ [CHR 0xD1, CHR 0x82, CHR 0xD1, CHR 0x8B] @ '' ''
     @ [CHR 0xD0, CHR 0xB4, CHR 0xD0, CHR 0xBE, CHR 0xD0, CHR 0xBB, CHR 0xD0, CHR 0xB6]
     @ [CHR 0xD0, CHR 0xBD, CHR 0xD1, CHR 0x8B] @ '' ''
     @ [CHR 0xD0, CHR 0xB1, CHR 0xD1, CHR 0x8B, CHR 0xD1, CHR 0x82, CHR 0xD1, CHR 0x8C]
     @ '' ''
     @ [CHR 0xD1, CHR 0x87, CHR 0xD0, CHR 0xB8, CHR 0xD1, CHR 0x81, CHR 0xD0, CHR 0xBB]
     @ [CHR 0xD0, CHR 0xB0, CHR 0xD0, CHR 0xBC, CHR 0xD0, CHR 0xB8]"

definition msg_latitude_range :: string where
  \<comment> \<open>Latitude must be in the range from -90 to 90\<close>
  "msg_latitude_range =
     [CHR 0xD0, CHR 0xA8, CHR 0xD0, CHR 0xB8, CHR 0xD1, CHR 0x80, CHR 0xD0, CHR 0xBE]
     @ [CHR 0xD1, CHR 0x82, CHR 0xD0, CHR 0xB0] @ '' ''
     @ [CHR 0xD0, CHR 0xB4, CHR 0xD0, CHR 0xBE, CHR 0xD0, CHR 0xBB, CHR 0xD0, CHR 0xB6]
     @ [CHR 0xD0, CHR 0xBD, CHR 0xD0, CHR 0xB0] @ '' ''
     @ [CHR 0xD0, CHR 0xB1, CHR 0xD1, CHR 0x8B, CHR 0xD1, CHR 0x82, CHR 0xD1, CHR 0x8C]
     @ '' '' @ [CHR 0xD0, CHR 0xB2] @ '' ''
     @ [CHR 0xD0, CHR 0xB4, CHR 0xD0, CHR 0xB8, CHR 0xD0, CHR 0xB0, CHR 0xD0, CHR 0xBF]
     @ [CHR 0xD0, CHR 0xB0, CHR 0xD0, CHR 0xB7, CHR 0xD0, CHR 0xBE, CHR 0xD0, CHR 0xBD]
     @ [CHR 0xD0, CHR 0xB5] @ '' '' @ [CHR 0xD0, CHR 0xBE, CHR 0xD1, CHR 0x82] @ '' -90 ''
     @ [CHR 0xD0, CHR 0xB4, CHR 0xD0, CHR 0xBE] @ '' 90''"

definition msg_longitude_range :: string where
  \<comment> \<open>Longitude must be in the range from -180 to 180\<close>
  "msg_longitude_range =
     [CHR 0xD0, CHR 0x94, CHR 0xD0, CHR 0xBE, CHR 0xD0, CHR 0xBB, CHR 0xD0, CHR 0xB3]
     @ [CHR 0xD0, CHR 0xBE, CHR 0xD1, CHR 0x82, CHR 0xD0, CHR 0xB0] @ '' ''
     @ [CHR 0xD0, CHR 0xB4, CHR 0xD0, CHR 0xBE, CHR 0xD0, CHR 0xBB, CHR 0xD0, CHR 0xB6]
     @ [CHR 0xD0, CHR 0xBD, CHR 0xD0, CHR 0xB0] @ '' ''
     @ [CHR 0xD0, CHR 0xB1, CHR 0xD1, CHR 0x8B, CHR 0xD1, CHR 0x82, CHR 0xD1, CHR 0x8C]
     @ '' '' @ [CHR 0xD0, CHR 0xB2] @ '' ''
     @ [CHR 0xD0, CHR 0xB4, CHR 0xD0, CHR 0xB8, CHR 0xD0, CHR 0xB0, CHR 0xD0, CHR 0xBF]
     @ [CHR 0xD0, CHR 0xB0, CHR 0xD0, CHR 0xB7, CHR 0xD0, CHR 0xBE, CHR 0xD0, CHR 0xBD]
     @ [CHR 0xD0, CHR 0xB5] @ '' '' @ [CHR 0xD0, CHR 0xBE, CHR 0xD1, CHR 0x82] @ '' -180 ''
     @ [CHR 0xD0, CHR 0xB4, CHR 0xD0, CHR 0xBE] @ '' 180''"

definition msg_key_not_configured :: string where
  \<comment> \<open>API key not configured; set the environment variable\<close>
  "msg_key_not_configured =
     ''API ''
     @ [CHR 0xD0, CHR 0xBA, CHR 0xD0, CHR 0xBB, CHR 0xD1, CHR 0x8E, CHR 0xD1, CHR 0x87]
     @ '' '' @ [CHR 0xD0, CHR 0xBD, CHR 0xD0, CHR 0xB5] @ '' ''
     @ [CHR 0xD0, CHR 0xBD, CHR 0xD0, CHR 0xB0, CHR 0xD1, CHR 0x81, CHR 0xD1, CHR 0x82]
     @ [CHR 0xD1, CHR 0x80, CHR 0xD0, CHR 0xBE, CHR 0xD0, CHR 0xB5, CHR 0xD0, CHR 0xBD]
     @ ''. ''
     @ [CHR 0xD0, CHR 0xA3, CHR 0xD1, CHR 0x81, CHR 0xD1, CHR 0x82, CHR 0xD0, CHR 0xB0]
     @ [CHR 0xD0, CHR 0xBD, CHR 0xD0, CHR 0xBE, CHR 0xD0, CHR 0xB2, CHR 0xD0, CHR 0xB8]
     @ [CHR 0xD1, CHR 0x82, CHR 0xD0, CHR 0xB5] @ '' ''
     @ [CHR 0xD0, CHR 0xBF, CHR 0xD0, CHR 0xB5, CHR 0xD1, CHR 0x80, CHR 0xD0, CHR 0xB5]
     @ [CHR 0xD0, CHR 0xBC, CHR 0xD0, CHR 0xB5, CHR 0xD0, CHR 0xBD, CHR 0xD0, CHR 0xBD]
     @ [CHR 0xD1, CHR 0x83, CHR 0xD1, CHR 0x8E] @ '' ''
     @ [CHR 0xD0, CHR 0xBE, CHR 0xD0, CHR 0xBA, CHR 0xD1, CHR 0x80, CHR 0xD1, CHR 0x83]
     @ [CHR 0xD0, CHR 0xB6, CHR 0xD0, CHR 0xB5, CHR 0xD0, CHR 0xBD, CHR 0xD0, CHR 0xB8]
     @ [CHR 0xD1, CHR 0x8F] @ '' YANDEX_WEATHER_API_KEY''"

definition msg_key_blank :: string where
  \<comment> \<open>API key is blank; check the environment variable in the .env file\<close>
  "msg_key_blank =
     ''API ''
     @ [CHR 0xD0, CHR 0xBA, CHR 0xD0, CHR 0xBB, CHR 0xD1, CHR 0x8E, CHR 0xD1, CHR 0x87]
     @ '' ''
     @ [CHR 0xD0, CHR 0xBF, CHR 0xD1, CHR 0x83, CHR 0xD1, CHR 0x81, CHR 0xD1, CHR 0x82]
     @ [CHR 0xD0, CHR 0xBE, CHR 0xD0, CHR 0xB9] @ ''. ''
     @ [CHR 0xD0, CHR 0x9F, CHR 0xD1, CHR 0x80, CHR 0xD0, CHR 0xBE, CHR 0xD0, CHR 0xB2]
     @ [CHR 0xD0, CHR 0xB5, CHR 0xD1, CHR 0x80, CHR 0xD1, CHR 0x8C, CHR 0xD1, CHR 0x82]
     @ [CHR 0xD0, CHR 0xB5] @ '' ''
     @ [CHR 0xD0, CHR 0xBF, CHR 0xD0, CHR 0xB5, CHR 0xD1, CHR 0x80, CHR 0xD0, CHR 0xB5]
     @ [CHR 0xD0, CHR 0xBC, CHR 0xD0, CHR 0xB5, CHR 0xD0, CHR 0xBD, CHR 0xD0, CHR 0xBD]
     @ [CHR 0xD1, CHR 0x83, CHR 0xD1, CHR 0x8E] @ '' ''
     @ [CHR 0xD0, CHR 0xBE, CHR 0xD0, CHR 0xBA, CHR 0xD1, CHR 0x80, CHR 0xD1, CHR 0x83]
     @ [CHR 0xD0, CHR 0xB6, CHR 0xD0, CHR 0xB5, CHR 0xD0, CHR 0xBD, CHR 0xD0, CHR 0xB8]
     @ [CHR 0xD1, CHR 0x8F] @ '' YANDEX_WEATHER_API_KEY '' @ [CHR 0xD0, CHR 0xB2]
     @ '' .env ''
     @ [CHR 0xD1, CHR 0x84, CHR 0xD0, CHR 0xB0, CHR 0xD0, CHR 0xB9, CHR 0xD0, CHR 0xBB]
     @ [CHR 0xD0, CHR 0xB5]"

definition msg_weather_403 :: string where
  \<comment> \<open>Access error (403); check the API key\<close>
  "msg_weather_403 =
     [CHR 0xD0, CHR 0x9E, CHR 0xD1, CHR 0x88, CHR 0xD0, CHR 0xB8, CHR 0xD0, CHR 0xB1]
     @ [CHR 0xD0, CHR 0xBA, CHR 0xD0, CHR 0xB0] @ '' ''
     @ [CHR 0xD0, CHR 0xB4, CHR 0xD0, CHR 0xBE, CHR 0xD1, CHR 0x81, CHR 0xD1, CHR 0x82]
     @ [CHR 0xD1, CHR 0x83, CHR 0xD0, CHR 0xBF, CHR 0xD0, CHR 0xB0] @ '' (403). ''
     @ [CHR 0xD0, CHR 0x9F, CHR 0xD1, CHR 0x80, CHR 0xD0, CHR 0xBE, CHR 0xD0, CHR 0xB2]
     @ [CHR 0xD0, CHR 0xB5, CHR 0xD1, CHR 0x80, CHR 0xD1, CHR 0x8C, CHR 0xD1, CHR 0x82]
     @ [CHR 0xD0, CHR 0xB5] @ '' ''
     @ [CHR 0xD0, CHR 0xBF, CHR 0xD1, CHR 0x80, CHR 0xD0, CHR 0xB0, CHR 0xD0, CHR 0xB2]
     @ [CHR 0xD0, CHR 0xB8, CHR 0xD0, CHR 0xBB, CHR 0xD1, CHR 0x8C, CHR 0xD0, CHR 0xBD]
     @ [CHR 0xD0, CHR 0xBE, CHR 0xD1, CHR 0x81, CHR 0xD1, CHR 0x82, CHR 0xD1, CHR 0x8C]
     @ '' API ''
     @ [CHR 0xD0, CHR 0xBA, CHR 0xD0, CHR 0xBB, CHR 0xD1, CHR 0x8E, CHR 0xD1, CHR 0x87]
     @ [CHR 0xD0, CHR 0xB0] @ '' YANDEX_WEATHER_API_KEY''"

definition msg_weather_401 :: string where
  \<comment> \<open>Authentication error (401); wrong API key\<close>
  "msg_weather_401 =
     [CHR 0xD0, CHR 0x9E, CHR 0xD1, CHR 0x88, CHR 0xD0, CHR 0xB8, CHR 0xD0, CHR 0xB1]
     @ [CHR 0xD0, CHR 0xBA, CHR 0xD0, CHR 0xB0] @ '' ''
     @ [CHR 0xD0, CHR 0xB0, CHR 0xD1, CHR 0x83, CHR 0xD1, CHR 0x82, CHR 0xD0, CHR 0xB5]
     @ [CHR 0xD0, CHR 0xBD, CHR 0xD1, CHR 0x82, CHR 0xD0, CHR 0xB8, CHR 0xD1, CHR 0x84]
     @ [CHR 0xD0, CHR 0xB8, CHR 0xD0, CHR 0xBA, CHR 0xD0, CHR 0xB0, CHR 0xD1, CHR 0x86]
     @ [CHR 0xD0, CHR 0xB8, CHR 0xD0, CHR 0xB8] @ '' (401). ''
     @ [CHR 0xD0, CHR 0x9D, CHR 0xD0, CHR 0xB5, CHR 0xD0, CHR 0xB2, CHR 0xD0, CHR 0xB5]
     @ [CHR 0xD1, CHR 0x80, CHR 0xD0, CHR 0xBD, CHR 0xD1, CHR 0x8B, CHR 0xD0, CHR 0xB9]
     @ '' API ''
     @ [CHR 0xD0, CHR 0xBA, CHR 0xD0, CHR 0xBB, CHR 0xD1, CHR 0x8E, CHR 0xD1, CHR 0x87]"

definition msg_weather_api_status :: string where
  \<comment> \<open>Yandex.Weather API error: status (prefix)\<close>
  "msg_weather_api_status =
     [CHR 0xD0, CHR 0x9E, CHR 0xD1, CHR 0x88, CHR 0xD0, CHR 0xB8, CHR 0xD0, CHR 0xB1]
     @ [CHR 0xD0, CHR 0xBA, CHR 0xD0, CHR 0xB0] @ '' API ''
     @ [CHR 0xD0, CHR 0xAF, CHR 0xD0, CHR 0xBD, CHR 0xD0, CHR 0xB4, CHR 0xD0, CHR 0xB5]
     @ [CHR 0xD0, CHR 0xBA, CHR 0xD1, CHR 0x81] @ ''.''
     @ [CHR 0xD0, CHR 0x9F, CHR 0xD0, CHR 0xBE, CHR 0xD0, CHR 0xB3, CHR 0xD0, CHR 0xBE]
     @ [CHR 0xD0, CHR 0xB4, CHR 0xD1, CHR 0x8B] @ '': ''
     @ [CHR 0xD1, CHR 0x81, CHR 0xD1, CHR 0x82, CHR 0xD0, CHR 0xB0, CHR 0xD1, CHR 0x82]
     @ [CHR 0xD1, CHR 0x83, CHR 0xD1, CHR 0x81] @ '' ''"

definition msg_weather_extraction_failed :: string where
  \<comment> \<open>Could not extract weather data from the API response\<close>
  "msg_weather_extraction_failed =
     [CHR 0xD0, CHR 0x9D, CHR 0xD0, CHR 0xB5] @ '' ''
     @ [CHR 0xD1, CHR 0x83, CHR 0xD0, CHR 0xB4, CHR 0xD0, CHR 0xB0, CHR 0xD0, CHR 0xBB]
     @ [CHR 0xD0, CHR 0xBE, CHR 0xD1, CHR 0x81, CHR 0xD1, CHR 0x8C] @ '' ''
     @ [CHR 0xD0, CHR 0xB8, CHR 0xD0, CHR 0xB7, CHR 0xD0, CHR 0xB2, CHR 0xD0, CHR 0xBB]
     @ [CHR 0xD0, CHR 0xB5, CHR 0xD1, CHR 0x87, CHR 0xD1, CHR 0x8C] @ '' ''
     @ [CHR 0xD0, CHR 0xB4, CHR 0xD0, CHR 0xB0, CHR 0xD0, CHR 0xBD, CHR 0xD0, CHR 0xBD]
     @ [CHR 0xD1, CHR 0x8B, CHR 0xD0, CHR 0xB5] @ '' '' @ [CHR 0xD0, CHR 0xBE] @ '' ''
     @ [CHR 0xD0, CHR 0xBF, CHR 0xD0, CHR 0xBE, CHR 0xD0, CHR 0xB3, CHR 0xD0, CHR 0xBE]
     @ [CHR 0xD0, CHR 0xB4, CHR 0xD0, CHR 0xB5] @ '' ''
     @ [CHR 0xD0, CHR 0xB8, CHR 0xD0, CHR 0xB7] @ '' ''
     @ [CHR 0xD0, CHR 0xBE, CHR 0xD1, CHR 0x82, CHR 0xD0, CHR 0xB2, CHR 0xD0, CHR 0xB5]
     @ [CHR 0xD1, CHR 0x82, CHR 0xD0, CHR 0xB0] @ '' API''"

definition msg_weather_timeout :: string where
  \<comment> \<open>Timeout while requesting the Yandex.Weather API\<close>
  "msg_weather_timeout =
     [CHR 0xD0, CHR 0xA2, CHR 0xD0, CHR 0xB0, CHR 0xD0, CHR 0xB9, CHR 0xD0, CHR 0xBC]
     @ [CHR 0xD0, CHR 0xB0, CHR 0xD1, CHR 0x83, CHR 0xD1, CHR 0x82] @ '' ''
     @ [CHR 0xD0, CHR 0xBF, CHR 0xD1, CHR 0x80, CHR 0xD0, CHR 0xB8] @ '' ''
     @ [CHR 0xD0, CHR 0xB7, CHR 0xD0, CHR 0xB0, CHR 0xD0, CHR 0xBF, CHR 0xD1, CHR 0x80]
     @ [CHR 0xD0, CHR 0xBE, CHR 0xD1, CHR 0x81, CHR 0xD0, CHR 0xB5] @ '' ''
     @ [CHR 0xD0, CHR 0xBA] @ '' API ''
     @ [CHR 0xD0, CHR 0xAF, CHR 0xD0, CHR 0xBD, CHR 0xD0, CHR 0xB4, CHR 0xD0, CHR 0xB5]
     @ [CHR 0xD0, CHR 0xBA, CHR 0xD1, CHR 0x81] @ ''.''
     @ [CHR 0xD0, CHR 0x9F, CHR 0xD0, CHR 0xBE, CHR 0xD0, CHR 0xB3, CHR 0xD0, CHR 0xBE]
     @ [CHR 0xD0, CHR 0xB4, CHR 0xD1, CHR 0x8B]"

definition health_news_endpoints :: string where
  \<comment> \<open>/news or /get_news\<close>
  "health_news_endpoints =
     ''/news '' @ [CHR 0xD0, CHR 0xB8, CHR 0xD0, CHR 0xBB, CHR 0xD0, CHR 0xB8]
     @ '' /get_news''"

definition health_weather_endpoints :: string where
  \<comment> \<open>/weather or /get_weather (needs latitude and longitude)\<close>
  "health_weather_endpoints =
     ''/weather '' @ [CHR 0xD0, CHR 0xB8, CHR 0xD0, CHR 0xBB, CHR 0xD0, CHR 0xB8]
     @ '' /get_weather (''
     @ [CHR 0xD1, CHR 0x82, CHR 0xD1, CHR 0x80, CHR 0xD0, CHR 0xB5, CHR 0xD0, CHR 0xB1]
     @ [CHR 0xD1, CHR 0x83, CHR 0xD0, CHR 0xB5, CHR 0xD1, CHR 0x82] @ '' latitude ''
     @ [CHR 0xD0, CHR 0xB8] @ '' longitude)''"

subsection \<open>Upstream calls\<close>

text \<open>
  What \<open>requests.get\<close> does: it raises, or it returns a response with a status code, a
  text and the outcome of \<open>response.json()\<close>: the decoded body, or the text of the
  \<open>requests.exceptions.JSONDecodeError\<close> that decoding raises, which is a
  \<open>RequestException\<close>.
\<close>

datatype http_outcome = Raises exc | Response int string "string + json"

text \<open>\<open>response.json()\<close>.\<close>

definition response_json :: "string + json \<Rightarrow> exc + json" where
  "response_json body = (case body of Inl m \<Rightarrow> Inl (ReqException m) | Inr v \<Rightarrow> Inr v)"

text \<open>The upstream requests a handler performs, in order.\<close>

datatype upstream_call = NewsApiGet | WeatherApiGet string pyfloat pyfloat

text \<open>
  The world around one request: what the news API answers, what the weather API answers
  to a key and two coordinates, and the environment variable \<open>YANDEX_WEATHER_API_KEY\<close>.
\<close>

record env =
  news_api :: http_outcome
  weather_api :: "string \<Rightarrow> pyfloat \<Rightarrow> pyfloat \<Rightarrow> http_outcome"
  weather_api_key :: "string option"

definition error_payload :: "string \<Rightarrow> json" where
  "error_payload m = JObj [(''error'', JStr m)]"

text \<open>The handlers of the four \<open>requests\<close> exception classes, shared by both routes.\<close>

definition request_failure :: "pylib \<Rightarrow> string \<Rightarrow> exc \<Rightarrow> json" where
  "request_failure lib timeout_msg e =
     (case e of
        ReqTimeout m \<Rightarrow> error_payload timeout_msg
      | ReqConnectionError m \<Rightarrow> error_payload (msg_connection_error @ str_exc lib e)
      | ReqException m \<Rightarrow> error_payload (msg_network_error @ str_exc lib e)
      | _ \<Rightarrow> error_payload (msg_unexpected_error @ str_exc lib e))"

subsection \<open>The news route\<close>

text \<open>The loop over \<open>news_data["results"]\<close>, appending to \<open>titles\<close>.\<close>

fun collect_titles :: "json list \<Rightarrow> json list \<Rightarrow> exc + json list" where
  "collect_titles titles [] = Inr titles"
| "collect_titles titles (article # articles) =
     thn (py_contains ''title'' article) (\<lambda>present.
       if present
       then thn (py_getitem article ''title'') (\<lambda>t. collect_titles (titles @ [t]) articles)
       else collect_titles titles articles)"

text \<open>The inner \<open>try\<close> block: \<open>news_data\<close> is a dict here, \<open>.get\<close> has answered on it.\<close>

definition extract_titles :: "json \<Rightarrow> exc + json" where
  "extract_titles news_data =
     thn (py_contains ''results'' news_data) (\<lambda>present.
       thn (if present
            then thn (py_getitem news_data ''results'') (\<lambda>results.
                   case results of JArr articles \<Rightarrow> collect_titles [] articles | _ \<Rightarrow> Inr [])
            else Inr [])
         (\<lambda>titles. Inr (JObj [(''titles'', JArr titles),
                               (''total_count'', JInt (int (length titles)))])))"

definition news_try :: "pylib \<Rightarrow> http_outcome \<Rightarrow> exc + json" where
  "news_try lib outcome =
     (case outcome of
        Raises e \<Rightarrow> Inl e
      | Response status_code error_text body \<Rightarrow>
          if status_code \<noteq> 200
          then Inr (JObj [(''error'', JStr (msg_news_api_status @ str_int status_code)),
                         (''details'', JStr (if error_text \<noteq> [] then error_text
                                             else ''Unknown error''))])
          else thn (response_json body) (\<lambda>news_data.
                 thn (py_get news_data ''totalResults'' (JInt 0)) (\<lambda>total.
                   case extract_titles news_data of
                     Inr result \<Rightarrow> Inr result
                   | Inl e \<Rightarrow>
                       if e = KeyError \<or> e = AttributeError \<or> e = TypeError
                       then Inr (JObj [(''error'', JStr (msg_unexpected_format @ str_exc lib e)),
                                      (''raw_response'', news_data)])
                       else Inl e)))"

text \<open>\<open>_handle_news_request\<close>: the payload and the upstream calls made.\<close>

definition news_outer :: "pylib \<Rightarrow> http_outcome \<Rightarrow> json" where
  "news_outer lib outcome =
     (case news_try lib outcome of
        Inr payload \<Rightarrow> payload
      | Inl e \<Rightarrow> request_failure lib msg_news_timeout e)"

definition handle_news_request :: "pylib \<Rightarrow> env \<Rightarrow> json \<times> upstream_call list" where
  "handle_news_request lib ev = (news_outer lib (news_api ev), [NewsApiGet])"

subsection \<open>The weather route\<close>

text \<open>The inner \<open>try\<close> block of the extraction, up to the value of \<open>fact\<close>.\<close>

definition weather_fact :: "json \<Rightarrow> exc + json" where
  "weather_fact weather_data =
     thn (py_get weather_data ''fact'' (JObj [])) (\<lambda>fact.
       if \<not> truthy fact
       then thn (py_get weather_data ''forecasts'' JNull) (\<lambda>forecasts.
              if truthy forecasts
              then thn (py_get weather_data ''forecasts'' (JArr [JObj []])) (\<lambda>fs.
                   thn (py_index0 fs) (\<lambda>first.
                   thn (py_get first ''parts'' (JObj [])) (\<lambda>parts.
                   py_get parts ''day'' (JObj []))))
              else Inr (JObj []))
       else Inr fact)"

definition extract_weather :: "json \<Rightarrow> exc + json" where
  "extract_weather weather_data =
     thn (weather_fact weather_data) (\<lambda>fact.
     thn (py_get fact ''temp'' JNull) (\<lambda>temperature.
     thn (py_get fact ''condition'' JNull) (\<lambda>condition.
     thn (py_get fact ''wind_speed'' JNull) (\<lambda>wind_speed.
     thn (py_get fact ''humidity'' JNull) (\<lambda>humidity.
       if list_all (\<lambda>v. v = JNull) [temperature, condition, wind_speed, humidity]
       then Inr (JObj [(''error'', JStr msg_weather_extraction_failed),
                      (''raw_response'', weather_data)])
       else Inr (JObj [(''temperature'', temperature), (''condition'', condition),
                      (''wind_speed'', wind_speed), (''humidity'', humidity)]))))))"

definition weather_try :: "pylib \<Rightarrow> http_outcome \<Rightarrow> exc + json" where
  "weather_try lib outcome =
     (case outcome of
        Raises e \<Rightarrow> Inl e
      | Response status_code error_text body \<Rightarrow>
          if status_code \<noteq> 200
          then (if status_code = 403
                then Inr (JObj [(''error'', JStr msg_weather_403),
                               (''details'', JStr (if error_text \<noteq> [] then error_text
                                                   else ''Forbidden''))])
                else if status_code = 401
                then Inr (JObj [(''error'', JStr msg_weather_401),
                               (''details'', JStr (if error_text \<noteq> [] then error_text
                                                   else ''Unauthorized''))])
                else Inr (JObj [(''error'', JStr (msg_weather_api_status @ str_int status_code)),
                               (''details'', JStr (if error_text \<noteq> [] then error_text
                                                   else ''Unknown error''))]))
          else thn (response_json body) (\<lambda>weather_data.
                 case extract_weather weather_data of
                   Inr result \<Rightarrow> Inr result
                 | Inl e \<Rightarrow>
                     if e = KeyError \<or> e = AttributeError \<or> e = IndexError
                     then Inr (JObj [(''error'', JStr (msg_unexpected_format @ str_exc lib e)),
                                    (''raw_response'', weather_data)])
                     else Inl e))"

definition weather_outer :: "pylib \<Rightarrow> http_outcome \<Rightarrow> json" where
  "weather_outer lib outcome =
     (case weather_try lib outcome of
        Inr payload \<Rightarrow> payload
      | Inl e \<Rightarrow> request_failure lib msg_weather_timeout e)"

text \<open>
  \<open>_handle_weather_request\<close>, in three parts: the handler of the exceptions of
  \<open>float\<close> (one other than \<open>ValueError\<close> and \<open>TypeError\<close> leaves the handler), the
  checks on the two numbers with the upstream call, and the handler itself. \<open>None\<close> is
  \<open>JNull\<close>. The result is the payload, or the exception that left the handler, and the
  upstream calls made.
\<close>

definition float_failure :: "exc \<Rightarrow> (exc + json) \<times> upstream_call list" where
  "float_failure e =
     (if e = ValueError \<or> e = TypeError
      then (Inr (error_payload msg_coordinates_not_numbers), [])
      else (Inl e, []))"

definition weather_checked ::
  "pylib \<Rightarrow> env \<Rightarrow> pyfloat \<Rightarrow> pyfloat \<Rightarrow> (exc + json) \<times> upstream_call list" where
  "weather_checked lib ev lat lon =
     (if \<not> (float_le (Fin (- 90)) lat \<and> float_le lat (Fin 90))
      then (Inr (error_payload msg_latitude_range), [])
      else if \<not> (float_le (Fin (- 180)) lon \<and> float_le lon (Fin 180))
      then (Inr (error_payload msg_longitude_range), [])
      else if weather_api_key ev = None \<or> weather_api_key ev = Some []
      then (Inr (error_payload msg_key_not_configured), [])
      else
        let api_key = str_strip lib (the (weather_api_key ev)) in
        if api_key = []
        then (Inr (error_payload msg_key_blank), [])
        else (Inr (weather_outer lib (weather_api ev api_key lat lon)),
              [WeatherApiGet api_key lat lon]))"

definition handle_weather_request ::
  "pylib \<Rightarrow> env \<Rightarrow> json \<Rightarrow> json \<Rightarrow> (exc + json) \<times> upstream_call list" where
  "handle_weather_request lib ev latitude longitude =
     (if latitude = JNull \<or> longitude = JNull
      then (Inr (error_payload msg_missing_coordinates), [])
      else
        case float_of lib latitude of
          Inl e \<Rightarrow> float_failure e
        | Inr lat \<Rightarrow>
            (case float_of lib longitude of
               Inl e \<Rightarrow> float_failure e
             | Inr lon \<Rightarrow> weather_checked lib ev lat lon))"

subsection \<open>The two HTTP verbs\<close>

text \<open>
  A GET request after \<open>urlparse\<close> and \<open>parse_qs\<close>: the path, and for each query
  parameter the list of its values. A POST request: the path, and the outcome of reading
  \<open>Content-Length\<close> bytes and decoding them as UTF-8 (the text, or the exception raised).
\<close>

record get_request =
  get_path :: string
  get_query :: "(string \<times> string list) list"

record post_request =
  post_path :: string
  post_body :: "exc + string"

text \<open>What \<open>_send_json_response\<close> is given, and the upstream calls made before it.\<close>

record response =
  status :: int
  payload :: json
  upstream :: "upstream_call list"

definition health_payload :: json where
  "health_payload =
     JObj [(''status'', JStr ''ok''),
           (''server'', JStr ''MCP Server''),
           (''tools'', JArr [JStr ''get_news'', JStr ''get_weather'']),
           (''endpoints'', JObj [(''news'', JStr health_news_endpoints),
                                 (''weather'', JStr health_weather_endpoints)])]"

definition get_paths :: "string list" where
  "get_paths = [''/'', ''/health'', ''/news'', ''/get_news'', ''/weather'', ''/get_weather'']"

definition post_paths :: "string list" where
  "post_paths = [''/news'', ''/get_news'', ''/weather'', ''/get_weather'']"

text \<open>
  \<open>bytes.decode('utf-8')\<close>. A text is modelled by its UTF-8 bytes, so decoding returns
  the bytes when they are well formed (no stray or missing continuation byte, no overlong
  form, no surrogate, nothing above U+10FFFF) and raises \<open>UnicodeDecodeError\<close> otherwise.
\<close>

definition byte_in :: "nat \<Rightarrow> nat \<Rightarrow> char \<Rightarrow> bool" where
  "byte_in lo hi c = (lo \<le> of_char c \<and> (of_char c :: nat) \<le> hi)"

fun valid_utf8 :: "string \<Rightarrow> bool" where
  "valid_utf8 [] = True"
| "valid_utf8 (a # s) =
     (if byte_in 0x00 0x7F a then valid_utf8 s
      else if byte_in 0xC2 0xDF a
      then (case s of
              b # r \<Rightarrow> byte_in 0x80 0xBF b \<and> valid_utf8 r
            | _ \<Rightarrow> False)
      else if byte_in 0xE0 0xEF a
      then (case s of
              b # c # r \<Rightarrow>
                byte_in (if a = CHR 0xE0 then 0xA0 else 0x80) (if a = CHR 0xED then 0x9F else 0xBF) b
                \<and> byte_in 0x80 0xBF c \<and> valid_utf8 r
            | _ \<Rightarrow> False)
      else if byte_in 0xF0 0xF4 a
      then (case s of
              b # c # d # r \<Rightarrow>
                byte_in (if a = CHR 0xF0 then 0x90 else 0x80) (if a = CHR 0xF4 then 0x8F else 0xBF) b
                \<and> byte_in 0x80 0xBF c \<and> byte_in 0x80 0xBF d \<and> valid_utf8 r
            | _ \<Rightarrow> False)
      else False)"

definition decode_utf8 :: "string \<Rightarrow> exc + string" where
  "decode_utf8 raw = (if valid_utf8 raw then Inr raw else Inl UnicodeDecodeError)"

text \<open>The POST request that arrives with a path and the given bytes as its body.\<close>

definition received :: "string \<Rightarrow> string \<Rightarrow> post_request" where
  "received path raw = \<lparr>post_path = path, post_body = decode_utf8 raw\<rparr>"

text \<open>\<open>query_params.get(k, [None])[0]\<close>.\<close>

definition first_param :: "(string \<times> string list) list \<Rightarrow> string \<Rightarrow> exc + json" where
  "first_param q k =
     (case map_of q k of
        None \<Rightarrow> Inr JNull
      | Some [] \<Rightarrow> Inl IndexError
      | Some (v # vs) \<Rightarrow> Inr (JStr v))"

definition internal_error :: "pylib \<Rightarrow> exc \<Rightarrow> upstream_call list \<Rightarrow> response" where
  "internal_error lib e calls =
     \<lparr>status = 500, payload = error_payload (msg_internal_error @ str_exc lib e),
      upstream = calls\<rparr>"

text \<open>
  The end of both verbs: the status code from the payload and the path, then the
  response; an exception on the way is answered with status 500.
\<close>

definition send :: "pylib \<Rightarrow> string list \<Rightarrow> string \<Rightarrow> exc + json \<Rightarrow> upstream_call list \<Rightarrow> response" where
  "send lib known path routed calls =
     (case routed of
        Inl e \<Rightarrow> internal_error lib e calls
      | Inr response_data \<Rightarrow>
          (case py_contains ''error'' response_data of
             Inl e \<Rightarrow> internal_error lib e calls
           | Inr has_error \<Rightarrow>
               \<lparr>status = (if path \<notin> set known then 404 else if has_error then 400 else 200),
                payload = response_data, upstream = calls\<rparr>))"

definition get_route :: "pylib \<Rightarrow> env \<Rightarrow> get_request \<Rightarrow> (exc + json) \<times> upstream_call list" where
  "get_route lib ev req =
     (if get_path req = ''/news'' \<or> get_path req = ''/get_news''
      then map_prod Inr id (handle_news_request lib ev)
      else if get_path req = ''/weather'' \<or> get_path req = ''/get_weather''
      then (case first_param (get_query req) ''latitude'' of
              Inl e \<Rightarrow> (Inl e, [])
            | Inr latitude \<Rightarrow>
                (case first_param (get_query req) ''longitude'' of
                   Inl e \<Rightarrow> (Inl e, [])
                 | Inr longitude \<Rightarrow> handle_weather_request lib ev latitude longitude))
      else if get_path req = ''/'' \<or> get_path req = ''/health''
      then (Inr health_payload, [])
      else (Inr (JObj [(''error'', JStr msg_unknown_endpoint),
                       (''available_endpoints'',
                        JArr (map JStr [''/news'', ''/get_news'', ''/weather'',
                                        ''/get_weather'', ''/health'']))]), []))"

definition do_GET :: "pylib \<Rightarrow> env \<Rightarrow> get_request \<Rightarrow> response" where
  "do_GET lib ev req =
     send lib get_paths (get_path req) (fst (get_route lib ev req)) (snd (get_route lib ev req))"

definition post_route :: "pylib \<Rightarrow> env \<Rightarrow> string \<Rightarrow> json \<Rightarrow> (exc + json) \<times> upstream_call list" where
  "post_route lib ev path request_data =
     (if path = ''/news'' \<or> path = ''/get_news''
      then map_prod Inr id (handle_news_request lib ev)
      else if path = ''/weather'' \<or> path = ''/get_weather''
      then (case py_get request_data ''latitude'' JNull of
              Inl e \<Rightarrow> (Inl e, [])
            | Inr latitude \<Rightarrow>
                (case py_get request_data ''longitude'' JNull of
                   Inl e \<Rightarrow> (Inl e, [])
                 | Inr longitude \<Rightarrow> handle_weather_request lib ev latitude longitude))
      else (Inr (JObj [(''error'', JStr msg_unknown_endpoint),
                       (''available_endpoints'',
                        JArr (map JStr [''/news'', ''/get_news'', ''/weather'',
                                        ''/get_weather'']))]), []))"

text \<open>
  \<open>do_POST\<close>. Only \<open>json.JSONDecodeError\<close> is answered with status 400 before any
  routing; another exception of \<open>json.loads\<close> (\<open>RecursionError\<close> on a deeply nested
  document) goes to the handler of the whole method, as an exception of the reading and
  decoding does. The body is given to \<open>json.loads\<close> only when it is not empty.
\<close>

definition do_POST :: "pylib \<Rightarrow> env \<Rightarrow> post_request \<Rightarrow> response" where
  "do_POST lib ev req =
     (case post_body req of
        Inl e \<Rightarrow> internal_error lib e []
      | Inr body \<Rightarrow>
          (case (if body \<noteq> [] then json_loads lib body else Inr (JObj [])) of
             Inl (JSONDecodeError m) \<Rightarrow>
               \<lparr>status = 400, payload = error_payload (msg_bad_json @ m), upstream = []\<rparr>
           | Inl e \<Rightarrow> internal_error lib e []
           | Inr request_data \<Rightarrow>
               send lib post_paths (post_path req)
                 (fst (post_route lib ev (post_path req) request_data))
                 (snd (post_route lib ev (post_path req) request_data))))"

section \<open>The tools (dags/news_tool.py, dags/weather_tool.py)\<close>

subsection \<open>String literals of the tools\<close>

definition msg_news_request_failed :: string where
  \<comment> \<open>Error while requesting the news (prefix)\<close>
  "msg_news_request_failed =
     [CHR 0xD0, CHR 0x9E, CHR 0xD1, CHR 0x88, CHR 0xD0, CHR 0xB8, CHR 0xD0, CHR 0xB1]
     @ [CHR 0xD0, CHR 0xBA, CHR 0xD0, CHR 0xB0] @ '' ''
     @ [CHR 0xD0, CHR 0xBF, CHR 0xD1, CHR 0x80, CHR 0xD0, CHR 0xB8] @ '' ''
     @ [CHR 0xD0, CHR 0xB7, CHR 0xD0, CHR 0xB0, CHR 0xD0, CHR 0xBF, CHR 0xD1, CHR 0x80]
     @ [CHR 0xD0, CHR 0xBE, CHR 0xD1, CHR 0x81, CHR 0xD0, CHR 0xB5] @ '' ''
     @ [CHR 0xD0, CHR 0xBD, CHR 0xD0, CHR 0xBE, CHR 0xD0, CHR 0xB2, CHR 0xD0, CHR 0xBE]
     @ [CHR 0xD1, CHR 0x81, CHR 0xD1, CHR 0x82, CHR 0xD0, CHR 0xB5, CHR 0xD0, CHR 0xB9]
     @ '': ''"

definition msg_weather_request_failed :: string where
  \<comment> \<open>Error while requesting the weather (prefix)\<close>
  "msg_weather_request_failed =
     [CHR 0xD0, CHR 0x9E, CHR 0xD1, CHR 0x88, CHR 0xD0, CHR 0xB8, CHR 0xD0, CHR 0xB1]
     @ [CHR 0xD0, CHR 0xBA, CHR 0xD0, CHR 0xB0] @ '' ''
     @ [CHR 0xD0, CHR 0xBF, CHR 0xD1, CHR 0x80, CHR 0xD0, CHR 0xB8] @ '' ''
     @ [CHR 0xD0, CHR 0xB7, CHR 0xD0, CHR 0xB0, CHR 0xD0, CHR 0xBF, CHR 0xD1, CHR 0x80]
     @ [CHR 0xD0, CHR 0xBE, CHR 0xD1, CHR 0x81, CHR 0xD0, CHR 0xB5] @ '' ''
     @ [CHR 0xD0, CHR 0xBF, CHR 0xD0, CHR 0xBE, CHR 0xD0, CHR 0xB3, CHR 0xD0, CHR 0xBE]
     @ [CHR 0xD0, CHR 0xB4, CHR 0xD1, CHR 0x8B] @ '': ''"

definition msg_unknown_function :: string where
  \<comment> \<open>Unknown function (prefix)\<close>
  "msg_unknown_function =
     [CHR 0xD0, CHR 0x9D, CHR 0xD0, CHR 0xB5, CHR 0xD0, CHR 0xB8, CHR 0xD0, CHR 0xB7]
     @ [CHR 0xD0, CHR 0xB2, CHR 0xD0, CHR 0xB5, CHR 0xD1, CHR 0x81, CHR 0xD1, CHR 0x82]
     @ [CHR 0xD0, CHR 0xBD, CHR 0xD0, CHR 0xB0, CHR 0xD1, CHR 0x8F] @ '' ''
     @ [CHR 0xD1, CHR 0x84, CHR 0xD1, CHR 0x83, CHR 0xD0, CHR 0xBD, CHR 0xD0, CHR 0xBA]
     @ [CHR 0xD1, CHR 0x86, CHR 0xD0, CHR 0xB8, CHR 0xD1, CHR 0x8F] @ '': ''"

definition msg_arguments_parse_error :: string where
  \<comment> \<open>Error parsing the arguments (prefix)\<close>
  "msg_arguments_parse_error =
     [CHR 0xD0, CHR 0x9E, CHR 0xD1, CHR 0x88, CHR 0xD0, CHR 0xB8, CHR 0xD0, CHR 0xB1]
     @ [CHR 0xD0, CHR 0xBA, CHR 0xD0, CHR 0xB0] @ '' ''
     @ [CHR 0xD0, CHR 0xBF, CHR 0xD0, CHR 0xB0, CHR 0xD1, CHR 0x80, CHR 0xD1, CHR 0x81]
     @ [CHR 0xD0, CHR 0xB8, CHR 0xD0, CHR 0xBD, CHR 0xD0, CHR 0xB3, CHR 0xD0, CHR 0xB0]
     @ '' ''
     @ [CHR 0xD0, CHR 0xB0, CHR 0xD1, CHR 0x80, CHR 0xD0, CHR 0xB3, CHR 0xD1, CHR 0x83]
     @ [CHR 0xD0, CHR 0xBC, CHR 0xD0, CHR 0xB5, CHR 0xD0, CHR 0xBD, CHR 0xD1, CHR 0x82]
     @ [CHR 0xD0, CHR 0xBE, CHR 0xD0, CHR 0xB2] @ '': ''"

definition msg_no_coordinates :: string where
  \<comment> \<open>The coordinates latitude and/or longitude are not given\<close>
  "msg_no_coordinates =
     [CHR 0xD0, CHR 0x9D, CHR 0xD0, CHR 0xB5] @ '' ''
     @ [CHR 0xD1, CHR 0x83, CHR 0xD0, CHR 0xBA, CHR 0xD0, CHR 0xB0, CHR 0xD0, CHR 0xB7]
     @ [CHR 0xD0, CHR 0xB0, CHR 0xD0, CHR 0xBD, CHR 0xD1, CHR 0x8B] @ '' ''
     @ [CHR 0xD0, CHR 0xBA, CHR 0xD0, CHR 0xBE, CHR 0xD0, CHR 0xBE, CHR 0xD1, CHR 0x80]
     @ [CHR 0xD0, CHR 0xB4, CHR 0xD0, CHR 0xB8, CHR 0xD0, CHR 0xBD, CHR 0xD0, CHR 0xB0]
     @ [CHR 0xD1, CHR 0x82, CHR 0xD1, CHR 0x8B] @ '' latitude '' @ [CHR 0xD0, CHR 0xB8]
     @ ''/'' @ [CHR 0xD0, CHR 0xB8, CHR 0xD0, CHR 0xBB, CHR 0xD0, CHR 0xB8] @ '' longitude''"

definition news_tool_description :: string where
  \<comment> \<open>Gets current Bitcoin news headlines. Returns the list of headlines of the latest news.\<close>
  "news_tool_description =
     [CHR 0xD0, CHR 0x9F, CHR 0xD0, CHR 0xBE, CHR 0xD0, CHR 0xBB, CHR 0xD1, CHR 0x83]
     @ [CHR 0xD1, CHR 0x87, CHR 0xD0, CHR 0xB0, CHR 0xD0, CHR 0xB5, CHR 0xD1, CHR 0x82]
     @ '' ''
     @ [CHR 0xD0, CHR 0xB0, CHR 0xD0, CHR 0xBA, CHR 0xD1, CHR 0x82, CHR 0xD1, CHR 0x83]
     @ [CHR 0xD0, CHR 0xB0, CHR 0xD0, CHR 0xBB, CHR 0xD1, CHR 0x8C, CHR 0xD0, CHR 0xBD]
     @ [CHR 0xD1, CHR 0x8B, CHR 0xD0, CHR 0xB5] @ '' ''
     @ [CHR 0xD0, CHR 0xB7, CHR 0xD0, CHR 0xB0, CHR 0xD0, CHR 0xB3, CHR 0xD0, CHR 0xBE]
     @ [CHR 0xD0, CHR 0xBB, CHR 0xD0, CHR 0xBE, CHR 0xD0, CHR 0xB2, CHR 0xD0, CHR 0xBA]
     @ [CHR 0xD0, CHR 0xB8] @ '' ''
     @ [CHR 0xD0, CHR 0xBD, CHR 0xD0, CHR 0xBE, CHR 0xD0, CHR 0xB2, CHR 0xD0, CHR 0xBE]
     @ [CHR 0xD1, CHR 0x81, CHR 0xD1, CHR 0x82, CHR 0xD0, CHR 0xB5, CHR 0xD0, CHR 0xB9]
     @ '' '' @ [CHR 0xD0, CHR 0xBE] @ '' Bitcoin. ''
     @ [CHR 0xD0, CHR 0x92, CHR 0xD0, CHR 0xBE, CHR 0xD0, CHR 0xB7, CHR 0xD0, CHR 0xB2]
     @ [CHR 0xD1, CHR 0x80, CHR 0xD0, CHR 0xB0, CHR 0xD1, CHR 0x89, CHR 0xD0, CHR 0xB0]
     @ [CHR 0xD0, CHR 0xB5, CHR 0xD1, CHR 0x82] @ '' ''
     @ [CHR 0xD1, CHR 0x81, CHR 0xD0, CHR 0xBF, CHR 0xD0, CHR 0xB8, CHR 0xD1, CHR 0x81]
     @ [CHR 0xD0, CHR 0xBE, CHR 0xD0, CHR 0xBA] @ '' ''
     @ [CHR 0xD0, CHR 0xB7, CHR 0xD0, CHR 0xB0, CHR 0xD0, CHR 0xB3, CHR 0xD0, CHR 0xBE]
     @ [CHR 0xD0, CHR 0xBB, CHR 0xD0, CHR 0xBE, CHR 0xD0, CHR 0xB2, CHR 0xD0, CHR 0xBA]
     @ [CHR 0xD0, CHR 0xBE, CHR 0xD0, CHR 0xB2] @ '' ''
     @ [CHR 0xD0, CHR 0xB8, CHR 0xD0, CHR 0xB7] @ '' ''
     @ [CHR 0xD0, CHR 0xBF, CHR 0xD0, CHR 0xBE, CHR 0xD1, CHR 0x81, CHR 0xD0, CHR 0xBB]
     @ [CHR 0xD0, CHR 0xB5, CHR 0xD0, CHR 0xB4, CHR 0xD0, CHR 0xBD, CHR 0xD0, CHR 0xB8]
     @ [CHR 0xD1, CHR 0x85] @ '' ''
     @ [CHR 0xD0, CHR 0xBD, CHR 0xD0, CHR 0xBE, CHR 0xD0, CHR 0xB2, CHR 0xD0, CHR 0xBE]
     @ [CHR 0xD1, CHR 0x81, CHR 0xD1, CHR 0x82, CHR 0xD0, CHR 0xB5, CHR 0xD0, CHR 0xB9]
     @ ''.''"

definition weather_tool_description :: string where
  \<comment> \<open>Gets current weather for geographic coordinates. Returns temperature, condition, wind speed and humidity.\<close>
  "weather_tool_description =
     [CHR 0xD0, CHR 0x9F, CHR 0xD0, CHR 0xBE, CHR 0xD0, CHR 0xBB, CHR 0xD1, CHR 0x83]
     @ [CHR 0xD1, CHR 0x87, CHR 0xD0, CHR 0xB0, CHR 0xD0, CHR 0xB5, CHR 0xD1, CHR 0x82]
     @ '' ''
     @ [CHR 0xD0, CHR 0xB0, CHR 0xD0, CHR 0xBA, CHR 0xD1, CHR 0x82, CHR 0xD1, CHR 0x83]
     @ [CHR 0xD0, CHR 0xB0, CHR 0xD0, CHR 0xBB, CHR 0xD1, CHR 0x8C, CHR 0xD0, CHR 0xBD]
     @ [CHR 0xD1, CHR 0x83, CHR 0xD1, CHR 0x8E] @ '' ''
     @ [CHR 0xD0, CHR 0xB8, CHR 0xD0, CHR 0xBD, CHR 0xD1, CHR 0x84, CHR 0xD0, CHR 0xBE]
     @ [CHR 0xD1, CHR 0x80, CHR 0xD0, CHR 0xBC, CHR 0xD0, CHR 0xB0, CHR 0xD1, CHR 0x86]
     @ [CHR 0xD0, CHR 0xB8, CHR 0xD1, CHR 0x8E] @ '' '' @ [CHR 0xD0, CHR 0xBE] @ '' ''
     @ [CHR 0xD0, CHR 0xBF, CHR 0xD0, CHR 0xBE, CHR 0xD0, CHR 0xB3, CHR 0xD0, CHR 0xBE]
     @ [CHR 0xD0, CHR 0xB4, CHR 0xD0, CHR 0xB5] @ '' ''
     @ [CHR 0xD0, CHR 0xBF, CHR 0xD0, CHR 0xBE] @ '' ''
     @ [CHR 0xD0, CHR 0xB3, CHR 0xD0, CHR 0xB5, CHR 0xD0, CHR 0xBE, CHR 0xD0, CHR 0xB3]
     @ [CHR 0xD1, CHR 0x80, CHR 0xD0, CHR 0xB0, CHR 0xD1, CHR 0x84, CHR 0xD0, CHR 0xB8]
     @ [CHR 0xD1, CHR 0x87, CHR 0xD0, CHR 0xB5, CHR 0xD1, CHR 0x81, CHR 0xD0, CHR 0xBA]
     @ [CHR 0xD0, CHR 0xB8, CHR 0xD0, CHR 0xBC] @ '' ''
     @ [CHR 0xD0, CHR 0xBA, CHR 0xD0, CHR 0xBE, CHR 0xD0, CHR 0xBE, CHR 0xD1, CHR 0x80]
     @ [CHR 0xD0, CHR 0xB4, CHR 0xD0, CHR 0xB8, CHR 0xD0, CHR 0xBD, CHR 0xD0, CHR 0xB0]
     @ [CHR 0xD1, CHR 0x82, CHR 0xD0, CHR 0xB0, CHR 0xD0, CHR 0xBC] @ ''. ''
     @ [CHR 0xD0, CHR 0x92, CHR 0xD0, CHR 0xBE, CHR 0xD0, CHR 0xB7, CHR 0xD0, CHR 0xB2]
     @ [CHR 0xD1, CHR 0x80, CHR 0xD0, CHR 0xB0, CHR 0xD1, CHR 0x89, CHR 0xD0, CHR 0xB0]
     @ [CHR 0xD0, CHR 0xB5, CHR 0xD1, CHR 0x82] @ '' ''
     @ [CHR 0xD1, CHR 0x82, CHR 0xD0, CHR 0xB5, CHR 0xD0, CHR 0xBC, CHR 0xD0, CHR 0xBF]
     @ [CHR 0xD0, CHR 0xB5, CHR 0xD1, CHR 0x80, CHR 0xD0, CHR 0xB0, CHR 0xD1, CHR 0x82]
     @ [CHR 0xD1, CHR 0x83, CHR 0xD1, CHR 0x80, CHR 0xD1, CHR 0x83] @ '', ''
     @ [CHR 0xD1, CHR 0x83, CHR 0xD1, CHR 0x81, CHR 0xD0, CHR 0xBB, CHR 0xD0, CHR 0xBE]
     @ [CHR 0xD0, CHR 0xB2, CHR 0xD0, CHR 0xB8, CHR 0xD1, CHR 0x8F] @ '', ''
     @ [CHR 0xD1, CHR 0x81, CHR 0xD0, CHR 0xBA, CHR 0xD0, CHR 0xBE, CHR 0xD1, CHR 0x80]
     @ [CHR 0xD0, CHR 0xBE, CHR 0xD1, CHR 0x81, CHR 0xD1, CHR 0x82, CHR 0xD1, CHR 0x8C]
     @ '' ''
     @ [CHR 0xD0, CHR 0xB2, CHR 0xD0, CHR 0xB5, CHR 0xD1, CHR 0x82, CHR 0xD1, CHR 0x80]
     @ [CHR 0xD0, CHR 0xB0] @ '' '' @ [CHR 0xD0, CHR 0xB8] @ '' ''
     @ [CHR 0xD0, CHR 0xB2, CHR 0xD0, CHR 0xBB, CHR 0xD0, CHR 0xB0, CHR 0xD0, CHR 0xB6]
     @ [CHR 0xD0, CHR 0xBD, CHR 0xD0, CHR 0xBE, CHR 0xD1, CHR 0x81, CHR 0xD1, CHR 0x82]
     @ [CHR 0xD1, CHR 0x8C] @ ''.''"

definition latitude_description :: string where
  \<comment> \<open>Latitude in degrees (from -90 to 90)\<close>
  "latitude_description =
     [CHR 0xD0, CHR 0xA8, CHR 0xD0, CHR 0xB8, CHR 0xD1, CHR 0x80, CHR 0xD0, CHR 0xBE]
     @ [CHR 0xD1, CHR 0x82, CHR 0xD0, CHR 0xB0] @ '' '' @ [CHR 0xD0, CHR 0xB2] @ '' ''
     @ [CHR 0xD0, CHR 0xB3, CHR 0xD1, CHR 0x80, CHR 0xD0, CHR 0xB0, CHR 0xD0, CHR 0xB4]
     @ [CHR 0xD1, CHR 0x83, CHR 0xD1, CHR 0x81, CHR 0xD0, CHR 0xB0, CHR 0xD1, CHR 0x85]
     @ '' ('' @ [CHR 0xD0, CHR 0xBE, CHR 0xD1, CHR 0x82] @ '' -90 ''
     @ [CHR 0xD0, CHR 0xB4, CHR 0xD0, CHR 0xBE] @ '' 90)''"

definition longitude_description :: string where
  \<comment> \<open>Longitude in degrees (from -180 to 180)\<close>
  "longitude_description =
     [CHR 0xD0, CHR 0x94, CHR 0xD0, CHR 0xBE, CHR 0xD0, CHR 0xBB, CHR 0xD0, CHR 0xB3]
     @ [CHR 0xD0, CHR 0xBE, CHR 0xD1, CHR 0x82, CHR 0xD0, CHR 0xB0] @ '' ''
     @ [CHR 0xD0, CHR 0xB2] @ '' ''
     @ [CHR 0xD0, CHR 0xB3, CHR 0xD1, CHR 0x80, CHR 0xD0, CHR 0xB0, CHR 0xD0, CHR 0xB4]
     @ [CHR 0xD1, CHR 0x83, CHR 0xD1, CHR 0x81, CHR 0xD0, CHR 0xB0, CHR 0xD1, CHR 0x85]
     @ '' ('' @ [CHR 0xD0, CHR 0xBE, CHR 0xD1, CHR 0x82] @ '' -180 ''
     @ [CHR 0xD0, CHR 0xB4, CHR 0xD0, CHR 0xBE] @ '' 180)''"

subsection \<open>Requests to the tool server\<close>

text \<open>The requests a tool sends to the tool server, in order; the weather one with its two parameters.\<close>

datatype tool_request = NewsServerGet | WeatherServerGet json json

text \<open>
  The \<open>try\<close> block shared by \<open>get_news_titles\<close> and \<open>get_weather\<close>: the request,
  \<open>raise_for_status\<close> (an \<open>HTTPError\<close>, whose text is the library's, for a status from
  400 to 599) and \<open>response.json()\<close>.
\<close>

definition fetch_json :: "pylib \<Rightarrow> http_outcome \<Rightarrow> exc + json" where
  "fetch_json lib outcome =
     (case outcome of
        Raises e \<Rightarrow> Inl e
      | Response status_code body_text body \<Rightarrow>
          if 400 \<le> status_code \<and> status_code < 600
          then Inl (ReqException (http_error_text lib status_code))
          else response_json body)"

text \<open>
  \<open>get_news_titles\<close>, given what the tool server answers: a \<open>RequestException\<close> becomes
  an error payload, any other exception leaves the function.
\<close>

definition get_news_titles ::
  "pylib \<Rightarrow> http_outcome \<Rightarrow> (exc + json) \<times> tool_request list" where
  "get_news_titles lib outcome =
     (case fetch_json lib outcome of
        Inr v \<Rightarrow> (Inr v, [NewsServerGet])
      | Inl e \<Rightarrow>
          if is_RequestException e
          then (Inr (JObj [(''error'', JStr (msg_news_request_failed @ str_exc lib e))]),
                [NewsServerGet])
          else (Inl e, [NewsServerGet]))"

definition get_weather ::
  "pylib \<Rightarrow> (json \<Rightarrow> json \<Rightarrow> http_outcome) \<Rightarrow> json \<Rightarrow> json
     \<Rightarrow> (exc + json) \<times> tool_request list" where
  "get_weather lib server latitude longitude =
     (case fetch_json lib (server latitude longitude) of
        Inr v \<Rightarrow> (Inr v, [WeatherServerGet latitude longitude])
      | Inl e \<Rightarrow>
          if is_RequestException e
          then (Inr (JObj [(''error'', JStr (msg_weather_request_failed @ str_exc lib e)),
                          (''latitude'', latitude), (''longitude'', longitude)]),
                [WeatherServerGet latitude longitude])
          else (Inl e, [WeatherServerGet latitude longitude]))"

subsection \<open>Tool descriptors\<close>

definition NEWS_TOOL_DEFINITION :: json where
  "NEWS_TOOL_DEFINITION =
     JObj [(''type'', JStr ''function''),
           (''function'',
            JObj [(''name'', JStr ''news''),
                  (''description'', JStr news_tool_description),
                  (''parameters'',
                   JObj [(''type'', JStr ''object''),
                         (''properties'', JObj []),
                         (''required'', JArr [])])])]"

definition WEATHER_TOOL_DEFINITION :: json where
  "WEATHER_TOOL_DEFINITION =
     JObj [(''type'', JStr ''function''),
           (''function'',
            JObj [(''name'', JStr ''weather''),
                  (''description'', JStr weather_tool_description),
                  (''parameters'',
                   JObj [(''type'', JStr ''object''),
                         (''properties'',
                          JObj [(''latitude'',
                                 JObj [(''type'', JStr ''number''),
                                       (''description'', JStr latitude_description)]),
                                (''longitude'',
                                 JObj [(''type'', JStr ''number''),
                                       (''description'', JStr longitude_description)])]),
                         (''required'', JArr [JStr ''latitude'', JStr ''longitude''])])])]"

definition get_news_tool :: json where
  "get_news_tool = NEWS_TOOL_DEFINITION"

definition get_weather_tool :: json where
  "get_weather_tool = WEATHER_TOOL_DEFINITION"

subsection \<open>Dispatch\<close>

text \<open>\<open>str(v)\<close> inside an f-string: a string is printed as it is.\<close>

definition py_str :: "pylib \<Rightarrow> json \<Rightarrow> string" where
  "py_str lib v = (case v of JStr s \<Rightarrow> s | _ \<Rightarrow> str_value lib v)"

text \<open>
  The decoding of \<open>arguments\<close> in both dispatchers: a string goes through
  \<open>json.loads\<close>, anything else is kept. \<open>Inr (Inl payload)\<close> is the early return of the
  error payload after a \<open>JSONDecodeError\<close>.
\<close>

definition decode_arguments :: "pylib \<Rightarrow> json \<Rightarrow> exc + (json + json)" where
  "decode_arguments lib arguments =
     (case arguments of
        JStr s \<Rightarrow>
          (case json_loads lib s of
             Inr v \<Rightarrow> Inr (Inr v)
           | Inl (JSONDecodeError m) \<Rightarrow>
               Inr (Inl (JObj [(''error'', JStr (msg_arguments_parse_error @ m))]))
           | Inl e \<Rightarrow> Inl e)
      | _ \<Rightarrow> Inr (Inr arguments))"

text \<open>\<open>execute_news_tool\<close>: \<open>tool_call\<close> is a dict, given by its items.\<close>

definition execute_news_tool ::
  "pylib \<Rightarrow> http_outcome \<Rightarrow> (string \<times> json) list
     \<Rightarrow> (exc + json) \<times> tool_request list" where
  "execute_news_tool lib outcome tool_call =
     (let function_name = (case map_of tool_call ''name'' of None \<Rightarrow> JStr [] | Some v \<Rightarrow> v) in
      if function_name \<noteq> JStr ''news''
      then (Inr (JObj [(''error'', JStr (msg_unknown_function @ py_str lib function_name))]), [])
      else
        case decode_arguments lib
               (case map_of tool_call ''arguments'' of None \<Rightarrow> JObj [] | Some v \<Rightarrow> v) of
          Inl e \<Rightarrow> (Inl e, [])
        | Inr (Inl error) \<Rightarrow> (Inr error, [])
        | Inr (Inr arguments) \<Rightarrow> get_news_titles lib outcome)"

definition execute_weather_tool ::
  "pylib \<Rightarrow> (json \<Rightarrow> json \<Rightarrow> http_outcome) \<Rightarrow> (string \<times> json) list
     \<Rightarrow> (exc + json) \<times> tool_request list" where
  "execute_weather_tool lib server tool_call =
     (let function_name = (case map_of tool_call ''name'' of None \<Rightarrow> JStr [] | Some v \<Rightarrow> v) in
      if function_name \<noteq> JStr ''weather''
      then (Inr (JObj [(''error'', JStr (msg_unknown_function @ py_str lib function_name))]), [])
      else
        case decode_arguments lib
               (case map_of tool_call ''arguments'' of None \<Rightarrow> JObj [] | Some v \<Rightarrow> v) of
          Inl e \<Rightarrow> (Inl e, [])
        | Inr (Inl error) \<Rightarrow> (Inr error, [])
        | Inr (Inr arguments) \<Rightarrow>
            (case py_get arguments ''latitude'' JNull of
               Inl e \<Rightarrow> (Inl e, [])
             | Inr latitude \<Rightarrow>
                 (case py_get arguments ''longitude'' JNull of
                    Inl e \<Rightarrow> (Inl e, [])
                  | Inr longitude \<Rightarrow>
                      if latitude = JNull \<or> longitude = JNull
                      then (Inr (JObj [(''error'', JStr msg_no_coordinates)]), [])
                      else get_weather lib server latitude longitude)))"

subsection \<open>Registration\<close>

text \<open>
  The scan of \<open>register_news_tool\<close> and \<open>register_weather_tool\<close>: is there a tool with
  \<open>tool.get("function", {}).get("name") == name\<close>? The scan stops at the first one.
\<close>

fun has_tool :: "string \<Rightarrow> json list \<Rightarrow> exc + bool" where
  "has_tool n [] = Inr False"
| "has_tool n (tool # tools) =
     thn (py_get tool ''function'' (JObj [])) (\<lambda>function.
     thn (py_get function ''name'' JNull) (\<lambda>name.
       if name = JStr n then Inr True else has_tool n tools))"

definition register_news_tool :: "json list option \<Rightarrow> exc + json list" where
  "register_news_tool tools_list =
     (let tools = (case tools_list of None \<Rightarrow> [] | Some ts \<Rightarrow> ts) in
      thn (has_tool ''news'' tools) (\<lambda>found.
        if found then Inr tools else Inr (tools @ [get_news_tool])))"

definition register_weather_tool :: "json list option \<Rightarrow> exc + json list" where
  "register_weather_tool tools_list =
     (let tools = (case tools_list of None \<Rightarrow> [] | Some ts \<Rightarrow> ts) in
      thn (has_tool ''weather'' tools) (\<lambda>found.
        if found then Inr tools else Inr (tools @ [get_weather_tool])))"

text \<open>A sequence of registrations, each on the list the one before returned.\<close>

datatype registration = RegisterNews | RegisterWeather

fun register_all :: "registration list \<Rightarrow> json list option \<Rightarrow> exc + json list" where
  "register_all [] tools_list = Inr (case tools_list of None \<Rightarrow> [] | Some ts \<Rightarrow> ts)"
| "register_all (RegisterNews # rs) tools_list =
     thn (register_news_tool tools_list) (\<lambda>ts. register_all rs (Some ts))"
| "register_all (RegisterWeather # rs) tools_list =
     thn (register_weather_tool tools_list) (\<lambda>ts. register_all rs (Some ts))"

text \<open>The name under which the scan sees a descriptor, and the descriptors seen under a name.\<close>

definition tool_name :: "json \<Rightarrow> exc + json" where
  "tool_name tool = thn (py_get tool ''function'' (JObj [])) (\<lambda>function. py_get function ''name'' JNull)"

definition descriptors_named :: "string \<Rightarrow> json list \<Rightarrow> json list" where
  "descriptors_named n tools = filter (\<lambda>tool. tool_name tool = Inr (JStr n)) tools"

text \<open>The scan of a list goes through when every element answers both \<open>.get\<close> calls.\<close>

definition scan_succeeds :: "json list \<Rightarrow> bool" where
  "scan_succeeds tools = list_all (\<lambda>tool. case tool_name tool of Inl e \<Rightarrow> False | Inr v \<Rightarrow> True) tools"

section \<open>The summarising task (dags/bitcoin_news_summary_dag.py)\<close>

subsection \<open>String literals of the task\<close>

definition msg_no_news_data :: string where
  \<comment> \<open>Could not get the news data\<close>
  "msg_no_news_data =
     [CHR 0xD0, CHR 0x9D, CHR 0xD0, CHR 0xB5] @ '' ''
     @ [CHR 0xD1, CHR 0x83, CHR 0xD0, CHR 0xB4, CHR 0xD0, CHR 0xB0, CHR 0xD0, CHR 0xBB]
     @ [CHR 0xD0, CHR 0xBE, CHR 0xD1, CHR 0x81, CHR 0xD1, CHR 0x8C] @ '' ''
     @ [CHR 0xD0, CHR 0xBF, CHR 0xD0, CHR 0xBE, CHR 0xD0, CHR 0xBB, CHR 0xD1, CHR 0x83]
     @ [CHR 0xD1, CHR 0x87, CHR 0xD0, CHR 0xB8, CHR 0xD1, CHR 0x82, CHR 0xD1, CHR 0x8C]
     @ '' ''
     @ [CHR 0xD0, CHR 0xB4, CHR 0xD0, CHR 0xB0, CHR 0xD0, CHR 0xBD, CHR 0xD0, CHR 0xBD]
     @ [CHR 0xD1, CHR 0x8B, CHR 0xD0, CHR 0xB5] @ '' ''
     @ [CHR 0xD0, CHR 0xBD, CHR 0xD0, CHR 0xBE, CHR 0xD0, CHR 0xB2, CHR 0xD0, CHR 0xBE]
     @ [CHR 0xD1, CHR 0x81, CHR 0xD1, CHR 0x82, CHR 0xD0, CHR 0xB5, CHR 0xD0, CHR 0xB9]"

definition msg_no_news_found :: string where
  \<comment> \<open>No news found.\<close>
  "msg_no_news_found =
     [CHR 0xD0, CHR 0x9D, CHR 0xD0, CHR 0xBE, CHR 0xD0, CHR 0xB2, CHR 0xD0, CHR 0xBE]
     @ [CHR 0xD1, CHR 0x81, CHR 0xD1, CHR 0x82, CHR 0xD0, CHR 0xB5, CHR 0xD0, CHR 0xB9]
     @ '' '' @ [CHR 0xD0, CHR 0xBD, CHR 0xD0, CHR 0xB5] @ '' ''
     @ [CHR 0xD0, CHR 0xBD, CHR 0xD0, CHR 0xB0, CHR 0xD0, CHR 0xB9, CHR 0xD0, CHR 0xB4]
     @ [CHR 0xD0, CHR 0xB5, CHR 0xD0, CHR 0xBD, CHR 0xD0, CHR 0xBE] @ ''.''"

definition prompt_head :: string where
  \<comment> \<open>Analyse the following Bitcoin news and write a short summary in Russian. News: (before the list)\<close>
  "prompt_head =
     [CHR 0xD0, CHR 0x9F, CHR 0xD1, CHR 0x80, CHR 0xD0, CHR 0xBE, CHR 0xD0, CHR 0xB0]
     @ [CHR 0xD0, CHR 0xBD, CHR 0xD0, CHR 0xB0, CHR 0xD0, CHR 0xBB, CHR 0xD0, CHR 0xB8]
     @ [CHR 0xD0, CHR 0xB7, CHR 0xD0, CHR 0xB8, CHR 0xD1, CHR 0x80, CHR 0xD1, CHR 0x83]
     @ [CHR 0xD0, CHR 0xB9] @ '' ''
     @ [CHR 0xD1, CHR 0x81, CHR 0xD0, CHR 0xBB, CHR 0xD0, CHR 0xB5, CHR 0xD0, CHR 0xB4]
     @ [CHR 0xD1, CHR 0x83, CHR 0xD1, CHR 0x8E, CHR 0xD1, CHR 0x89, CHR 0xD0, CHR 0xB8]
     @ [CHR 0xD0, CHR 0xB5] @ '' ''
     @ [CHR 0xD0, CHR 0xBD, CHR 0xD0, CHR 0xBE, CHR 0xD0, CHR 0xB2, CHR 0xD0, CHR 0xBE]
     @ [CHR 0xD1, CHR 0x81, CHR 0xD1, CHR 0x82, CHR 0xD0, CHR 0xB8] @ '' ''
     @ [CHR 0xD0, CHR 0xBE] @ '' Bitcoin '' @ [CHR 0xD0, CHR 0xB8] @ '' ''
     @ [CHR 0xD1, CHR 0x81, CHR 0xD0, CHR 0xBE, CHR 0xD0, CHR 0xB7, CHR 0xD0, CHR 0xB4]
     @ [CHR 0xD0, CHR 0xB0, CHR 0xD0, CHR 0xB9] @ '' ''
     @ [CHR 0xD0, CHR 0xBA, CHR 0xD1, CHR 0x80, CHR 0xD0, CHR 0xB0, CHR 0xD1, CHR 0x82]
     @ [CHR 0xD0, CHR 0xBA, CHR 0xD0, CHR 0xBE, CHR 0xD0, CHR 0xB5] @ '' ''
     @ [CHR 0xD1, CHR 0x81, CHR 0xD0, CHR 0xB0, CHR 0xD0, CHR 0xBC, CHR 0xD0, CHR 0xBC]
     @ [CHR 0xD0, CHR 0xB0, CHR 0xD1, CHR 0x80, CHR 0xD0, CHR 0xB8] @ '' ''
     @ [CHR 0xD0, CHR 0xBD, CHR 0xD0, CHR 0xB0] @ '' ''
     @ [CHR 0xD1, CHR 0x80, CHR 0xD1, CHR 0x83, CHR 0xD1, CHR 0x81, CHR 0xD1, CHR 0x81]
     @ [CHR 0xD0, CHR 0xBA, CHR 0xD0, CHR 0xBE, CHR 0xD0, CHR 0xBC] @ '' ''
     @ [CHR 0xD1, CHR 0x8F, CHR 0xD0, CHR 0xB7, CHR 0xD1, CHR 0x8B, CHR 0xD0, CHR 0xBA]
     @ [CHR 0xD0, CHR 0xB5] @ ''.''
     @ [CHR 0x0A, CHR 0x0A, CHR 0xD0, CHR 0x9D, CHR 0xD0, CHR 0xBE, CHR 0xD0, CHR 0xB2]
     @ [CHR 0xD0, CHR 0xBE, CHR 0xD1, CHR 0x81, CHR 0xD1, CHR 0x82, CHR 0xD0, CHR 0xB8]
     @ '':'' @ [CHR 0x0A]"

definition prompt_tail :: string where
  \<comment> \<open>Write a structured summary with an overall assessment, key events and trends, important details; at most 500 words (after the list)\<close>
  "prompt_tail =
     [CHR 0x0A, CHR 0x0A, CHR 0xD0, CHR 0xA1, CHR 0xD0, CHR 0xBE, CHR 0xD0, CHR 0xB7]
     @ [CHR 0xD0, CHR 0xB4, CHR 0xD0, CHR 0xB0, CHR 0xD0, CHR 0xB9] @ '' ''
     @ [CHR 0xD1, CHR 0x81, CHR 0xD1, CHR 0x82, CHR 0xD1, CHR 0x80, CHR 0xD1, CHR 0x83]
     @ [CHR 0xD0, CHR 0xBA, CHR 0xD1, CHR 0x82, CHR 0xD1, CHR 0x83, CHR 0xD1, CHR 0x80]
     @ [CHR 0xD0, CHR 0xB8, CHR 0xD1, CHR 0x80, CHR 0xD0, CHR 0xBE, CHR 0xD0, CHR 0xB2]
     @ [CHR 0xD0, CHR 0xB0, CHR 0xD0, CHR 0xBD, CHR 0xD0, CHR 0xBD, CHR 0xD0, CHR 0xBE]
     @ [CHR 0xD0, CHR 0xB5] @ '' ''
     @ [CHR 0xD1, CHR 0x81, CHR 0xD0, CHR 0xB0, CHR 0xD0, CHR 0xBC, CHR 0xD0, CHR 0xBC]
     @ [CHR 0xD0, CHR 0xB0, CHR 0xD1, CHR 0x80, CHR 0xD0, CHR 0xB8] @ '', ''
     @ [CHR 0xD0, CHR 0xBA, CHR 0xD0, CHR 0xBE, CHR 0xD1, CHR 0x82, CHR 0xD0, CHR 0xBE]
     @ [CHR 0xD1, CHR 0x80, CHR 0xD0, CHR 0xBE, CHR 0xD0, CHR 0xB5] @ '' ''
     @ [CHR 0xD0, CHR 0xB2, CHR 0xD0, CHR 0xBA, CHR 0xD0, CHR 0xBB, CHR 0xD1, CHR 0x8E]
     @ [CHR 0xD1, CHR 0x87, CHR 0xD0, CHR 0xB0, CHR 0xD0, CHR 0xB5, CHR 0xD1, CHR 0x82]
     @ '':'' @ [CHR 0x0A] @ ''1. ''
     @ [CHR 0xD0, CHR 0x9E, CHR 0xD0, CHR 0xB1, CHR 0xD1, CHR 0x89, CHR 0xD1, CHR 0x83]
     @ [CHR 0xD1, CHR 0x8E] @ '' ''
     @ [CHR 0xD0, CHR 0xBE, CHR 0xD1, CHR 0x86, CHR 0xD0, CHR 0xB5, CHR 0xD0, CHR 0xBD]
     @ [CHR 0xD0, CHR 0xBA, CHR 0xD1, CHR 0x83] @ '' ''
     @ [CHR 0xD1, CHR 0x81, CHR 0xD0, CHR 0xB8, CHR 0xD1, CHR 0x82, CHR 0xD1, CHR 0x83]
     @ [CHR 0xD0, CHR 0xB0, CHR 0xD1, CHR 0x86, CHR 0xD0, CHR 0xB8, CHR 0xD0, CHR 0xB8]
     @ '' '' @ [CHR 0xD0, CHR 0xBD, CHR 0xD0, CHR 0xB0] @ '' ''
     @ [CHR 0xD1, CHR 0x80, CHR 0xD1, CHR 0x8B, CHR 0xD0, CHR 0xBD, CHR 0xD0, CHR 0xBA]
     @ [CHR 0xD0, CHR 0xB5] @ '' Bitcoin'' @ [CHR 0x0A] @ ''2. ''
     @ [CHR 0xD0, CHR 0x9A, CHR 0xD0, CHR 0xBB, CHR 0xD1, CHR 0x8E, CHR 0xD1, CHR 0x87]
     @ [CHR 0xD0, CHR 0xB5, CHR 0xD0, CHR 0xB2, CHR 0xD1, CHR 0x8B, CHR 0xD0, CHR 0xB5]
     @ '' ''
     @ [CHR 0xD1, CHR 0x81, CHR 0xD0, CHR 0xBE, CHR 0xD0, CHR 0xB1, CHR 0xD1, CHR 0x8B]
     @ [CHR 0xD1, CHR 0x82, CHR 0xD0, CHR 0xB8, CHR 0xD1, CHR 0x8F] @ '' ''
     @ [CHR 0xD0, CHR 0xB8] @ '' ''
     @ [CHR 0xD1, CHR 0x82, CHR 0xD1, CHR 0x80, CHR 0xD0, CHR 0xB5, CHR 0xD0, CHR 0xBD]
     @ [CHR 0xD0, CHR 0xB4, CHR 0xD1, CHR 0x8B, CHR 0x0A] @ ''3. ''
     @ [CHR 0xD0, CHR 0x92, CHR 0xD0, CHR 0xB0, CHR 0xD0, CHR 0xB6, CHR 0xD0, CHR 0xBD]
     @ [CHR 0xD1, CHR 0x8B, CHR 0xD0, CHR 0xB5] @ '' ''
     @ [CHR 0xD0, CHR 0xB4, CHR 0xD0, CHR 0xB5, CHR 0xD1, CHR 0x82, CHR 0xD0, CHR 0xB0]
     @ [CHR 0xD0, CHR 0xBB, CHR 0xD0, CHR 0xB8] @ '' ''
     @ [CHR 0xD0, CHR 0xB8, CHR 0xD0, CHR 0xB7] @ '' ''
     @ [CHR 0xD0, CHR 0xBD, CHR 0xD0, CHR 0xBE, CHR 0xD0, CHR 0xB2, CHR 0xD0, CHR 0xBE]
     @ [CHR 0xD1, CHR 0x81, CHR 0xD1, CHR 0x82, CHR 0xD0, CHR 0xB5, CHR 0xD0, CHR 0xB9]
     @ [CHR 0x0A, CHR 0x0A, CHR 0xD0, CHR 0xA1, CHR 0xD0, CHR 0xB0, CHR 0xD0, CHR 0xBC]
     @ [CHR 0xD0, CHR 0xBC, CHR 0xD0, CHR 0xB0, CHR 0xD1, CHR 0x80, CHR 0xD0, CHR 0xB8]
     @ '' ''
     @ [CHR 0xD0, CHR 0xB4, CHR 0xD0, CHR 0xBE, CHR 0xD0, CHR 0xBB, CHR 0xD0, CHR 0xB6]
     @ [CHR 0xD0, CHR 0xBD, CHR 0xD0, CHR 0xBE] @ '' ''
     @ [CHR 0xD0, CHR 0xB1, CHR 0xD1, CHR 0x8B, CHR 0xD1, CHR 0x82, CHR 0xD1, CHR 0x8C]
     @ '' ''
     @ [CHR 0xD0, CHR 0xB8, CHR 0xD0, CHR 0xBD, CHR 0xD1, CHR 0x84, CHR 0xD0, CHR 0xBE]
     @ [CHR 0xD1, CHR 0x80, CHR 0xD0, CHR 0xBC, CHR 0xD0, CHR 0xB0, CHR 0xD1, CHR 0x82]
     @ [CHR 0xD0, CHR 0xB8, CHR 0xD0, CHR 0xB2, CHR 0xD0, CHR 0xBD, CHR 0xD1, CHR 0x8B]
     @ [CHR 0xD0, CHR 0xBC] @ '', '' @ [CHR 0xD0, CHR 0xBD, CHR 0xD0, CHR 0xBE] @ '' ''
     @ [CHR 0xD0, CHR 0xBA, CHR 0xD1, CHR 0x80, CHR 0xD0, CHR 0xB0, CHR 0xD1, CHR 0x82]
     @ [CHR 0xD0, CHR 0xBA, CHR 0xD0, CHR 0xB8, CHR 0xD0, CHR 0xBC] @ '' (''
     @ [CHR 0xD0, CHR 0xBD, CHR 0xD0, CHR 0xB5] @ '' ''
     @ [CHR 0xD0, CHR 0xB1, CHR 0xD0, CHR 0xBE, CHR 0xD0, CHR 0xBB, CHR 0xD0, CHR 0xB5]
     @ [CHR 0xD0, CHR 0xB5] @ '' 500 ''
     @ [CHR 0xD1, CHR 0x81, CHR 0xD0, CHR 0xBB, CHR 0xD0, CHR 0xBE, CHR 0xD0, CHR 0xB2]
     @ '').''"

definition msg_gigachat_missing :: string where
  \<comment> \<open>The gigachat library is not installed\<close>
  "msg_gigachat_missing =
     [CHR 0xD0, CHR 0x91, CHR 0xD0, CHR 0xB8, CHR 0xD0, CHR 0xB1, CHR 0xD0, CHR 0xBB]
     @ [CHR 0xD0, CHR 0xB8, CHR 0xD0, CHR 0xBE, CHR 0xD1, CHR 0x82, CHR 0xD0, CHR 0xB5]
     @ [CHR 0xD0, CHR 0xBA, CHR 0xD0, CHR 0xB0] @ '' gigachat ''
     @ [CHR 0xD0, CHR 0xBD, CHR 0xD0, CHR 0xB5] @ '' ''
     @ [CHR 0xD1, CHR 0x83, CHR 0xD1, CHR 0x81, CHR 0xD1, CHR 0x82, CHR 0xD0, CHR 0xB0]
     @ [CHR 0xD0, CHR 0xBD, CHR 0xD0, CHR 0xBE, CHR 0xD0, CHR 0xB2, CHR 0xD0, CHR 0xBB]
     @ [CHR 0xD0, CHR 0xB5, CHR 0xD0, CHR 0xBD, CHR 0xD0, CHR 0xB0] @ ''. ''
     @ [CHR 0xD0, CHR 0xA3, CHR 0xD1, CHR 0x81, CHR 0xD1, CHR 0x82, CHR 0xD0, CHR 0xB0]
     @ [CHR 0xD0, CHR 0xBD, CHR 0xD0, CHR 0xBE, CHR 0xD0, CHR 0xB2, CHR 0xD0, CHR 0xB8]
     @ [CHR 0xD1, CHR 0x82, CHR 0xD0, CHR 0xB5] @ '' ''
     @ [CHR 0xD0, CHR 0xB5, CHR 0xD1, CHR 0x91] @ '': pip install gigachat''"

definition msg_no_credentials :: string where
  \<comment> \<open>GigaChat credentials are not given; set the Airflow Variable\<close>
  "msg_no_credentials =
     [CHR 0xD0, CHR 0x9D, CHR 0xD0, CHR 0xB5] @ '' ''
     @ [CHR 0xD1, CHR 0x83, CHR 0xD0, CHR 0xBA, CHR 0xD0, CHR 0xB0, CHR 0xD0, CHR 0xB7]
     @ [CHR 0xD0, CHR 0xB0, CHR 0xD0, CHR 0xBD, CHR 0xD1, CHR 0x8B] @ '' ''
     @ [CHR 0xD1, CHR 0x83, CHR 0xD1, CHR 0x87, CHR 0xD0, CHR 0xB5, CHR 0xD1, CHR 0x82]
     @ [CHR 0xD0, CHR 0xBD, CHR 0xD1, CHR 0x8B, CHR 0xD0, CHR 0xB5] @ '' ''
     @ [CHR 0xD0, CHR 0xB4, CHR 0xD0, CHR 0xB0, CHR 0xD0, CHR 0xBD, CHR 0xD0, CHR 0xBD]
     @ [CHR 0xD1, CHR 0x8B, CHR 0xD0, CHR 0xB5] @ '' GigaChat. ''
     @ [CHR 0xD0, CHR 0xA3, CHR 0xD1, CHR 0x81, CHR 0xD1, CHR 0x82, CHR 0xD0, CHR 0xB0]
     @ [CHR 0xD0, CHR 0xBD, CHR 0xD0, CHR 0xBE, CHR 0xD0, CHR 0xB2, CHR 0xD0, CHR 0xB8]
     @ [CHR 0xD1, CHR 0x82, CHR 0xD0, CHR 0xB5]
     @ '' Airflow Variable GIGACHAT_CREDENTIALS (Admin -> Variables) - ''
     @ [CHR 0xD0, CHR 0xBF, CHR 0xD1, CHR 0x83, CHR 0xD1, CHR 0x82, CHR 0xD1, CHR 0x8C]
     @ '' '' @ [CHR 0xD0, CHR 0xBA] @ '' ''
     @ [CHR 0xD1, CHR 0x84, CHR 0xD0, CHR 0xB0, CHR 0xD0, CHR 0xB9, CHR 0xD0, CHR 0xBB]
     @ [CHR 0xD1, CHR 0x83] @ '' '' @ [CHR 0xD1, CHR 0x81] @ '' credentials ''
     @ [CHR 0xD0, CHR 0xB8, CHR 0xD0, CHR 0xBB, CHR 0xD0, CHR 0xB8] @ '' JSON ''
     @ [CHR 0xD1, CHR 0x81, CHR 0xD1, CHR 0x82, CHR 0xD1, CHR 0x80, CHR 0xD0, CHR 0xBE]
     @ [CHR 0xD0, CHR 0xBA, CHR 0xD0, CHR 0xB0]"

definition msg_blank_credentials :: string where
  \<comment> \<open>The Authorization Key is blank\<close>
  "msg_blank_credentials =
     ''Authorization Key ''
     @ [CHR 0xD0, CHR 0xBF, CHR 0xD1, CHR 0x83, CHR 0xD1, CHR 0x81, CHR 0xD1, CHR 0x82]
     @ [CHR 0xD0, CHR 0xBE, CHR 0xD0, CHR 0xB9] @ ''. ''
     @ [CHR 0xD0, CHR 0xA3, CHR 0xD1, CHR 0x81, CHR 0xD1, CHR 0x82, CHR 0xD0, CHR 0xB0]
     @ [CHR 0xD0, CHR 0xBD, CHR 0xD0, CHR 0xBE, CHR 0xD0, CHR 0xB2, CHR 0xD0, CHR 0xB8]
     @ [CHR 0xD1, CHR 0x82, CHR 0xD0, CHR 0xB5] @ '' Airflow Variable GIGACHAT_CREDENTIALS ''
     @ [CHR 0xD1, CHR 0x81] @ '' Authorization Key (base64 ''
     @ [CHR 0xD1, CHR 0x81, CHR 0xD1, CHR 0x82, CHR 0xD1, CHR 0x80, CHR 0xD0, CHR 0xBE]
     @ [CHR 0xD0, CHR 0xBA, CHR 0xD0, CHR 0xB0] @ '')''"

definition msg_empty_summary :: string where
  \<comment> \<open>No summary was created: empty answer from GigaChat\<close>
  "msg_empty_summary =
     [CHR 0xD0, CHR 0xA1, CHR 0xD0, CHR 0xB0, CHR 0xD0, CHR 0xBC, CHR 0xD0, CHR 0xBC]
     @ [CHR 0xD0, CHR 0xB0, CHR 0xD1, CHR 0x80, CHR 0xD0, CHR 0xB8] @ '' ''
     @ [CHR 0xD0, CHR 0xBD, CHR 0xD0, CHR 0xB5] @ '' ''
     @ [CHR 0xD0, CHR 0xB1, CHR 0xD1, CHR 0x8B, CHR 0xD0, CHR 0xBB, CHR 0xD0, CHR 0xBE]
     @ '' ''
     @ [CHR 0xD1, CHR 0x81, CHR 0xD0, CHR 0xBE, CHR 0xD0, CHR 0xB7, CHR 0xD0, CHR 0xB4]
     @ [CHR 0xD0, CHR 0xB0, CHR 0xD0, CHR 0xBD, CHR 0xD0, CHR 0xBE] @ '' - ''
     @ [CHR 0xD0, CHR 0xBF, CHR 0xD0, CHR 0xBE, CHR 0xD0, CHR 0xBB, CHR 0xD1, CHR 0x83]
     @ [CHR 0xD1, CHR 0x87, CHR 0xD0, CHR 0xB5, CHR 0xD0, CHR 0xBD] @ '' ''
     @ [CHR 0xD0, CHR 0xBF, CHR 0xD1, CHR 0x83, CHR 0xD1, CHR 0x81, CHR 0xD1, CHR 0x82]
     @ [CHR 0xD0, CHR 0xBE, CHR 0xD0, CHR 0xB9] @ '' ''
     @ [CHR 0xD0, CHR 0xBE, CHR 0xD1, CHR 0x82, CHR 0xD0, CHR 0xB2, CHR 0xD0, CHR 0xB5]
     @ [CHR 0xD1, CHR 0x82] @ '' '' @ [CHR 0xD0, CHR 0xBE, CHR 0xD1, CHR 0x82]
     @ '' GigaChat''"

definition indicator_oshibka :: string where
  \<comment> \<open>error (Russian)\<close>
  "indicator_oshibka =
     [CHR 0xD0, CHR 0xBE, CHR 0xD1, CHR 0x88, CHR 0xD0, CHR 0xB8, CHR 0xD0, CHR 0xB1]
     @ [CHR 0xD0, CHR 0xBA, CHR 0xD0, CHR 0xB0]"

definition indicator_ne_udalos :: string where
  \<comment> \<open>failed (Russian)\<close>
  "indicator_ne_udalos =
     [CHR 0xD0, CHR 0xBD, CHR 0xD0, CHR 0xB5] @ '' ''
     @ [CHR 0xD1, CHR 0x83, CHR 0xD0, CHR 0xB4, CHR 0xD0, CHR 0xB0, CHR 0xD0, CHR 0xBB]
     @ [CHR 0xD0, CHR 0xBE, CHR 0xD1, CHR 0x81, CHR 0xD1, CHR 0x8C]"

definition indicator_cant_decode :: string where
  \<comment> \<open>Can't decode\<close>
  "indicator_cant_decode =
     ''Can'' @ [CHR 0x27] @ ''t decode''"

definition indicator_oshibka_pri :: string where
  \<comment> \<open>error while (Russian)\<close>
  "indicator_oshibka_pri =
     [CHR 0xD0, CHR 0xBE, CHR 0xD1, CHR 0x88, CHR 0xD0, CHR 0xB8, CHR 0xD0, CHR 0xB1]
     @ [CHR 0xD0, CHR 0xBA, CHR 0xD0, CHR 0xB0] @ '' ''
     @ [CHR 0xD0, CHR 0xBF, CHR 0xD1, CHR 0x80, CHR 0xD0, CHR 0xB8]"

definition msg_summary_error :: string where
  \<comment> \<open>Error while creating the summary (prefix)\<close>
  "msg_summary_error =
     [CHR 0xD0, CHR 0x9E, CHR 0xD1, CHR 0x88, CHR 0xD0, CHR 0xB8, CHR 0xD0, CHR 0xB1]
     @ [CHR 0xD0, CHR 0xBA, CHR 0xD0, CHR 0xB0] @ '' ''
     @ [CHR 0xD0, CHR 0xBF, CHR 0xD1, CHR 0x80, CHR 0xD0, CHR 0xB8] @ '' ''
     @ [CHR 0xD1, CHR 0x81, CHR 0xD0, CHR 0xBE, CHR 0xD0, CHR 0xB7, CHR 0xD0, CHR 0xB4]
     @ [CHR 0xD0, CHR 0xB0, CHR 0xD0, CHR 0xBD, CHR 0xD0, CHR 0xB8, CHR 0xD0, CHR 0xB8]
     @ '' ''
     @ [CHR 0xD1, CHR 0x81, CHR 0xD0, CHR 0xB0, CHR 0xD0, CHR 0xBC, CHR 0xD0, CHR 0xBC]
     @ [CHR 0xD0, CHR 0xB0, CHR 0xD1, CHR 0x80, CHR 0xD0, CHR 0xB8] @ '': ''"

definition msg_import_error :: string where
  \<comment> \<open>Import error (prefix)\<close>
  "msg_import_error =
     [CHR 0xD0, CHR 0x9E, CHR 0xD1, CHR 0x88, CHR 0xD0, CHR 0xB8, CHR 0xD0, CHR 0xB1]
     @ [CHR 0xD0, CHR 0xBA, CHR 0xD0, CHR 0xB0] @ '' ''
     @ [CHR 0xD0, CHR 0xB8, CHR 0xD0, CHR 0xBC, CHR 0xD0, CHR 0xBF, CHR 0xD0, CHR 0xBE]
     @ [CHR 0xD1, CHR 0x80, CHR 0xD1, CHR 0x82, CHR 0xD0, CHR 0xB0] @ '': ''"

subsection \<open>The objects of the GigaChat library\<close>

text \<open>
  The task reads the reply of the model by probing attributes (\<open>hasattr\<close>), so an
  attribute may be missing: \<open>None\<close> below. \<open>msg_tool_calls\<close> is \<open>None\<close> also when the
  attribute holds \<open>None\<close>. \<open>msg_repr\<close> and \<open>resp_repr\<close> are \<open>str(message)\<close> and
  \<open>str(response)\<close>. The choices of a response are given by their messages.
\<close>

record function_call =
  fn_name :: "json option"
  fn_arguments :: "json option"

record tool_call_obj =
  tc_function :: "function_call option"

record message =
  msg_content :: "json option"
  msg_tool_calls :: "tool_call_obj list option"
  msg_repr :: string

record chat_response =
  resp_choices :: "message list option"
  resp_repr :: string

text \<open>
  What the task sends: \<open>Messages\<close> and \<open>Chat\<close>. \<open>MessagesRole\<close> is the enum of the
  library; its members are \<open>ASSISTANT\<close>, \<open>SYSTEM\<close>, \<open>USER\<close> and \<open>FUNCTION\<close> (members
  added by later releases are left out; \<open>TOOL\<close> is not one of them), and the lookup of any
  other name raises \<open>AttributeError\<close> with the name as its text. \<open>Chat\<close> has the fields
  \<open>messages\<close>, \<open>model\<close> and \<open>temperature\<close> and others the task leaves at their defaults;
  it has no field \<open>tools\<close>, and it drops a keyword argument that is not a field.
\<close>

datatype messages_role = ASSISTANT | SYSTEM | USER | FUNCTION

definition MessagesRole :: "string \<Rightarrow> exc + messages_role" where
  "MessagesRole member =
     (if member = ''ASSISTANT'' then Inr ASSISTANT
      else if member = ''SYSTEM'' then Inr SYSTEM
      else if member = ''USER'' then Inr USER
      else if member = ''FUNCTION'' then Inr FUNCTION
      else Inl (MissingMember member))"

record messages =
  role :: messages_role
  content :: string
  name :: "json option"

record chat =
  chat_messages :: "messages list"
  chat_model :: string
  chat_temperature :: rat

text \<open>\<open>Chat(messages=..., model=..., tools=..., temperature=...)\<close>.\<close>

definition Chat :: "messages list \<Rightarrow> string \<Rightarrow> json list \<Rightarrow> rat \<Rightarrow> chat" where
  "Chat conversation model tools temperature =
     \<lparr>chat_messages = conversation, chat_model = model, chat_temperature = temperature\<rparr>"

subsection \<open>The prompt\<close>

text \<open>The characters of a string: each first byte with the continuation bytes after it.\<close>

function code_points :: "string \<Rightarrow> string list" where
  "code_points [] = []"
| "code_points (c # cs) =
     (c # takeWhile is_continuation cs) # code_points (dropWhile is_continuation cs)"
  by pat_completeness auto
termination
  by (relation "measure length") (simp_all add: length_dropWhile_le less_Suc_eq_le)

text \<open>Iteration over a value: the elements of a list, the characters of a string, the keys of a dict.\<close>

fun py_iter :: "json \<Rightarrow> exc + json list" where
  "py_iter (JArr xs) = Inr xs"
| "py_iter (JStr s) = Inr (map JStr (code_points s))"
| "py_iter (JObj kvs) = Inr (map (JStr \<circ> fst) kvs)"
| "py_iter v = Inl TypeError"

text \<open>\<open>"\n".join(lines)\<close>.\<close>

fun join_lines :: "string list \<Rightarrow> string" where
  "join_lines [] = []"
| "join_lines [l] = l"
| "join_lines (l # m # ls) = l @ [CHR 0x0A] @ join_lines (m # ls)"

text \<open>The numbered lines \<open>f"{i+1}. {title}"\<close>, from position \<open>i\<close> on.\<close>

fun news_lines :: "pylib \<Rightarrow> nat \<Rightarrow> json list \<Rightarrow> string list" where
  "news_lines lib i [] = []"
| "news_lines lib i (title # titles) =
     (str_nat (i + 1) @ ''. '' @ py_str lib title) # news_lines lib (Suc i) titles"

text \<open>
  The beginning of the task, from the news data pulled from XCom (\<open>JNull\<close> for
  \<open>None\<close>) to the prompt. \<open>Inr None\<close> is the early return when there are no titles.
\<close>

definition build_prompt :: "pylib \<Rightarrow> json \<Rightarrow> exc + string option" where
  "build_prompt lib news_data =
     (if \<not> truthy news_data then Inl (Exception msg_no_news_data)
      else
        thn (py_contains ''titles'' news_data) (\<lambda>present.
          if \<not> present then Inl (Exception msg_no_news_data)
          else
            thn (py_get news_data ''titles'' (JArr [])) (\<lambda>titles.
            thn (py_get news_data ''total_count'' (JInt 0)) (\<lambda>total_count.
              if \<not> truthy titles then Inr None
              else
                thn (py_iter titles) (\<lambda>items.
                  Inr (Some (prompt_head @ join_lines (news_lines lib 0 items) @ prompt_tail)))))))"

subsection \<open>The exchange with the model\<close>

text \<open>The dict built from the \<open>function\<close> of a tool call.\<close>

definition tool_call_dict :: "function_call \<Rightarrow> (string \<times> json) list" where
  "tool_call_dict function =
     [(''name'', case fn_name function of None \<Rightarrow> JStr [] | Some v \<Rightarrow> v),
      (''arguments'', case fn_arguments function of None \<Rightarrow> JStr ''{}'' | Some v \<Rightarrow> v)]"

text \<open>
  The three messages the task builds: the prompt, and the two appended after a tool call.
  Building one looks its role up in \<open>MessagesRole\<close> first.
\<close>

definition user_message :: "string \<Rightarrow> exc + messages" where
  "user_message prompt =
     thn (MessagesRole ''USER'') (\<lambda>r. Inr \<lparr>role = r, content = prompt, name = None\<rparr>)"

definition assistant_message :: "pylib \<Rightarrow> message \<Rightarrow> exc + messages" where
  "assistant_message lib message =
     thn (MessagesRole ''ASSISTANT'') (\<lambda>r.
       Inr \<lparr>role = r,
            content = py_str lib (case msg_content message of None \<Rightarrow> JStr [] | Some v \<Rightarrow> v),
            name = None\<rparr>)"

definition tool_message :: "pylib \<Rightarrow> (string \<times> json) list \<Rightarrow> json \<Rightarrow> exc + messages" where
  "tool_message lib call tool_result =
     thn (MessagesRole ''TOOL'') (\<lambda>r.
       Inr \<lparr>role = r, content = json_dumps lib tool_result, name = map_of call ''name''\<rparr>)"

text \<open>The two appends of one turn of the loop, the assistant message first.\<close>

definition append_turn ::
  "pylib \<Rightarrow> message \<Rightarrow> (string \<times> json) list \<Rightarrow> json \<Rightarrow> messages list \<Rightarrow> exc + messages list" where
  "append_turn lib message call tool_result conversation =
     thn (assistant_message lib message) (\<lambda>assistant.
     thn (tool_message lib call tool_result) (\<lambda>tool.
       Inr (conversation @ [assistant, tool])))"

text \<open>
  The loop over \<open>message.tool_calls\<close>. \<open>server i\<close> is what the tool server answers
  while the tool call at position \<open>i\<close> is dispatched. A tool call without \<open>function\<close>
  is passed over; an exception of the dispatch or of the appends ends the loop. The
  result is the conversation, or the exception, and the requests sent to the tool server.
\<close>

fun resolve_tool_calls ::
  "pylib \<Rightarrow> (nat \<Rightarrow> http_outcome) \<Rightarrow> message \<Rightarrow> nat \<Rightarrow> tool_call_obj list \<Rightarrow> messages list
     \<Rightarrow> (exc + messages list) \<times> tool_request list" where
  "resolve_tool_calls lib server message i [] conversation = (Inr conversation, [])"
| "resolve_tool_calls lib server message i (tool_call # tool_calls) conversation =
     (case tc_function tool_call of
        None \<Rightarrow> resolve_tool_calls lib server message (Suc i) tool_calls conversation
      | Some function \<Rightarrow>
          (case fst (execute_news_tool lib (server i) (tool_call_dict function)) of
             Inl e \<Rightarrow> (Inl e, snd (execute_news_tool lib (server i) (tool_call_dict function)))
           | Inr tool_result \<Rightarrow>
               (case append_turn lib message (tool_call_dict function) tool_result conversation of
                  Inl e \<Rightarrow>
                    (Inl e, snd (execute_news_tool lib (server i) (tool_call_dict function)))
                | Inr longer \<Rightarrow>
                    map_prod id
                      (append (snd (execute_news_tool lib (server i) (tool_call_dict function))))
                      (resolve_tool_calls lib server message (Suc i) tool_calls longer))))"

text \<open>The text taken from a message: its content, or \<open>str(message)\<close> when it has none.\<close>

definition message_text :: "message \<Rightarrow> json" where
  "message_text message =
     (case msg_content message of None \<Rightarrow> JStr (msg_repr message) | Some v \<Rightarrow> v)"

text \<open>What one exchange leaves behind: the text or the exception, the chats sent, the tool requests.\<close>

record exchange =
  ex_outcome :: "exc + json"
  ex_chats :: "chat list"
  ex_requests :: "tool_request list"

text \<open>
  The second half of the exchange, after the first reply carried tool calls: the loop,
  the one resend, and the message the text is taken from (the first one again when the
  second response has no choices).
\<close>

definition resend ::
  "pylib \<Rightarrow> (nat \<Rightarrow> chat \<Rightarrow> exc + chat_response) \<Rightarrow> (nat \<Rightarrow> http_outcome) \<Rightarrow> string \<Rightarrow> json list
     \<Rightarrow> chat \<Rightarrow> message \<Rightarrow> tool_call_obj list \<Rightarrow> exchange" where
  "resend lib client server model tools first message tool_calls =
     (case fst (resolve_tool_calls lib server message 0 tool_calls (chat_messages first)) of
        Inl e \<Rightarrow>
          \<lparr>ex_outcome = Inl e, ex_chats = [first],
           ex_requests = snd (resolve_tool_calls lib server message 0 tool_calls
                                (chat_messages first))\<rparr>
      | Inr conversation \<Rightarrow>
          (case client 1 (Chat conversation model tools (7 / 10)) of
             Inl e \<Rightarrow>
               \<lparr>ex_outcome = Inl e, ex_chats = [first, Chat conversation model tools (7 / 10)],
                ex_requests = snd (resolve_tool_calls lib server message 0 tool_calls
                                     (chat_messages first))\<rparr>
           | Inr response \<Rightarrow>
               \<lparr>ex_outcome = Inr (message_text
                                    (case resp_choices response of
                                       Some (second # others) \<Rightarrow> second
                                     | _ \<Rightarrow> message)),
                ex_chats = [first, Chat conversation model tools (7 / 10)],
                ex_requests = snd (resolve_tool_calls lib server message 0 tool_calls
                                     (chat_messages first))\<rparr>))"

text \<open>The reading of the first response.\<close>

definition read_reply ::
  "pylib \<Rightarrow> (nat \<Rightarrow> chat \<Rightarrow> exc + chat_response) \<Rightarrow> (nat \<Rightarrow> http_outcome) \<Rightarrow> string \<Rightarrow> json list
     \<Rightarrow> chat \<Rightarrow> chat_response \<Rightarrow> exchange" where
  "read_reply lib client server model tools first response =
     (case resp_choices response of
        Some (message # others) \<Rightarrow>
          (case msg_tool_calls message of
             Some (tool_call # tool_calls) \<Rightarrow>
               resend lib client server model tools first message (tool_call # tool_calls)
           | _ \<Rightarrow>
               \<lparr>ex_outcome = Inr (message_text message), ex_chats = [first], ex_requests = []\<rparr>)
      | _ \<Rightarrow>
          \<lparr>ex_outcome = Inr (JStr (resp_repr response)), ex_chats = [first], ex_requests = []\<rparr>)"

text \<open>The tool list and the first \<open>Chat\<close>: the prompt as the only message.\<close>

definition first_chat :: "string \<Rightarrow> json list \<Rightarrow> string \<Rightarrow> exc + chat" where
  "first_chat model tools prompt =
     thn (user_message prompt) (\<lambda>user. Inr (Chat [user] model tools (7 / 10)))"

text \<open>
  The exchange: the tool is registered, the prompt is sent, and the text of the final
  message is taken. \<open>client i\<close> is what \<open>client.chat\<close> does at its call number \<open>i\<close>.
\<close>

definition gigachat_exchange ::
  "pylib \<Rightarrow> (nat \<Rightarrow> chat \<Rightarrow> exc + chat_response) \<Rightarrow> (nat \<Rightarrow> http_outcome) \<Rightarrow> string \<Rightarrow> string
     \<Rightarrow> exchange" where
  "gigachat_exchange lib client server model prompt =
     (case register_news_tool None of
        Inl e \<Rightarrow> \<lparr>ex_outcome = Inl e, ex_chats = [], ex_requests = []\<rparr>
      | Inr tools \<Rightarrow>
          (case first_chat model tools prompt of
             Inl e \<Rightarrow> \<lparr>ex_outcome = Inl e, ex_chats = [], ex_requests = []\<rparr>
           | Inr first \<Rightarrow>
               (case client 0 first of
                  Inl e \<Rightarrow> \<lparr>ex_outcome = Inl e, ex_chats = [first], ex_requests = []\<rparr>
                | Inr response \<Rightarrow>
                    read_reply lib client server model tools first response)))"

subsection \<open>The checks on the summary and the task\<close>

definition error_indicators :: "string list" where
  "error_indicators =
     [indicator_oshibka, ''error'', indicator_ne_udalos, ''failed'', indicator_cant_decode,
      ''Authorization'', ''400'', ''401'', ''403'', ''500'']"

text \<open>
  The two checks on \<open>summary\<close>: it must not be empty or blank, and it must not look like
  an error message. \<open>summary.strip()\<close> on a value that is not a string raises
  \<open>AttributeError\<close>.
\<close>

definition check_summary :: "pylib \<Rightarrow> json \<Rightarrow> exc + string" where
  "check_summary lib summary =
     (if \<not> truthy summary then Inl (Exception msg_empty_summary)
      else
        case summary of
          JStr s \<Rightarrow>
            if str_strip lib s = [] then Inl (Exception msg_empty_summary)
            else if list_ex (\<lambda>indicator. str_in indicator (str_lower lib s)) error_indicators
                    \<and> (str_in indicator_oshibka_pri (str_lower lib s)
                        \<or> str_in ''error'' (str_lower lib s)
                        \<or> str_in ''400'' s \<or> str_in ''401'' s)
            then Inl (Exception (msg_summary_error @ str_prefix lib 200 s))
            else Inr s
        | _ \<Rightarrow> Inl AttributeError)"

text \<open>
  What one run of the task does: what it returns or raises, what it pushes to XCom, the
  chats it sent and the requests it sent to the tool server.
\<close>

record task_result =
  returned :: "exc + string"
  xcom_pushed :: "(string \<times> json) list"
  task_chats :: "chat list"
  task_requests :: "tool_request list"

text \<open>The two \<open>except\<close> clauses at the end of the task: every exception is raised again as an \<open>Exception\<close>.\<close>

definition wrap_exception :: "pylib \<Rightarrow> exc \<Rightarrow> exc" where
  "wrap_exception lib e =
     (case e of
        ImportError m \<Rightarrow> Exception (msg_import_error @ m)
      | _ \<Rightarrow> Exception (msg_summary_error @ str_exc lib e))"

definition failed :: "pylib \<Rightarrow> exc \<Rightarrow> task_result" where
  "failed lib e =
     \<lparr>returned = Inl (wrap_exception lib e), xcom_pushed = [], task_chats = [],
      task_requests = []\<rparr>"

text \<open>The end of the task, after the exchange: the checks, then the push to XCom and the return.\<close>

definition deliver :: "pylib \<Rightarrow> exchange \<Rightarrow> task_result" where
  "deliver lib ex =
     (case thn (ex_outcome ex) (check_summary lib) of
        Inl e \<Rightarrow>
          \<lparr>returned = Inl (wrap_exception lib e), xcom_pushed = [], task_chats = ex_chats ex,
           task_requests = ex_requests ex\<rparr>
      | Inr summary \<Rightarrow>
          \<lparr>returned = Inr summary, xcom_pushed = [(''summary'', JStr summary)],
           task_chats = ex_chats ex, task_requests = ex_requests ex\<rparr>)"

text \<open>The credentials with every white space removed.\<close>

definition clean_credentials :: "pylib \<Rightarrow> string \<Rightarrow> string" where
  "clean_credentials lib credentials =
     str_join_split lib
       (filter (\<lambda>c. c \<noteq> CHR 0x0D \<and> c \<noteq> CHR 0x0A \<and> c \<noteq> CHR 0x09) (str_strip lib credentials))"

text \<open>
  The world around one run: the news data in XCom, whether the \<open>gigachat\<close> package can
  be imported, the two configuration values, what a client made with given credentials
  answers at its call number \<open>i\<close>, and what the tool server answers during the
  dispatch of the tool call at position \<open>i\<close>.
\<close>

record task_env =
  xcom_news_data :: json
  gigachat_installed :: bool
  GIGACHAT_CREDENTIALS :: string
  GIGACHAT_MODEL :: string
  gigachat_client :: "string \<Rightarrow> nat \<Rightarrow> chat \<Rightarrow> exc + chat_response"
  news_server :: "nat \<Rightarrow> http_outcome"

definition summarize_news_with_gigachat :: "pylib \<Rightarrow> task_env \<Rightarrow> task_result" where
  "summarize_news_with_gigachat lib tev =
     (case build_prompt lib (xcom_news_data tev) of
        Inl e \<Rightarrow> failed lib e
      | Inr None \<Rightarrow>
          \<lparr>returned = Inr msg_no_news_found, xcom_pushed = [], task_chats = [],
           task_requests = []\<rparr>
      | Inr (Some prompt) \<Rightarrow>
          if \<not> gigachat_installed tev then failed lib (ImportError msg_gigachat_missing)
          else if GIGACHAT_CREDENTIALS tev = [] then failed lib (Exception msg_no_credentials)
          else if clean_credentials lib (GIGACHAT_CREDENTIALS tev) = []
          then failed lib (Exception msg_blank_credentials)
          else deliver lib
                 (gigachat_exchange lib
                    (gigachat_client tev (clean_credentials lib (GIGACHAT_CREDENTIALS tev)))
                    (news_server tev) (GIGACHAT_MODEL tev) prompt))"

section \<open>A sample library\<close>

text \<open>
  One possible behaviour of the library functions, kept small, for evaluating the model
  on concrete requests: decimal integers for \<open>float\<close> of a string, ASCII white space and
  ASCII letters for \<open>strip\<close> and \<open>lower\<close>, an encoder without escapes, and a decoder
  that knows three documents and the errors of two kinds of input (a document nested
  more than 100000 arrays deep, and \<open>{not json\<close>). It is used only on these and on
  documents that do not begin a JSON value, for which the last text is the one of Python. The theorems hold for every library; this one only
  instantiates them.
\<close>

fun nat_of_digits :: "nat \<Rightarrow> string \<Rightarrow> nat option" where
  "nat_of_digits acc [] = Some acc"
| "nat_of_digits acc (c # cs) =
     (if 48 \<le> (of_char c :: nat) \<and> (of_char c :: nat) \<le> 57
      then nat_of_digits (10 * acc + (of_char c - 48)) cs
      else None)"

definition sample_float_of_str :: "string \<Rightarrow> exc + pyfloat" where
  "sample_float_of_str s =
     (case s of
        [] \<Rightarrow> Inl ValueError
      | c # cs \<Rightarrow>
          if c = CHR ''-'' \<and> cs \<noteq> []
          then (case nat_of_digits 0 cs of
                  None \<Rightarrow> Inl ValueError
                | Some n \<Rightarrow> Inr (Fin (- of_nat n)))
          else (case nat_of_digits 0 s of
                  None \<Rightarrow> Inl ValueError
                | Some n \<Rightarrow> Inr (Fin (of_nat n))))"

fun sample_float :: "json \<Rightarrow> exc + pyfloat" where
  "sample_float (JInt i) = Inr (Fin (of_int i))"
| "sample_float (JFloat f) = Inr f"
| "sample_float (JBool b) = Inr (Fin (if b then 1 else 0))"
| "sample_float (JStr s) = sample_float_of_str s"
| "sample_float v = Inl TypeError"

definition sample_space :: "char \<Rightarrow> bool" where
  "sample_space c = (c \<in> set [CHR '' '', CHR 0x09, CHR 0x0A, CHR 0x0B, CHR 0x0C, CHR 0x0D])"

definition sample_strip :: "string \<Rightarrow> string" where
  "sample_strip s = rev (dropWhile sample_space (rev (dropWhile sample_space s)))"

definition sample_lower :: "string \<Rightarrow> string" where
  "sample_lower s =
     map (\<lambda>c. if 65 \<le> (of_char c :: nat) \<and> (of_char c :: nat) \<le> 90
             then char_of (of_char c + (32::nat)) else c) s"

definition sample_loads :: "string \<Rightarrow> exc + json" where
  "sample_loads s =
     (if 100000 < length (takeWhile (\<lambda>c. c = CHR ''['') s) then Inl RecursionError
      else if s = ''{}'' then Inr (JObj [])
      else if s = ''[]'' then Inr (JArr [])
      else if s = ''null'' then Inr JNull
      else if s = ''{not json''
      then Inl (JSONDecodeError
                  ''Expecting property name enclosed in double quotes: line 1 column 2 (char 1)'')
      else Inl (JSONDecodeError ''Expecting value: line 1 column 1 (char 0)''))"

fun sample_join :: "string list \<Rightarrow> string" where
  "sample_join [] = []"
| "sample_join [s] = s"
| "sample_join (s # t # ts) = s @ '', '' @ sample_join (t # ts)"

fun sample_dumps :: "json \<Rightarrow> string" where
  "sample_dumps JNull = ''null''"
| "sample_dumps (JBool b) = (if b then ''true'' else ''false'')"
| "sample_dumps (JInt i) = str_int i"
| "sample_dumps (JFloat f) = ''0.0''"
| "sample_dumps (JStr s) = [CHR 0x22] @ s @ [CHR 0x22]"
| "sample_dumps (JArr xs) = ''['' @ sample_join (map sample_dumps xs) @ '']''"
| "sample_dumps (JObj kvs) =
     ''{'' @ sample_join (map (\<lambda>kv. [CHR 0x22] @ fst kv @ [CHR 0x22] @ '': '' @ sample_dumps (snd kv)) kvs)
      @ ''}''"

fun sample_str :: "json \<Rightarrow> string" where
  "sample_str JNull = ''None''"
| "sample_str (JBool b) = (if b then ''True'' else ''False'')"
| "sample_str (JInt i) = str_int i"
| "sample_str (JStr s) = s"
| "sample_str v = sample_dumps v"

fun sample_interpreter_text :: "exc \<Rightarrow> string" where
  "sample_interpreter_text KeyError = ''0''"
| "sample_interpreter_text AttributeError =
     [CHR 0x27] @ ''list'' @ [CHR 0x27] @ '' object has no attribute '' @ [CHR 0x27] @ ''get''
     @ [CHR 0x27]"
| "sample_interpreter_text IndexError = ''list index out of range''"
| "sample_interpreter_text TypeError =
     ''argument of type '' @ [CHR 0x27] @ ''int'' @ [CHR 0x27] @ '' is not iterable''"
| "sample_interpreter_text ValueError = ''could not convert string to float''"
| "sample_interpreter_text OverflowError = ''int too large to convert to float''"
| "sample_interpreter_text UnicodeDecodeError =
     [CHR 0x27] @ ''utf-8'' @ [CHR 0x27] @ '' codec can'' @ [CHR 0x27]
     @ ''t decode byte 0xff in position 0: invalid start byte''"
| "sample_interpreter_text RecursionError =
     ''maximum recursion depth exceeded while decoding a JSON array''"
| "sample_interpreter_text e = []"

definition sample_lib :: pylib where
  "sample_lib =
     \<lparr>json_loads = sample_loads, json_dumps = sample_dumps, float_of = sample_float,
      str_strip = sample_strip, str_lower = sample_lower,
      str_join_split = filter (\<lambda>c. \<not> sample_space c), str_prefix = take,
      str_value = sample_str, http_error_text = (\<lambda>code. str_int code @ '' Error''),
      interpreter_text = sample_interpreter_text\<rparr>"

section \<open>Notions used in the statements\<close>

text \<open>
  These definitions follow the words of the specification, not the code; the theorems
  compare the code with them.
\<close>

text \<open>The \<open>title\<close> field of a list element that has one.\<close>

fun title_of :: "json \<Rightarrow> json option" where
  "title_of (JObj items) = map_of items ''title''"
| "title_of v = None"

text \<open>
  The elements of the result list that the scan for titles gets past: an object, and
  also a list or a string in which \<open>"title"\<close> does not occur.
\<close>

fun title_scan_passes :: "json \<Rightarrow> bool" where
  "title_scan_passes (JObj items) = True"
| "title_scan_passes (JArr xs) = (JStr ''title'' \<notin> set xs)"
| "title_scan_passes (JStr s) = (\<not> str_in ''title'' s)"
| "title_scan_passes v = False"

text \<open>
  The upstream news call succeeded: status 200, a body that decodes to an object, and
  titles extracted from it without an exception.
\<close>

fun news_succeeds :: "http_outcome \<Rightarrow> bool" where
  "news_succeeds (Response status_code body_text (Inr (JObj body))) =
     (status_code = 200 \<and> (case extract_titles (JObj body) of Inl e \<Rightarrow> False | Inr r \<Rightarrow> True))"
| "news_succeeds outcome = False"

text \<open>A field of a weather shape, \<open>null\<close> when it is missing.\<close>

definition field :: "(string \<times> json) list \<Rightarrow> string \<Rightarrow> json" where
  "field source k = (case map_of source k of None \<Rightarrow> JNull | Some v \<Rightarrow> v)"

text \<open>
  The four weather fields taken from a shape; when all four are null, an error payload
  with the raw upstream body attached.
\<close>

definition weather_payload :: "(string \<times> json) list \<Rightarrow> json \<Rightarrow> json" where
  "weather_payload source raw =
     (if field source ''temp'' = JNull \<and> field source ''condition'' = JNull
         \<and> field source ''wind_speed'' = JNull \<and> field source ''humidity'' = JNull
      then JObj [(''error'', JStr msg_weather_extraction_failed), (''raw_response'', raw)]
      else JObj [(''temperature'', field source ''temp''),
                 (''condition'', field source ''condition''),
                 (''wind_speed'', field source ''wind_speed''),
                 (''humidity'', field source ''humidity'')])"

text \<open>The final text is the empty string, only white space, or \<open>None\<close>.\<close>

definition no_text :: "pylib \<Rightarrow> json \<Rightarrow> bool" where
  "no_text lib summary =
     (case summary of JNull \<Rightarrow> True | JStr s \<Rightarrow> s = [] \<or> str_strip lib s = [] | _ \<Rightarrow> False)"

section \<open>Coordinates out of range\<close>

text \<open>
  C2. For every weather request whose latitude and longitude are present and are turned
  into numbers by \<open>float\<close>: if the latitude is not within -90 and 90, or the longitude is
  not within -180 and 180, the handler returns an error payload and performs no upstream
  call. The latitude is checked first, and the two axes have different messages.
\<close>

theorem weather_out_of_range_rejected:
  assumes "latitude \<noteq> JNull" and "longitude \<noteq> JNull"
    and "float_of lib latitude = Inr lat" and "float_of lib longitude = Inr lon"
    and "\<not> (float_le (Fin (- 90)) lat \<and> float_le lat (Fin 90))
         \<or> \<not> (float_le (Fin (- 180)) lon \<and> float_le lon (Fin 180))"
  shows "handle_weather_request lib ev latitude longitude =
           (Inr (error_payload
                   (if \<not> (float_le (Fin (- 90)) lat \<and> float_le lat (Fin 90))
                    then msg_latitude_range else msg_longitude_range)), [])
         \<and> msg_latitude_range \<noteq> msg_longitude_range"
proof -
  have distinct: "msg_latitude_range \<noteq> msg_longitude_range"
    by (simp add: msg_latitude_range_def msg_longitude_range_def)
  have "handle_weather_request lib ev latitude longitude = weather_checked lib ev lat lon"
    using assms(1-4) by (simp add: handle_weather_request_def)
  moreover have "weather_checked lib ev lat lon =
      (Inr (error_payload
              (if \<not> (float_le (Fin (- 90)) lat \<and> float_le lat (Fin 90))
               then msg_latitude_range else msg_longitude_range)), [])"
    using assms(5) by (auto simp add: weather_checked_def)
  ultimately show ?thesis using distinct by simp
qed

theorem weather_out_of_range_rejected_witness:
  "JStr ''200'' \<noteq> JNull \<and> JStr ''10'' \<noteq> JNull
   \<and> float_of sample_lib (JStr ''200'') = Inr (Fin 200)
   \<and> float_of sample_lib (JStr ''10'') = Inr (Fin 10)
   \<and> \<not> (float_le (Fin (- 90)) (Fin 200) \<and> float_le (Fin 200) (Fin 90))
   \<and> handle_weather_request sample_lib
        \<lparr>news_api = Raises (ReqTimeout []),
         weather_api = (\<lambda>key lat lon. Response 200 [] (Inr (JObj []))),
         weather_api_key = Some ''secret''\<rparr>
        (JStr ''200'') (JStr ''10'')
      = (Inr (error_payload msg_latitude_range), [])"
proof -
  have f1: "float_of sample_lib (JStr ''200'') = Inr (Fin 200)"
    by (simp add: sample_lib_def sample_float_of_str_def)
  have f2: "float_of sample_lib (JStr ''10'') = Inr (Fin 10)"
    by (simp add: sample_lib_def sample_float_of_str_def)
  have out: "\<not> (float_le (Fin (- 90)) (Fin 200) \<and> float_le (Fin 200) (Fin 90))
             \<or> \<not> (float_le (Fin (- 180)) (Fin 10) \<and> float_le (Fin 10) (Fin 180))"
    by simp
  show ?thesis
    using weather_out_of_range_rejected [OF _ _ f1 f2 out, of
        "\<lparr>news_api = Raises (ReqTimeout []),
          weather_api = (\<lambda>key lat lon. Response 200 [] (Inr (JObj []))),
          weather_api_key = Some ''secret''\<rparr>"] f1 f2
    by simp
qed

section \<open>A POST body that is not JSON\<close>

text \<open>
  C9, as the code has it. For every POST request that arrives with a body that is not
  empty and cannot be decoded as JSON, the server answers with an error payload, without reaching a handler
  and without an upstream call, whatever the path, \<open>/news\<close> included. The status is 400,
  and the payload carries the text of the decoding error, when the bytes are UTF-8 and
  \<open>json.loads\<close> raises \<open>JSONDecodeError\<close>. It is 500 when the bytes are not UTF-8, and when
  \<open>json.loads\<close> raises another exception.
\<close>

theorem post_malformed_json_rejected:
  assumes "raw \<noteq> []"
  shows "(valid_utf8 raw \<and> json_loads lib raw = Inl (JSONDecodeError m) \<longrightarrow>
            do_POST lib ev (received path raw) =
              \<lparr>status = 400, payload = error_payload (msg_bad_json @ m), upstream = []\<rparr>)
       \<and> (\<not> valid_utf8 raw \<longrightarrow>
            do_POST lib ev (received path raw) =
              \<lparr>status = 500,
               payload = error_payload (msg_internal_error @ str_exc lib UnicodeDecodeError),
               upstream = []\<rparr>)
       \<and> (valid_utf8 raw \<and> json_loads lib raw = Inl e \<and> (\<forall>t. e \<noteq> JSONDecodeError t) \<longrightarrow>
            do_POST lib ev (received path raw) =
              \<lparr>status = 500, payload = error_payload (msg_internal_error @ str_exc lib e),
               upstream = []\<rparr>)"
proof (intro conjI impI)
  assume "valid_utf8 raw \<and> json_loads lib raw = Inl (JSONDecodeError m)"
  then show "do_POST lib ev (received path raw) =
      \<lparr>status = 400, payload = error_payload (msg_bad_json @ m), upstream = []\<rparr>"
    using assms by (simp add: do_POST_def received_def decode_utf8_def)
next
  assume "\<not> valid_utf8 raw"
  then show "do_POST lib ev (received path raw) =
      \<lparr>status = 500,
       payload = error_payload (msg_internal_error @ str_exc lib UnicodeDecodeError),
       upstream = []\<rparr>"
    by (simp add: do_POST_def received_def decode_utf8_def internal_error_def)
next
  assume other: "valid_utf8 raw \<and> json_loads lib raw = Inl e \<and> (\<forall>t. e \<noteq> JSONDecodeError t)"
  then show "do_POST lib ev (received path raw) =
      \<lparr>status = 500, payload = error_payload (msg_internal_error @ str_exc lib e),
       upstream = []\<rparr>"
    using assms
    by (cases e) (simp_all add: do_POST_def received_def decode_utf8_def internal_error_def)
qed

theorem post_malformed_json_rejected_witness:
  "valid_utf8 ''{not json''
   \<and> json_loads sample_lib ''{not json''
       = Inl (JSONDecodeError
                ''Expecting property name enclosed in double quotes: line 1 column 2 (char 1)'')
   \<and> do_POST sample_lib
        \<lparr>news_api = Response 200 [] (Inr (JObj [(''results'', JArr [])])),
         weather_api = (\<lambda>key lat lon. Raises (ReqTimeout [])),
         weather_api_key = None\<rparr>
        (received ''/news'' ''{not json'')
      = \<lparr>status = 400,
         payload = error_payload
           (msg_bad_json
            @ ''Expecting property name enclosed in double quotes: line 1 column 2 (char 1)''),
         upstream = []\<rparr>
   \<and> valid_utf8 (replicate 200000 CHR ''['')
   \<and> json_loads sample_lib (replicate 200000 CHR ''['') = Inl RecursionError
   \<and> do_POST sample_lib
        \<lparr>news_api = Response 200 [] (Inr (JObj [(''results'', JArr [])])),
         weather_api = (\<lambda>key lat lon. Raises (ReqTimeout [])),
         weather_api_key = None\<rparr>
        (received ''/news'' (replicate 200000 CHR ''[''))
      = \<lparr>status = 500,
         payload = error_payload (msg_internal_error @ interpreter_text sample_lib RecursionError),
         upstream = []\<rparr>"
proof -
  let ?ev = "\<lparr>news_api = Response 200 [] (Inr (JObj [(''results'', JArr [])])),
              weather_api = (\<lambda>key lat lon. Raises (ReqTimeout [])),
              weather_api_key = None\<rparr>"
  let ?deep = "replicate 200000 CHR ''[''"
  have ascii: "valid_utf8 (replicate n CHR ''['')" for n
    by (induction n) (simp_all add: byte_in_def)
  have text_ok: "valid_utf8 ''{not json''"
    by (simp add: byte_in_def)
  have loads: "json_loads sample_lib ''{not json''
       = Inl (JSONDecodeError
                ''Expecting property name enclosed in double quotes: line 1 column 2 (char 1)'')"
    by (simp add: sample_lib_def sample_loads_def)
  have deep: "json_loads sample_lib ?deep = Inl RecursionError"
    by (simp add: sample_lib_def sample_loads_def)
  have not_empty: "?deep \<noteq> []"
    by simp
  have r400: "do_POST sample_lib ?ev (received ''/news'' ''{not json'')
      = \<lparr>status = 400,
         payload = error_payload
           (msg_bad_json
            @ ''Expecting property name enclosed in double quotes: line 1 column 2 (char 1)''),
         upstream = []\<rparr>"
    using post_malformed_json_rejected [of "''{not json''" sample_lib _ ?ev "''/news''"]
          text_ok loads
    by simp
  have r500: "do_POST sample_lib ?ev (received ''/news'' ?deep)
      = \<lparr>status = 500,
         payload = error_payload (msg_internal_error @ interpreter_text sample_lib RecursionError),
         upstream = []\<rparr>"
    using post_malformed_json_rejected
            [of ?deep sample_lib _ ?ev "''/news''" RecursionError]
          ascii [of 200000] deep not_empty
    by simp
  show ?thesis
    by (intro conjI) (fact text_ok loads r400 ascii deep r500)+
qed

text \<open>
  C9 as stated fails: a body that is not empty and is not JSON is answered with status
  500, not 400, when it is not UTF-8. The two bytes \<open>0xFF 0x7B\<close> make \<open>decode('utf-8')\<close>
  raise \<open>UnicodeDecodeError\<close> before \<open>json.loads\<close> is reached, and the handler of the
  whole method answers.
\<close>

theorem post_malformed_json_counterexample:
  "[CHR 0xFF, CHR ''{''] \<noteq> []
   \<and> \<not> valid_utf8 [CHR 0xFF, CHR ''{'']
   \<and> do_POST sample_lib
        \<lparr>news_api = Response 200 [] (Inr (JObj [(''results'', JArr [])])),
         weather_api = (\<lambda>key lat lon. Raises (ReqTimeout [])),
         weather_api_key = None\<rparr>
        (received ''/news'' [CHR 0xFF, CHR ''{''])
      = \<lparr>status = 500,
         payload = error_payload
                     (msg_internal_error @ interpreter_text sample_lib UnicodeDecodeError),
         upstream = []\<rparr>"
  by (simp add: do_POST_def received_def decode_utf8_def byte_in_def internal_error_def)

section \<open>Dispatch of an unknown tool name\<close>

text \<open>
  C3. For every tool call whose name (the value under \<open>name\<close>, the empty string when the
  key is missing) is not the name of the dispatcher's tool, \<open>execute_news_tool\<close> and
  \<open>execute_weather_tool\<close> return the payload \<open>{error: "unknown function: " + name}\<close>
  (in Russian in the source); they do not raise, and they send no request to the tool
  server. A name that is a string is printed as it is.
\<close>

theorem unknown_tool_name_rejected:
  assumes "function_name = (case map_of tool_call ''name'' of None \<Rightarrow> JStr [] | Some v \<Rightarrow> v)"
  shows "(function_name \<noteq> JStr ''news'' \<longrightarrow>
            execute_news_tool lib outcome tool_call =
              (Inr (JObj [(''error'', JStr (msg_unknown_function @ py_str lib function_name))]), []))
       \<and> (function_name \<noteq> JStr ''weather'' \<longrightarrow>
            execute_weather_tool lib server tool_call =
              (Inr (JObj [(''error'', JStr (msg_unknown_function @ py_str lib function_name))]), []))
       \<and> (\<forall>n. function_name = JStr n \<longrightarrow> py_str lib function_name = n)"
  using assms by (simp add: execute_news_tool_def execute_weather_tool_def py_str_def Let_def)

theorem unknown_tool_name_rejected_witness:
  "JStr ''stocks'' \<noteq> JStr ''news'' \<and> JStr ''stocks'' \<noteq> JStr ''weather''
   \<and> execute_news_tool sample_lib (Response 200 [] (Inr (JObj [])))
        [(''name'', JStr ''stocks''), (''arguments'', JStr ''{}'')]
      = (Inr (JObj [(''error'', JStr (msg_unknown_function @ ''stocks''))]), [])
   \<and> execute_weather_tool sample_lib (\<lambda>lat lon. Response 200 [] (Inr (JObj [])))
        [(''name'', JStr ''stocks''), (''arguments'', JStr ''{}'')]
      = (Inr (JObj [(''error'', JStr (msg_unknown_function @ ''stocks''))]), [])"
  using unknown_tool_name_rejected
          [of "JStr ''stocks''" "[(''name'', JStr ''stocks''), (''arguments'', JStr ''{}'')]"
              sample_lib "Response 200 [] (Inr (JObj []))"
              "\<lambda>lat lon. Response 200 [] (Inr (JObj []))"]
  by simp

section \<open>The news tool does not look at its arguments\<close>

text \<open>
  C10. For any two tool calls named \<open>news\<close> whose arguments decode (a string that
  \<open>json.loads\<close> accepts, or a value that is not a string and is kept as it is, a mapping
  for instance), \<open>execute_news_tool\<close> does the same thing: under the same answer of
  the tool server both return what \<open>get_news_titles\<close> returns and send the same single
  request; the decoded arguments are not passed on.
\<close>

theorem news_tool_ignores_arguments:
  assumes "map_of call1 ''name'' = Some (JStr ''news'')"
    and "map_of call2 ''name'' = Some (JStr ''news'')"
    and "decode_arguments lib (case map_of call1 ''arguments'' of None \<Rightarrow> JObj [] | Some v \<Rightarrow> v)
           = Inr (Inr arguments1)"
    and "decode_arguments lib (case map_of call2 ''arguments'' of None \<Rightarrow> JObj [] | Some v \<Rightarrow> v)
           = Inr (Inr arguments2)"
  shows "execute_news_tool lib outcome call1 = execute_news_tool lib outcome call2
       \<and> execute_news_tool lib outcome call1 = get_news_titles lib outcome"
  using assms by (simp add: execute_news_tool_def)

theorem news_tool_ignores_arguments_witness:
  "map_of [(''name'', JStr ''news''), (''arguments'', JStr ''{}'')] ''name'' = Some (JStr ''news'')
   \<and> map_of [(''name'', JStr ''news''),
              (''arguments'', JObj [(''city'', JStr ''Moscow''), (''limit'', JInt 3)])] ''name''
       = Some (JStr ''news'')
   \<and> decode_arguments sample_lib (JStr ''{}'') = Inr (Inr (JObj []))
   \<and> decode_arguments sample_lib (JObj [(''city'', JStr ''Moscow''), (''limit'', JInt 3)])
       = Inr (Inr (JObj [(''city'', JStr ''Moscow''), (''limit'', JInt 3)]))
   \<and> execute_news_tool sample_lib
        (Response 200 [] (Inr (JObj [(''titles'', JArr [JStr ''A'']), (''total_count'', JInt 1)])))
        [(''name'', JStr ''news''), (''arguments'', JStr ''{}'')]
      = execute_news_tool sample_lib
        (Response 200 [] (Inr (JObj [(''titles'', JArr [JStr ''A'']), (''total_count'', JInt 1)])))
        [(''name'', JStr ''news''),
         (''arguments'', JObj [(''city'', JStr ''Moscow''), (''limit'', JInt 3)])]
   \<and> execute_news_tool sample_lib
        (Response 200 [] (Inr (JObj [(''titles'', JArr [JStr ''A'']), (''total_count'', JInt 1)])))
        [(''name'', JStr ''news''), (''arguments'', JStr ''{}'')]
      = (Inr (JObj [(''titles'', JArr [JStr ''A'']), (''total_count'', JInt 1)]), [NewsServerGet])"
proof -
  let ?answer = "Response 200 []
                   (Inr (JObj [(''titles'', JArr [JStr ''A'']), (''total_count'', JInt 1)]))"
  let ?call1 = "[(''name'', JStr ''news''), (''arguments'', JStr ''{}'')]"
  let ?call2 = "[(''name'', JStr ''news''),
                 (''arguments'', JObj [(''city'', JStr ''Moscow''), (''limit'', JInt 3)])]"
  have n1: "map_of ?call1 ''name'' = Some (JStr ''news'')"
    by simp
  have n2: "map_of ?call2 ''name'' = Some (JStr ''news'')"
    by simp
  have a1: "decode_arguments sample_lib (JStr ''{}'') = Inr (Inr (JObj []))"
    by (simp add: decode_arguments_def sample_lib_def sample_loads_def)
  have a2: "decode_arguments sample_lib (JObj [(''city'', JStr ''Moscow''), (''limit'', JInt 3)])
            = Inr (Inr (JObj [(''city'', JStr ''Moscow''), (''limit'', JInt 3)]))"
    by (simp add: decode_arguments_def)
  have d1: "decode_arguments sample_lib
              (case map_of ?call1 ''arguments'' of None \<Rightarrow> JObj [] | Some v \<Rightarrow> v)
            = Inr (Inr (JObj []))"
    using a1 by simp
  have d2: "decode_arguments sample_lib
              (case map_of ?call2 ''arguments'' of None \<Rightarrow> JObj [] | Some v \<Rightarrow> v)
            = Inr (Inr (JObj [(''city'', JStr ''Moscow''), (''limit'', JInt 3)]))"
    using a2 by simp
  have titles: "get_news_titles sample_lib ?answer
      = (Inr (JObj [(''titles'', JArr [JStr ''A'']), (''total_count'', JInt 1)]), [NewsServerGet])"
    by (simp add: get_news_titles_def fetch_json_def response_json_def)
  note both = news_tool_ignores_arguments [OF n1 n2 d1 d2, of ?answer]
  have same: "execute_news_tool sample_lib ?answer ?call1
              = execute_news_tool sample_lib ?answer ?call2"
    by (rule both [THEN conjunct1])
  have result: "execute_news_tool sample_lib ?answer ?call1
      = (Inr (JObj [(''titles'', JArr [JStr ''A'']), (''total_count'', JInt 1)]), [NewsServerGet])"
    by (rule trans [OF both [THEN conjunct2] titles])
  show ?thesis
    by (intro conjI) (fact n1 n2 a1 a2 same result)+
qed

section \<open>Registration\<close>

lemma tool_name_news: "tool_name get_news_tool = Inr (JStr ''news'')"
  by (simp add: tool_name_def get_news_tool_def NEWS_TOOL_DEFINITION_def thn_def)

lemma tool_name_weather: "tool_name get_weather_tool = Inr (JStr ''weather'')"
  by (simp add: tool_name_def get_weather_tool_def WEATHER_TOOL_DEFINITION_def thn_def)

lemma has_tool_found:
  "scan_succeeds tools \<Longrightarrow> has_tool n tools = Inr (descriptors_named n tools \<noteq> [])"
proof (induction tools)
  case Nil
  then show ?case by (simp add: descriptors_named_def)
next
  case (Cons tool tools)
  then have rest: "has_tool n tools = Inr (descriptors_named n tools \<noteq> [])"
    by (simp add: scan_succeeds_def)
  from Cons.prems obtain v where v: "tool_name tool = Inr v"
    by (auto simp add: scan_succeeds_def split: sum.splits)
  then obtain f where f: "py_get tool ''function'' (JObj []) = Inr f"
      and name: "py_get f ''name'' JNull = Inr v"
    by (auto simp add: tool_name_def thn_def split: sum.splits)
  show ?case
    using rest v f name by (simp add: thn_def descriptors_named_def)
qed

lemma descriptors_named_append:
  "descriptors_named n (tools @ [tool]) =
     descriptors_named n tools @ (if tool_name tool = Inr (JStr n) then [tool] else [])"
  by (simp add: descriptors_named_def)

lemma register_news_tool_result:
  "scan_succeeds tools \<Longrightarrow>
   register_news_tool (Some tools) =
     Inr (if descriptors_named ''news'' tools \<noteq> [] then tools else tools @ [get_news_tool])"
  by (simp add: register_news_tool_def has_tool_found thn_def)

lemma register_weather_tool_result:
  "scan_succeeds tools \<Longrightarrow>
   register_weather_tool (Some tools) =
     Inr (if descriptors_named ''weather'' tools \<noteq> [] then tools else tools @ [get_weather_tool])"
  by (simp add: register_weather_tool_def has_tool_found thn_def)

lemma scan_succeeds_append:
  "scan_succeeds (tools @ [tool]) =
     (scan_succeeds tools \<and> (case tool_name tool of Inl e \<Rightarrow> False | Inr v \<Rightarrow> True))"
  by (simp add: scan_succeeds_def)

text \<open>
  What a sequence of registrations does to a list the scan goes through: the result is
  such a list again, a registered name ends with one descriptor if it had none, and
  nothing else changes in the number of descriptors of any name.
\<close>

lemma register_all_counts:
  "scan_succeeds tools \<Longrightarrow>
   \<exists>registry. register_all rs (Some tools) = Inr registry \<and> scan_succeeds registry
     \<and> (\<forall>n. length (descriptors_named n registry) =
              (if descriptors_named n tools = []
                  \<and> (n = ''news'' \<and> RegisterNews \<in> set rs \<or> n = ''weather'' \<and> RegisterWeather \<in> set rs)
               then 1 else length (descriptors_named n tools)))"
proof (induction rs arbitrary: tools)
  case Nil
  then show ?case by simp
next
  case (Cons r rs)
  show ?case
  proof (cases r)
    case RegisterNews
    let ?next = "if descriptors_named ''news'' tools \<noteq> [] then tools else tools @ [get_news_tool]"
    have step: "register_news_tool (Some tools) = Inr ?next"
      using Cons.prems by (rule register_news_tool_result)
    have ok: "scan_succeeds ?next"
      using Cons.prems by (simp add: scan_succeeds_append tool_name_news)
    from Cons.IH [OF ok] obtain registry where
      run: "register_all rs (Some ?next) = Inr registry" and ok': "scan_succeeds registry"
      and counts: "\<forall>n. length (descriptors_named n registry) =
              (if descriptors_named n ?next = []
                  \<and> (n = ''news'' \<and> RegisterNews \<in> set rs \<or> n = ''weather'' \<and> RegisterWeather \<in> set rs)
               then 1 else length (descriptors_named n ?next))"
      by blast
    have "register_all (r # rs) (Some tools) = Inr registry"
      using RegisterNews step run by (simp add: thn_def)
    moreover have "\<forall>n. length (descriptors_named n registry) =
              (if descriptors_named n tools = []
                  \<and> (n = ''news'' \<and> RegisterNews \<in> set (r # rs)
                     \<or> n = ''weather'' \<and> RegisterWeather \<in> set (r # rs))
               then 1 else length (descriptors_named n tools))"
      using counts RegisterNews
      by (auto simp add: descriptors_named_append tool_name_news)
    ultimately show ?thesis using ok' by blast
  next
    case RegisterWeather
    let ?next = "if descriptors_named ''weather'' tools \<noteq> [] then tools
                 else tools @ [get_weather_tool]"
    have step: "register_weather_tool (Some tools) = Inr ?next"
      using Cons.prems by (rule register_weather_tool_result)
    have ok: "scan_succeeds ?next"
      using Cons.prems by (simp add: scan_succeeds_append tool_name_weather)
    from Cons.IH [OF ok] obtain registry where
      run: "register_all rs (Some ?next) = Inr registry" and ok': "scan_succeeds registry"
      and counts: "\<forall>n. length (descriptors_named n registry) =
              (if descriptors_named n ?next = []
                  \<and> (n = ''news'' \<and> RegisterNews \<in> set rs \<or> n = ''weather'' \<and> RegisterWeather \<in> set rs)
               then 1 else length (descriptors_named n ?next))"
      by blast
    have "register_all (r # rs) (Some tools) = Inr registry"
      using RegisterWeather step run by (simp add: thn_def)
    moreover have "\<forall>n. length (descriptors_named n registry) =
              (if descriptors_named n tools = []
                  \<and> (n = ''news'' \<and> RegisterNews \<in> set (r # rs)
                     \<or> n = ''weather'' \<and> RegisterWeather \<in> set (r # rs))
               then 1 else length (descriptors_named n tools))"
      using counts RegisterWeather
      by (auto simp add: descriptors_named_append tool_name_weather)
    ultimately show ?thesis using ok' by blast
  qed
qed

lemma register_all_None: "register_all rs None = register_all rs (Some [])"
proof (cases rs)
  case Nil
  then show ?thesis by simp
next
  case (Cons r rest)
  then show ?thesis
    by (cases r) (simp_all add: register_news_tool_def register_weather_tool_def)
qed

text \<open>
  C5. Registration is idempotent. Registering a tool whose name the scan finds in the list
  returns the list unchanged. After any sequence of registrations, started from no list
  or from a list that holds at most one descriptor per name, the registry holds at most
  one descriptor per name, and exactly one for a name that was registered, be it once,
  twice or more.
\<close>

theorem registration_idempotent:
  "(has_tool ''news'' tools = Inr True \<longrightarrow> register_news_tool (Some tools) = Inr tools)
   \<and> (has_tool ''weather'' tools = Inr True \<longrightarrow> register_weather_tool (Some tools) = Inr tools)
   \<and> (\<exists>registry. register_all rs None = Inr registry
         \<and> (\<forall>n. length (descriptors_named n registry) \<le> 1)
         \<and> length (descriptors_named ''news'' registry) = (if RegisterNews \<in> set rs then 1 else 0)
         \<and> length (descriptors_named ''weather'' registry)
             = (if RegisterWeather \<in> set rs then 1 else 0))
   \<and> (scan_succeeds tools \<and> (\<forall>n. length (descriptors_named n tools) \<le> 1) \<longrightarrow>
        (\<exists>registry. register_all rs (Some tools) = Inr registry
           \<and> (\<forall>n. length (descriptors_named n registry) \<le> 1)
           \<and> (RegisterNews \<in> set rs \<longrightarrow> length (descriptors_named ''news'' registry) = 1)
           \<and> (RegisterWeather \<in> set rs \<longrightarrow> length (descriptors_named ''weather'' registry) = 1)))"
proof (intro conjI impI)
  assume "has_tool ''news'' tools = Inr True"
  then show "register_news_tool (Some tools) = Inr tools"
    by (simp add: register_news_tool_def thn_def)
next
  assume "has_tool ''weather'' tools = Inr True"
  then show "register_weather_tool (Some tools) = Inr tools"
    by (simp add: register_weather_tool_def thn_def)
next
  have "scan_succeeds []"
    by (simp add: scan_succeeds_def)
  from register_all_counts [OF this, of rs] obtain registry where
    run: "register_all rs (Some []) = Inr registry"
    and counts: "\<forall>n. length (descriptors_named n registry) =
              (if descriptors_named n [] = []
                  \<and> (n = ''news'' \<and> RegisterNews \<in> set rs \<or> n = ''weather'' \<and> RegisterWeather \<in> set rs)
               then 1 else length (descriptors_named n []))"
    by blast
  have empty: "\<And>n. descriptors_named n [] = []"
    by (simp add: descriptors_named_def)
  have "\<forall>n. length (descriptors_named n registry) \<le> 1"
    using counts by (simp add: empty)
  moreover have "length (descriptors_named ''news'' registry) = (if RegisterNews \<in> set rs then 1 else 0)"
    using counts by (simp add: empty)
  moreover have "length (descriptors_named ''weather'' registry)
                 = (if RegisterWeather \<in> set rs then 1 else 0)"
    using counts by (simp add: empty)
  ultimately show "\<exists>registry. register_all rs None = Inr registry
         \<and> (\<forall>n. length (descriptors_named n registry) \<le> 1)
         \<and> length (descriptors_named ''news'' registry) = (if RegisterNews \<in> set rs then 1 else 0)
         \<and> length (descriptors_named ''weather'' registry)
             = (if RegisterWeather \<in> set rs then 1 else 0)"
    using run by (simp add: register_all_None)
next
  assume start: "scan_succeeds tools \<and> (\<forall>n. length (descriptors_named n tools) \<le> 1)"
  from register_all_counts [of tools rs] start obtain registry where
    run: "register_all rs (Some tools) = Inr registry"
    and counts: "\<forall>n. length (descriptors_named n registry) =
              (if descriptors_named n tools = []
                  \<and> (n = ''news'' \<and> RegisterNews \<in> set rs \<or> n = ''weather'' \<and> RegisterWeather \<in> set rs)
               then 1 else length (descriptors_named n tools))"
    by blast
  have most: "\<forall>n. length (descriptors_named n registry) \<le> 1"
    using counts start by simp
  have news: "RegisterNews \<in> set rs \<longrightarrow> length (descriptors_named ''news'' registry) = 1"
  proof
    assume r: "RegisterNews \<in> set rs"
    have "length (descriptors_named ''news'' tools) \<le> 1"
      using start by blast
    then have "descriptors_named ''news'' tools = [] \<or> length (descriptors_named ''news'' tools) = 1"
      by (cases "descriptors_named ''news'' tools") auto
    then show "length (descriptors_named ''news'' registry) = 1"
      using counts r by auto
  qed
  have weather: "RegisterWeather \<in> set rs \<longrightarrow> length (descriptors_named ''weather'' registry) = 1"
  proof
    assume r: "RegisterWeather \<in> set rs"
    have "length (descriptors_named ''weather'' tools) \<le> 1"
      using start by blast
    then have "descriptors_named ''weather'' tools = []
               \<or> length (descriptors_named ''weather'' tools) = 1"
      by (cases "descriptors_named ''weather'' tools") auto
    then show "length (descriptors_named ''weather'' registry) = 1"
      using counts r by auto
  qed
  show "\<exists>registry. register_all rs (Some tools) = Inr registry
           \<and> (\<forall>n. length (descriptors_named n registry) \<le> 1)
           \<and> (RegisterNews \<in> set rs \<longrightarrow> length (descriptors_named ''news'' registry) = 1)
           \<and> (RegisterWeather \<in> set rs \<longrightarrow> length (descriptors_named ''weather'' registry) = 1)"
    using run most news weather by blast
qed

theorem registration_idempotent_witness:
  "has_tool ''news'' [WEATHER_TOOL_DEFINITION, NEWS_TOOL_DEFINITION] = Inr True
   \<and> register_news_tool (Some [WEATHER_TOOL_DEFINITION, NEWS_TOOL_DEFINITION])
       = Inr [WEATHER_TOOL_DEFINITION, NEWS_TOOL_DEFINITION]
   \<and> scan_succeeds [WEATHER_TOOL_DEFINITION, NEWS_TOOL_DEFINITION]
   \<and> (\<forall>n. length (descriptors_named n [WEATHER_TOOL_DEFINITION, NEWS_TOOL_DEFINITION]) \<le> 1)
   \<and> RegisterNews \<in> set [RegisterNews, RegisterNews]
   \<and> (\<exists>registry. register_all [RegisterNews, RegisterNews]
                       (Some [WEATHER_TOOL_DEFINITION, NEWS_TOOL_DEFINITION]) = Inr registry
         \<and> length (descriptors_named ''news'' registry) = 1)
   \<and> (\<exists>registry. register_all [RegisterNews, RegisterNews] None = Inr registry
         \<and> length (descriptors_named ''news'' registry) = 1)"
proof -
  let ?tools = "[WEATHER_TOOL_DEFINITION, NEWS_TOOL_DEFINITION]"
  have found: "has_tool ''news'' ?tools = Inr True"
    by (simp add: WEATHER_TOOL_DEFINITION_def NEWS_TOOL_DEFINITION_def thn_def)
  have names: "tool_name WEATHER_TOOL_DEFINITION = Inr (JStr ''weather'')"
      "tool_name NEWS_TOOL_DEFINITION = Inr (JStr ''news'')"
    using tool_name_weather tool_name_news by (simp_all add: get_news_tool_def get_weather_tool_def)
  have ok: "scan_succeeds ?tools"
    by (simp add: scan_succeeds_def names)
  have most: "\<forall>n. length (descriptors_named n ?tools) \<le> 1"
    by (simp add: descriptors_named_def names)
  note all = registration_idempotent [of ?tools "[RegisterNews, RegisterNews]"]
  have same: "register_news_tool (Some ?tools) = Inr ?tools"
    using all found by blast
  have from_list: "\<exists>registry. register_all [RegisterNews, RegisterNews] (Some ?tools) = Inr registry
         \<and> length (descriptors_named ''news'' registry) = 1"
    using all ok most by auto
  have from_none: "\<exists>registry. register_all [RegisterNews, RegisterNews] None = Inr registry
         \<and> length (descriptors_named ''news'' registry) = 1"
    using all by auto
  show ?thesis
    using found same ok most from_list from_none by simp
qed


section \<open>Titles of the news route\<close>

lemma collect_titles_passes:
  "list_all title_scan_passes articles \<Longrightarrow>
   collect_titles titles articles = Inr (titles @ List.map_filter title_of articles)"
proof (induction articles arbitrary: titles)
  case Nil
  then show ?case by simp
next
  case (Cons article articles)
  then have rest: "\<And>ts. collect_titles ts articles = Inr (ts @ List.map_filter title_of articles)"
    by simp
  from Cons.prems have "title_scan_passes article"
    by simp
  then show ?case
    by (cases article)
       (auto simp add: rest thn_def has_key_def split: option.splits)
qed

lemma news_try_titles:
  assumes "map_of body ''results'' = Some (JArr articles)"
    and "list_all title_scan_passes articles"
  shows "news_try lib (Response 200 body_text (Inr (JObj body))) =
           Inr (JObj [(''titles'', JArr (List.map_filter title_of articles)),
                      (''total_count'', JInt (int (length (List.map_filter title_of articles))))])"
  using assms
  by (simp add: news_try_def extract_titles_def thn_def response_json_def has_key_def
        collect_titles_passes)

text \<open>
  C8, as the code has it. For every upstream news response with status 200 whose body is
  an object with a \<open>results\<close> list in which every element is an object (or a list or
  string that does not contain \<open>"title"\<close>), the handler returns \<open>titles\<close> and
  \<open>total_count\<close>: the titles are the \<open>title\<close> fields of the elements that have one, in
  order, the other elements are skipped, and the count is the number of titles; the
  route answers with status 200.
\<close>

theorem news_titles_of_objects:
  assumes "news_api ev = Response 200 body_text (Inr (JObj body))"
    and "map_of body ''results'' = Some (JArr articles)"
    and "list_all title_scan_passes articles"
    and "get_path req = ''/news'' \<or> get_path req = ''/get_news''"
  shows "handle_news_request lib ev =
           (JObj [(''titles'', JArr (List.map_filter title_of articles)),
                  (''total_count'', JInt (int (length (List.map_filter title_of articles))))],
            [NewsApiGet])
       \<and> do_GET lib ev req =
           \<lparr>status = 200,
            payload = JObj [(''titles'', JArr (List.map_filter title_of articles)),
                            (''total_count'',
                             JInt (int (length (List.map_filter title_of articles))))],
            upstream = [NewsApiGet]\<rparr>"
proof -
  have handler: "handle_news_request lib ev =
           (JObj [(''titles'', JArr (List.map_filter title_of articles)),
                  (''total_count'', JInt (int (length (List.map_filter title_of articles))))],
            [NewsApiGet])"
    using assms(1) news_try_titles [OF assms(2,3)]
    by (simp add: handle_news_request_def news_outer_def)
  have "get_route lib ev req = map_prod Inr id (handle_news_request lib ev)"
    using assms(4) by (auto simp add: get_route_def)
  moreover have "get_path req \<in> set get_paths"
    using assms(4) by (auto simp add: get_paths_def)
  ultimately show ?thesis
    using handler by (simp add: do_GET_def send_def has_key_def)
qed

theorem news_titles_of_objects_witness:
  "news_api \<lparr>news_api = Response 200 []
                (Inr (JObj [(''results'',
                             JArr [JObj [(''title'', JStr ''A'')], JObj [(''title'', JStr ''B'')],
                                   JObj [(''other'', JStr ''x'')]])])),
             weather_api = (\<lambda>key lat lon. Raises (ReqTimeout [])),
             weather_api_key = None\<rparr>
     = Response 200 []
         (Inr (JObj [(''results'',
                      JArr [JObj [(''title'', JStr ''A'')], JObj [(''title'', JStr ''B'')],
                            JObj [(''other'', JStr ''x'')]])]))
   \<and> list_all title_scan_passes
        [JObj [(''title'', JStr ''A'')], JObj [(''title'', JStr ''B'')],
         JObj [(''other'', JStr ''x'')]]
   \<and> do_GET sample_lib
        \<lparr>news_api = Response 200 []
                (Inr (JObj [(''results'',
                             JArr [JObj [(''title'', JStr ''A'')], JObj [(''title'', JStr ''B'')],
                                   JObj [(''other'', JStr ''x'')]])])),
             weather_api = (\<lambda>key lat lon. Raises (ReqTimeout [])),
             weather_api_key = None\<rparr>
        \<lparr>get_path = ''/news'', get_query = []\<rparr>
      = \<lparr>status = 200,
         payload = JObj [(''titles'', JArr [JStr ''A'', JStr ''B'']), (''total_count'', JInt 2)],
         upstream = [NewsApiGet]\<rparr>"
proof -
  let ?articles = "[JObj [(''title'', JStr ''A'')], JObj [(''title'', JStr ''B'')],
                    JObj [(''other'', JStr ''x'')]]"
  let ?ev = "\<lparr>news_api = Response 200 [] (Inr (JObj [(''results'', JArr ?articles)])),
              weather_api = (\<lambda>key lat lon. Raises (ReqTimeout [])),
              weather_api_key = None\<rparr>"
  have api: "news_api ?ev = Response 200 [] (Inr (JObj [(''results'', JArr ?articles)]))"
    by simp
  have results: "map_of [(''results'', JArr ?articles)] ''results'' = Some (JArr ?articles)"
    by simp
  have passes: "list_all title_scan_passes ?articles"
    by simp
  have path: "get_path \<lparr>get_path = ''/news'', get_query = []\<rparr> = ''/news''
              \<or> get_path \<lparr>get_path = ''/news'', get_query = []\<rparr> = ''/get_news''"
    by simp
  have titles: "List.map_filter title_of ?articles = [JStr ''A'', JStr ''B'']"
    by simp
  show ?thesis
    using news_titles_of_objects [OF api results passes path, of sample_lib] passes
    by (simp add: titles)
qed

text \<open>
  C8 as stated fails when an element of the list is not an object: for the upstream body
  \<open>{results: [5]}\<close> the test \<open>"title" in 5\<close> raises \<open>TypeError\<close>, and the handler
  returns the error payload of an unexpected format, with status 400, where the claim
  has the element skipped and \<open>{titles: [], total_count: 0}\<close> returned.
\<close>

theorem news_titles_counterexample:
  "do_GET sample_lib
     \<lparr>news_api = Response 200 [] (Inr (JObj [(''results'', JArr [JInt 5])])),
      weather_api = (\<lambda>key lat lon. Raises (ReqTimeout [])),
      weather_api_key = None\<rparr>
     \<lparr>get_path = ''/news'', get_query = []\<rparr>
   = \<lparr>status = 400,
      payload = JObj [(''error'', JStr (msg_unexpected_format @ interpreter_text sample_lib TypeError)),
                      (''raw_response'', JObj [(''results'', JArr [JInt 5])])],
      upstream = [NewsApiGet]\<rparr>"
  by (simp add: do_GET_def get_route_def get_paths_def send_def has_key_def
        handle_news_request_def news_outer_def news_try_def extract_titles_def thn_def
        response_json_def)

section \<open>Failures of the news route\<close>

lemma extract_titles_shape:
  "extract_titles news_data = Inr result \<Longrightarrow>
   \<exists>titles. result = JObj [(''titles'', JArr titles), (''total_count'', JInt (int (length titles)))]"
  by (auto simp add: extract_titles_def thn_def split: sum.splits if_splits)

lemma request_failure_shape: "\<exists>m. request_failure lib timeout_msg e = error_payload m"
  by (cases e) (auto simp add: request_failure_def)

lemma news_fails_status:
  "status_code \<noteq> 200 \<Longrightarrow> \<not> news_succeeds (Response status_code body_text body)"
  by (cases "Response status_code body_text body" rule: news_succeeds.cases) simp_all

text \<open>The payload of the news handler: a success with no \<open>error\<close> key, or an error with no \<open>titles\<close> key.\<close>

lemma news_outer_cases:
  "(news_succeeds outcome \<and>
      (\<exists>titles. news_outer lib outcome =
         JObj [(''titles'', JArr titles), (''total_count'', JInt (int (length titles)))]))
   \<or> (\<not> news_succeeds outcome \<and>
      (\<exists>items. news_outer lib outcome = JObj items \<and> has_key ''error'' items
                \<and> \<not> has_key ''titles'' items))"
proof (cases outcome)
  case (Raises e)
  obtain m where "request_failure lib msg_news_timeout e = error_payload m"
    using request_failure_shape by blast
  then show ?thesis
    using Raises by (simp add: news_outer_def news_try_def error_payload_def has_key_def)
next
  case (Response status_code body_text body)
  show ?thesis
  proof (cases "status_code = 200")
    case False
    then show ?thesis
      using Response
      by (simp add: news_outer_def news_try_def has_key_def news_fails_status)
  next
    case True
    show ?thesis
    proof (cases body)
      case (Inl failure)
      obtain m where
        "request_failure lib msg_news_timeout (ReqException failure) = error_payload m"
        using request_failure_shape by blast
      then show ?thesis
        using Response True Inl
        by (simp add: news_outer_def news_try_def thn_def response_json_def error_payload_def
              has_key_def)
    next
      case (Inr news_data)
      have not_dict: ?thesis if "py_get news_data ''totalResults'' (JInt 0) = Inl e" for e
      proof -
        obtain m where "request_failure lib msg_news_timeout e = error_payload m"
          using request_failure_shape by blast
        moreover have "\<not> news_succeeds outcome"
          using that Response Inr by (cases news_data) simp_all
        ultimately show ?thesis
          using that Response True Inr
          by (simp add: news_outer_def news_try_def thn_def response_json_def error_payload_def
                has_key_def)
      qed
      have dict: ?thesis if "py_get news_data ''totalResults'' (JInt 0) = Inr total" for total
      proof -
        from that obtain items where items: "news_data = JObj items"
          by (cases news_data) simp_all
        show ?thesis
        proof (cases "extract_titles news_data")
          case (Inl e)
          obtain m where "request_failure lib msg_news_timeout e = error_payload m"
            using request_failure_shape by blast
          then show ?thesis
            using that Response True Inr Inl items
            by (simp add: news_outer_def news_try_def thn_def response_json_def error_payload_def
                  has_key_def)
        next
          case (Inr result)
          from extract_titles_shape [OF this] obtain titles where
            "result = JObj [(''titles'', JArr titles), (''total_count'', JInt (int (length titles)))]"
            by blast
          then show ?thesis
            using that Response True \<open>body = Inr news_data\<close> Inr items
            by (simp add: news_outer_def news_try_def thn_def response_json_def)
        qed
      qed
      show ?thesis
        using not_dict dict by (cases "py_get news_data ''totalResults'' (JInt 0)") blast+
    qed
  qed
qed

text \<open>
  C4, as the code has it. On the news route, under GET and under POST with a body that is
  empty or decodes, a failed upstream call (an exception of the request, a status other
  than 200, a body that does not decode to an object, an exception while the titles are
  extracted) is answered with an error payload and status 400, whatever the kind of the
  failure, and the payload of a failed request has no \<open>titles\<close>; a call that succeeds is
  answered with status 200. One upstream call is made in either case.
\<close>

theorem news_failure_status:
  assumes "path = ''/news'' \<or> path = ''/get_news''"
    and "body = [] \<or> json_loads lib body = Inr request_data"
  shows "(\<forall>r \<in> {do_GET lib ev \<lparr>get_path = path, get_query = q\<rparr>,
                  do_POST lib ev \<lparr>post_path = path, post_body = Inr body\<rparr>}.
            upstream r = [NewsApiGet]
            \<and> status r = (if news_succeeds (news_api ev) then 200 else 400)
            \<and> (\<not> news_succeeds (news_api ev) \<longrightarrow>
                 (\<exists>items. payload r = JObj items \<and> has_key ''error'' items
                           \<and> \<not> has_key ''titles'' items)))"
proof -
  let ?p = "news_outer lib (news_api ev)"
  have known: "path \<in> set get_paths" "path \<in> set post_paths"
    using assms(1) by (auto simp add: get_paths_def post_paths_def)
  have get: "do_GET lib ev \<lparr>get_path = path, get_query = q\<rparr>
             = send lib get_paths path (Inr ?p) [NewsApiGet]"
    using assms(1) by (auto simp add: do_GET_def get_route_def handle_news_request_def)
  have route: "post_route lib ev path d = (Inr ?p, [NewsApiGet])" for d
    using assms(1) by (auto simp add: post_route_def handle_news_request_def)
  have post: "do_POST lib ev \<lparr>post_path = path, post_body = Inr body\<rparr>
              = send lib post_paths path (Inr ?p) [NewsApiGet]"
    using assms(2) by (auto simp add: do_POST_def route)
  have sent: "upstream (send lib known path (Inr ?p) [NewsApiGet]) = [NewsApiGet]
       \<and> status (send lib known path (Inr ?p) [NewsApiGet])
           = (if news_succeeds (news_api ev) then 200 else 400)
       \<and> (\<not> news_succeeds (news_api ev) \<longrightarrow>
            (\<exists>items. payload (send lib known path (Inr ?p) [NewsApiGet]) = JObj items
                      \<and> has_key ''error'' items \<and> \<not> has_key ''titles'' items))"
    if "path \<in> set known" for known
    using news_outer_cases [of "news_api ev" lib] that
    by (auto simp add: send_def has_key_def)
  show ?thesis
    using sent [OF known(1)] sent [OF known(2)] by (simp add: get post)
qed

theorem news_failure_status_witness:
  "(''/news'' = ''/news'' \<or> ''/news'' = ''/get_news'')
   \<and> \<not> news_succeeds (Response 503 ''Service Unavailable'' (Inl []))
   \<and> status (do_GET sample_lib
                \<lparr>news_api = Response 503 ''Service Unavailable'' (Inl []),
                 weather_api = (\<lambda>key lat lon. Raises (ReqTimeout [])),
                 weather_api_key = None\<rparr>
                \<lparr>get_path = ''/news'', get_query = []\<rparr>) = 400
   \<and> status (do_POST sample_lib
                \<lparr>news_api = Response 503 ''Service Unavailable'' (Inl []),
                 weather_api = (\<lambda>key lat lon. Raises (ReqTimeout [])),
                 weather_api_key = None\<rparr>
                \<lparr>post_path = ''/news'', post_body = Inr []\<rparr>) = 400
   \<and> (\<exists>items. payload (do_GET sample_lib
                \<lparr>news_api = Response 503 ''Service Unavailable'' (Inl []),
                 weather_api = (\<lambda>key lat lon. Raises (ReqTimeout [])),
                 weather_api_key = None\<rparr>
                \<lparr>get_path = ''/news'', get_query = []\<rparr>) = JObj items
          \<and> has_key ''error'' items \<and> \<not> has_key ''titles'' items)"
proof -
  let ?ev = "\<lparr>news_api = Response 503 ''Service Unavailable'' (Inl []),
              weather_api = (\<lambda>key lat lon. Raises (ReqTimeout [])),
              weather_api_key = None\<rparr>"
  have path: "''/news'' = ''/news'' \<or> ''/news'' = ''/get_news''"
    by simp
  have body: "([] :: string) = [] \<or> json_loads sample_lib [] = Inr JNull"
    by simp
  have failed: "\<not> news_succeeds (news_api ?ev)"
    by simp
  show ?thesis
    using news_failure_status [OF path body, of ?ev "[]"] failed
    by simp
qed

text \<open>
  C4 as stated fails in its second half: a failure inside the handler is not answered with
  status 500. When the upstream answers 200 with the body \<open>{results: [null]}\<close> the
  extraction of the titles raises \<open>TypeError\<close>, and when the body does not decode
  \<open>response.json()\<close> raises; the handler turns both into an error payload, and the route
  answers with status 400.
\<close>

theorem news_failure_status_counterexample:
  "extract_titles (JObj [(''results'', JArr [JNull])]) = Inl TypeError
   \<and> status (do_GET sample_lib
                \<lparr>news_api = Response 200 [] (Inr (JObj [(''results'', JArr [JNull])])),
                 weather_api = (\<lambda>key lat lon. Raises (ReqTimeout [])),
                 weather_api_key = None\<rparr>
                \<lparr>get_path = ''/news'', get_query = []\<rparr>) = 400
   \<and> status (do_GET sample_lib
                \<lparr>news_api = Response 200 ''<html>''
                              (Inl ''Expecting value: line 1 column 1 (char 0)''),
                 weather_api = (\<lambda>key lat lon. Raises (ReqTimeout [])),
                 weather_api_key = None\<rparr>
                \<lparr>get_path = ''/news'', get_query = []\<rparr>) = 400"
  by (simp add: do_GET_def get_route_def get_paths_def send_def has_key_def
        handle_news_request_def news_outer_def news_try_def extract_titles_def thn_def
        response_json_def request_failure_def error_payload_def)

section \<open>Extraction of the weather fields\<close>

text \<open>A request that passes the four checks reaches the upstream call.\<close>

lemma weather_request_validated:
  assumes "latitude \<noteq> JNull" and "longitude \<noteq> JNull"
    and "float_of lib latitude = Inr lat" and "float_of lib longitude = Inr lon"
    and "float_le (Fin (- 90)) lat \<and> float_le lat (Fin 90)"
    and "float_le (Fin (- 180)) lon \<and> float_le lon (Fin 180)"
    and "weather_api_key ev = Some key" and "str_strip lib key \<noteq> []" and "key \<noteq> []"
  shows "handle_weather_request lib ev latitude longitude =
           (Inr (weather_outer lib (weather_api ev (str_strip lib key) lat lon)),
            [WeatherApiGet (str_strip lib key) lat lon])"
  using assms by (simp add: handle_weather_request_def weather_checked_def Let_def)

lemma extract_weather_from:
  "weather_fact weather_data = Inr (JObj source) \<Longrightarrow>
   extract_weather weather_data = Inr (weather_payload source weather_data)"
  by (simp add: extract_weather_def thn_def weather_payload_def field_def)

lemma weather_outer_from:
  "weather_fact weather_data = Inr (JObj source) \<Longrightarrow>
   weather_outer lib (Response 200 body_text (Inr weather_data)) = weather_payload source weather_data"
  by (simp add: weather_outer_def weather_try_def thn_def response_json_def extract_weather_from)

lemma weather_fact_primary:
  "map_of body ''fact'' = Some (JObj primary) \<Longrightarrow> primary \<noteq> [] \<Longrightarrow>
   weather_fact (JObj body) = Inr (JObj primary)"
  by (simp add: weather_fact_def thn_def)

lemma weather_fact_secondary:
  assumes "map_of body ''fact'' = None \<or> map_of body ''fact'' = Some (JObj [])"
    and "map_of body ''forecasts'' = Some (JArr (JObj first # others))"
    and "map_of first ''parts'' = Some (JObj parts)"
    and "map_of parts ''day'' = Some (JObj day)"
  shows "weather_fact (JObj body) = Inr (JObj day)"
  using assms by (auto simp add: weather_fact_def thn_def)

lemma weather_fact_neither:
  assumes "map_of body ''fact'' = None \<or> map_of body ''fact'' = Some (JObj [])"
    and "map_of body ''forecasts'' = None \<or> map_of body ''forecasts'' = Some (JArr [])"
  shows "weather_fact (JObj body) = Inr (JObj [])"
  using assms by (auto simp add: weather_fact_def thn_def)

lemma extract_weather_shape:
  "extract_weather weather_data = Inr result \<Longrightarrow>
   result = JObj [(''error'', JStr msg_weather_extraction_failed), (''raw_response'', weather_data)]
   \<or> (\<exists>t c w h. result = JObj [(''temperature'', t), (''condition'', c),
                                   (''wind_speed'', w), (''humidity'', h)]
          \<and> \<not> (t = JNull \<and> c = JNull \<and> w = JNull \<and> h = JNull))"
  by (auto simp add: extract_weather_def thn_def split: sum.splits if_splits)

lemma weather_outer_shape:
  "(\<exists>items. weather_outer lib (Response 200 body_text (Inr weather_data)) = JObj items
             \<and> has_key ''error'' items)
   \<or> (\<exists>t c w h. weather_outer lib (Response 200 body_text (Inr weather_data))
                     = JObj [(''temperature'', t), (''condition'', c),
                             (''wind_speed'', w), (''humidity'', h)]
          \<and> \<not> (t = JNull \<and> c = JNull \<and> w = JNull \<and> h = JNull))"
proof (cases "extract_weather weather_data")
  case (Inl e)
  obtain m where "request_failure lib msg_weather_timeout e = error_payload m"
    using request_failure_shape by blast
  then show ?thesis
    using Inl
    by (simp add: weather_outer_def weather_try_def thn_def response_json_def error_payload_def
          has_key_def)
next
  case (Inr result)
  from extract_weather_shape [OF this] show ?thesis
    using Inr
    by (auto simp add: weather_outer_def weather_try_def thn_def response_json_def has_key_def)
qed

text \<open>
  C7. For every weather request that passes validation and whose upstream call answers
  with status 200 and a body that decodes: when the body is an object, the handler takes
  \<open>temp\<close>, \<open>condition\<close>, \<open>wind_speed\<close> and \<open>humidity\<close> from the \<open>fact\<close> object
  when that is there and not empty; when \<open>fact\<close> is missing or empty it takes them from
  \<open>forecasts[0].parts.day\<close>; and when all four are null (as they are when neither shape is
  there) it returns an error payload with the raw upstream body attached, and not a
  success. Whatever the body, the payload is an error payload or holds the four fields
  with at least one of them not null.
\<close>

theorem weather_fields_extracted:
  assumes "latitude \<noteq> JNull" and "longitude \<noteq> JNull"
    and "float_of lib latitude = Inr lat" and "float_of lib longitude = Inr lon"
    and "float_le (Fin (- 90)) lat \<and> float_le lat (Fin 90)"
    and "float_le (Fin (- 180)) lon \<and> float_le lon (Fin 180)"
    and "weather_api_key ev = Some key" and "key \<noteq> []" and "str_strip lib key = api_key"
    and "api_key \<noteq> []"
    and "weather_api ev api_key lat lon = Response 200 body_text (Inr weather_data)"
  shows "(\<forall>body primary.
            weather_data = JObj body \<and> map_of body ''fact'' = Some (JObj primary)
            \<and> primary \<noteq> [] \<longrightarrow>
            handle_weather_request lib ev latitude longitude =
              (Inr (weather_payload primary weather_data), [WeatherApiGet api_key lat lon]))
       \<and> (\<forall>body first others parts day.
            weather_data = JObj body
            \<and> (map_of body ''fact'' = None \<or> map_of body ''fact'' = Some (JObj []))
            \<and> map_of body ''forecasts'' = Some (JArr (JObj first # others))
            \<and> map_of first ''parts'' = Some (JObj parts)
            \<and> map_of parts ''day'' = Some (JObj day) \<longrightarrow>
            handle_weather_request lib ev latitude longitude =
              (Inr (weather_payload day weather_data), [WeatherApiGet api_key lat lon]))
       \<and> (\<forall>body.
            weather_data = JObj body
            \<and> (map_of body ''fact'' = None \<or> map_of body ''fact'' = Some (JObj []))
            \<and> (map_of body ''forecasts'' = None \<or> map_of body ''forecasts'' = Some (JArr [])) \<longrightarrow>
            handle_weather_request lib ev latitude longitude =
              (Inr (JObj [(''error'', JStr msg_weather_extraction_failed),
                          (''raw_response'', weather_data)]),
               [WeatherApiGet api_key lat lon]))
       \<and> (\<forall>source raw.
            weather_payload source raw =
              (if field source ''temp'' = JNull \<and> field source ''condition'' = JNull
                  \<and> field source ''wind_speed'' = JNull \<and> field source ''humidity'' = JNull
               then JObj [(''error'', JStr msg_weather_extraction_failed), (''raw_response'', raw)]
               else JObj [(''temperature'', field source ''temp''),
                          (''condition'', field source ''condition''),
                          (''wind_speed'', field source ''wind_speed''),
                          (''humidity'', field source ''humidity'')]))
       \<and> (\<exists>result. handle_weather_request lib ev latitude longitude =
                      (Inr result, [WeatherApiGet api_key lat lon])
             \<and> ((\<exists>items. result = JObj items \<and> has_key ''error'' items)
                  \<or> (\<exists>t c w h. result = JObj [(''temperature'', t), (''condition'', c),
                                                  (''wind_speed'', w), (''humidity'', h)]
                         \<and> \<not> (t = JNull \<and> c = JNull \<and> w = JNull \<and> h = JNull))))"
proof -
  have reached: "handle_weather_request lib ev latitude longitude =
      (Inr (weather_outer lib (Response 200 body_text (Inr weather_data))),
       [WeatherApiGet api_key lat lon])"
    using weather_request_validated [OF assms(1-7) _ assms(8)] assms(9-11) by simp
  have primary: "\<forall>body primary.
            weather_data = JObj body \<and> map_of body ''fact'' = Some (JObj primary)
            \<and> primary \<noteq> [] \<longrightarrow>
            handle_weather_request lib ev latitude longitude =
              (Inr (weather_payload primary weather_data), [WeatherApiGet api_key lat lon])"
    by (auto simp add: reached weather_outer_from weather_fact_primary)
  have secondary: "\<forall>body first others parts day.
            weather_data = JObj body
            \<and> (map_of body ''fact'' = None \<or> map_of body ''fact'' = Some (JObj []))
            \<and> map_of body ''forecasts'' = Some (JArr (JObj first # others))
            \<and> map_of first ''parts'' = Some (JObj parts)
            \<and> map_of parts ''day'' = Some (JObj day) \<longrightarrow>
            handle_weather_request lib ev latitude longitude =
              (Inr (weather_payload day weather_data), [WeatherApiGet api_key lat lon])"
  proof (intro allI impI)
    fix body first others parts day
    assume shape: "weather_data = JObj body
            \<and> (map_of body ''fact'' = None \<or> map_of body ''fact'' = Some (JObj []))
            \<and> map_of body ''forecasts'' = Some (JArr (JObj first # others))
            \<and> map_of first ''parts'' = Some (JObj parts)
            \<and> map_of parts ''day'' = Some (JObj day)"
    then have "weather_fact weather_data = Inr (JObj day)"
      using weather_fact_secondary [of body first others parts day] by blast
    then show "handle_weather_request lib ev latitude longitude =
              (Inr (weather_payload day weather_data), [WeatherApiGet api_key lat lon])"
      by (simp add: reached weather_outer_from)
  qed
  have neither: "\<forall>body.
            weather_data = JObj body
            \<and> (map_of body ''fact'' = None \<or> map_of body ''fact'' = Some (JObj []))
            \<and> (map_of body ''forecasts'' = None \<or> map_of body ''forecasts'' = Some (JArr [])) \<longrightarrow>
            handle_weather_request lib ev latitude longitude =
              (Inr (JObj [(''error'', JStr msg_weather_extraction_failed),
                          (''raw_response'', weather_data)]),
               [WeatherApiGet api_key lat lon])"
  proof (intro allI impI)
    fix body
    assume "weather_data = JObj body
            \<and> (map_of body ''fact'' = None \<or> map_of body ''fact'' = Some (JObj []))
            \<and> (map_of body ''forecasts'' = None \<or> map_of body ''forecasts'' = Some (JArr []))"
    then have "weather_fact weather_data = Inr (JObj [])"
      using weather_fact_neither [of body] by blast
    then show "handle_weather_request lib ev latitude longitude =
              (Inr (JObj [(''error'', JStr msg_weather_extraction_failed),
                          (''raw_response'', weather_data)]),
               [WeatherApiGet api_key lat lon])"
      by (simp add: reached weather_outer_from weather_payload_def field_def)
  qed
  have always: "\<exists>result. handle_weather_request lib ev latitude longitude =
                      (Inr result, [WeatherApiGet api_key lat lon])
             \<and> ((\<exists>items. result = JObj items \<and> has_key ''error'' items)
                  \<or> (\<exists>t c w h. result = JObj [(''temperature'', t), (''condition'', c),
                                                  (''wind_speed'', w), (''humidity'', h)]
                         \<and> \<not> (t = JNull \<and> c = JNull \<and> w = JNull \<and> h = JNull)))"
    using weather_outer_shape [of lib body_text weather_data] by (simp add: reached)
  show ?thesis
    using primary secondary neither always by (simp add: weather_payload_def)
qed

theorem weather_fields_extracted_witness:
  "float_of sample_lib (JStr ''55'') = Inr (Fin 55)
   \<and> float_of sample_lib (JStr ''37'') = Inr (Fin 37)
   \<and> str_strip sample_lib '' secret '' = ''secret''
   \<and> handle_weather_request sample_lib
        \<lparr>news_api = Raises (ReqTimeout []),
         weather_api = (\<lambda>key lat lon. Response 200 []
            (Inr (JObj [(''fact'', JObj [(''temp'', JInt 7), (''condition'', JStr ''clear''),
                                         (''wind_speed'', JInt 3)])]))),
         weather_api_key = Some '' secret ''\<rparr>
        (JStr ''55'') (JStr ''37'')
      = (Inr (JObj [(''temperature'', JInt 7), (''condition'', JStr ''clear''),
                    (''wind_speed'', JInt 3), (''humidity'', JNull)]),
         [WeatherApiGet ''secret'' (Fin 55) (Fin 37)])
   \<and> handle_weather_request sample_lib
        \<lparr>news_api = Raises (ReqTimeout []),
         weather_api = (\<lambda>key lat lon. Response 200 []
            (Inr (JObj [(''forecasts'',
                         JArr [JObj [(''parts'',
                                      JObj [(''day'', JObj [(''humidity'', JInt 80)])])]])]))),
         weather_api_key = Some '' secret ''\<rparr>
        (JStr ''55'') (JStr ''37'')
      = (Inr (JObj [(''temperature'', JNull), (''condition'', JNull),
                    (''wind_speed'', JNull), (''humidity'', JInt 80)]),
         [WeatherApiGet ''secret'' (Fin 55) (Fin 37)])
   \<and> handle_weather_request sample_lib
        \<lparr>news_api = Raises (ReqTimeout []),
         weather_api = (\<lambda>key lat lon. Response 200 []
            (Inr (JObj [(''fact'', JObj [(''pressure'', JInt 745)])]))),
         weather_api_key = Some '' secret ''\<rparr>
        (JStr ''55'') (JStr ''37'')
      = (Inr (JObj [(''error'', JStr msg_weather_extraction_failed),
                    (''raw_response'', JObj [(''fact'', JObj [(''pressure'', JInt 745)])])]),
         [WeatherApiGet ''secret'' (Fin 55) (Fin 37)])"
proof -
  let ?primary = "[(''fact'', JObj [(''temp'', JInt 7), (''condition'', JStr ''clear''),
                                    (''wind_speed'', JInt 3)])]"
  let ?secondary = "[(''forecasts'',
                      JArr [JObj [(''parts'', JObj [(''day'', JObj [(''humidity'', JInt 80)])])]])]"
  let ?useless = "[(''fact'', JObj [(''pressure'', JInt 745)])]"
  let ?ev = "\<lambda>body. \<lparr>news_api = Raises (ReqTimeout []),
                      weather_api = (\<lambda>key lat lon. Response 200 [] (Inr (JObj body))),
                      weather_api_key = Some '' secret ''\<rparr>"
  have lat: "float_of sample_lib (JStr ''55'') = Inr (Fin 55)"
    by (simp add: sample_lib_def sample_float_of_str_def)
  have lon: "float_of sample_lib (JStr ''37'') = Inr (Fin 37)"
    by (simp add: sample_lib_def sample_float_of_str_def)
  have strip: "str_strip sample_lib '' secret '' = ''secret''"
    by (simp add: sample_lib_def sample_strip_def sample_space_def)
  have key: "weather_api_key (?ev body) = Some '' secret ''" for body
    by simp
  have api: "weather_api (?ev body) ''secret'' (Fin 55) (Fin 37)
             = Response 200 [] (Inr (JObj body))" for body
    by simp
  have lat_ok: "float_le (Fin (- 90)) (Fin 55) \<and> float_le (Fin 55) (Fin 90)"
    by simp
  have lon_ok: "float_le (Fin (- 180)) (Fin 37) \<and> float_le (Fin 37) (Fin 180)"
    by simp
  have r1: "handle_weather_request sample_lib (?ev ?primary) (JStr ''55'') (JStr ''37'')
      = (Inr (JObj [(''temperature'', JInt 7), (''condition'', JStr ''clear''),
                    (''wind_speed'', JInt 3), (''humidity'', JNull)]),
         [WeatherApiGet ''secret'' (Fin 55) (Fin 37)])"
    using weather_fields_extracted
            [OF _ _ lat lon lat_ok lon_ok key [of ?primary] _ strip _ api [of ?primary]]
    by (simp add: weather_payload_def field_def)
  have r2: "handle_weather_request sample_lib (?ev ?secondary) (JStr ''55'') (JStr ''37'')
      = (Inr (JObj [(''temperature'', JNull), (''condition'', JNull),
                    (''wind_speed'', JNull), (''humidity'', JInt 80)]),
         [WeatherApiGet ''secret'' (Fin 55) (Fin 37)])"
    using weather_fields_extracted
            [OF _ _ lat lon lat_ok lon_ok key [of ?secondary] _ strip _ api [of ?secondary]]
    by (simp add: weather_payload_def field_def)
  have r3: "handle_weather_request sample_lib (?ev ?useless) (JStr ''55'') (JStr ''37'')
      = (Inr (JObj [(''error'', JStr msg_weather_extraction_failed),
                    (''raw_response'', JObj ?useless)]),
         [WeatherApiGet ''secret'' (Fin 55) (Fin 37)])"
    using weather_fields_extracted
            [OF _ _ lat lon lat_ok lon_ok key [of ?useless] _ strip _ api [of ?useless]]
    by (simp add: weather_payload_def field_def)
  show ?thesis
    using lat lon strip r1 r2 r3 by simp
qed

section \<open>An empty summary\<close>

lemma check_summary_no_text:
  "no_text lib summary \<Longrightarrow> check_summary lib summary = Inl (Exception msg_empty_summary)"
  by (cases summary) (auto simp add: no_text_def check_summary_def)

lemma check_summary_text:
  "check_summary lib summary = Inr s \<Longrightarrow> summary = JStr s \<and> s \<noteq> [] \<and> str_strip lib s \<noteq> []"
  by (cases summary) (auto simp add: check_summary_def split: if_splits)

lemma deliver_no_text:
  "no_text lib summary \<Longrightarrow> ex_outcome ex = Inr summary \<Longrightarrow>
   returned (deliver lib ex) = Inl (Exception (msg_summary_error @ msg_empty_summary))
   \<and> xcom_pushed (deliver lib ex) = []"
  by (simp add: deliver_def thn_def check_summary_no_text wrap_exception_def)

lemma deliver_returned:
  "returned (deliver lib ex) = Inr s \<Longrightarrow>
   s \<noteq> [] \<and> str_strip lib s \<noteq> [] \<and> xcom_pushed (deliver lib ex) = [(''summary'', JStr s)]"
  by (auto simp add: deliver_def thn_def split: sum.splits dest: check_summary_text)

lemma deliver_pushed:
  "xcom_pushed (deliver lib ex) \<noteq> [] \<Longrightarrow> \<exists>s. returned (deliver lib ex) = Inr s"
  by (auto simp add: deliver_def split: sum.splits)

lemma msg_no_news_found_not_empty: "msg_no_news_found \<noteq> []"
  by (simp add: msg_no_news_found_def)

text \<open>
  C6. For every run whose final text is the empty string, only white space, or \<open>None\<close>:
  the check raises the explicit error of an empty answer, the task raises it (under the
  prefix of its \<open>except\<close> clause) and pushes nothing to XCom, so no summary reaches the
  tasks after it. No run returns the empty string as a success, and a summary is pushed
  only when it is returned and is neither empty nor blank.
\<close>

theorem empty_summary_raises:
  assumes "no_text lib summary"
  shows "check_summary lib summary = Inl (Exception msg_empty_summary)
       \<and> (ex_outcome ex = Inr summary \<longrightarrow>
            returned (deliver lib ex) = Inl (Exception (msg_summary_error @ msg_empty_summary))
            \<and> xcom_pushed (deliver lib ex) = [])
       \<and> (build_prompt lib (xcom_news_data tev) = Inr (Some prompt)
            \<and> gigachat_installed tev \<and> GIGACHAT_CREDENTIALS tev \<noteq> []
            \<and> clean_credentials lib (GIGACHAT_CREDENTIALS tev) \<noteq> []
            \<and> ex_outcome (gigachat_exchange lib
                  (gigachat_client tev (clean_credentials lib (GIGACHAT_CREDENTIALS tev)))
                  (news_server tev) (GIGACHAT_MODEL tev) prompt) = Inr summary \<longrightarrow>
            returned (summarize_news_with_gigachat lib tev)
              = Inl (Exception (msg_summary_error @ msg_empty_summary))
            \<and> xcom_pushed (summarize_news_with_gigachat lib tev) = [])
       \<and> (\<forall>s. returned (summarize_news_with_gigachat lib tev) = Inr s \<longrightarrow> s \<noteq> [])
       \<and> (xcom_pushed (summarize_news_with_gigachat lib tev) \<noteq> [] \<longrightarrow>
            (\<exists>s. returned (summarize_news_with_gigachat lib tev) = Inr s
                 \<and> xcom_pushed (summarize_news_with_gigachat lib tev) = [(''summary'', JStr s)]
                 \<and> s \<noteq> [] \<and> str_strip lib s \<noteq> []))"
proof (intro conjI)
  show "check_summary lib summary = Inl (Exception msg_empty_summary)"
    using assms by (rule check_summary_no_text)
next
  show "ex_outcome ex = Inr summary \<longrightarrow>
        returned (deliver lib ex) = Inl (Exception (msg_summary_error @ msg_empty_summary))
        \<and> xcom_pushed (deliver lib ex) = []"
    using deliver_no_text [OF assms] by blast
next
  show "build_prompt lib (xcom_news_data tev) = Inr (Some prompt)
            \<and> gigachat_installed tev \<and> GIGACHAT_CREDENTIALS tev \<noteq> []
            \<and> clean_credentials lib (GIGACHAT_CREDENTIALS tev) \<noteq> []
            \<and> ex_outcome (gigachat_exchange lib
                  (gigachat_client tev (clean_credentials lib (GIGACHAT_CREDENTIALS tev)))
                  (news_server tev) (GIGACHAT_MODEL tev) prompt) = Inr summary \<longrightarrow>
            returned (summarize_news_with_gigachat lib tev)
              = Inl (Exception (msg_summary_error @ msg_empty_summary))
            \<and> xcom_pushed (summarize_news_with_gigachat lib tev) = []"
    using deliver_no_text [OF assms]
    by (simp add: summarize_news_with_gigachat_def)
next
  show "\<forall>s. returned (summarize_news_with_gigachat lib tev) = Inr s \<longrightarrow> s \<noteq> []"
    using msg_no_news_found_not_empty
    by (auto simp add: summarize_news_with_gigachat_def failed_def
          split: sum.splits option.splits if_splits dest: deliver_returned)
next
  show "xcom_pushed (summarize_news_with_gigachat lib tev) \<noteq> [] \<longrightarrow>
            (\<exists>s. returned (summarize_news_with_gigachat lib tev) = Inr s
                 \<and> xcom_pushed (summarize_news_with_gigachat lib tev) = [(''summary'', JStr s)]
                 \<and> s \<noteq> [] \<and> str_strip lib s \<noteq> [])"
    by (auto simp add: summarize_news_with_gigachat_def failed_def
          split: sum.splits option.splits if_splits
          dest!: deliver_pushed dest: deliver_returned)
qed

theorem empty_summary_raises_witness:
  "no_text sample_lib (JStr ''   '')
   \<and> returned (summarize_news_with_gigachat sample_lib
        \<lparr>xcom_news_data = JObj [(''titles'', JArr [JStr ''A'']), (''total_count'', JInt 1)],
         gigachat_installed = True,
         GIGACHAT_CREDENTIALS = ''abc'',
         GIGACHAT_MODEL = ''GigaChat-Pro'',
         gigachat_client = (\<lambda>key i request.
            Inr \<lparr>resp_choices = Some [\<lparr>msg_content = Some (JStr ''   ''),
                                        msg_tool_calls = None, msg_repr = []\<rparr>],
                 resp_repr = []\<rparr>),
         news_server = (\<lambda>i. Raises (ReqTimeout []))\<rparr>)
      = Inl (Exception (msg_summary_error @ msg_empty_summary))
   \<and> xcom_pushed (summarize_news_with_gigachat sample_lib
        \<lparr>xcom_news_data = JObj [(''titles'', JArr [JStr ''A'']), (''total_count'', JInt 1)],
         gigachat_installed = True,
         GIGACHAT_CREDENTIALS = ''abc'',
         GIGACHAT_MODEL = ''GigaChat-Pro'',
         gigachat_client = (\<lambda>key i request.
            Inr \<lparr>resp_choices = Some [\<lparr>msg_content = Some (JStr ''   ''),
                                        msg_tool_calls = None, msg_repr = []\<rparr>],
                 resp_repr = []\<rparr>),
         news_server = (\<lambda>i. Raises (ReqTimeout []))\<rparr>)
      = []"
proof -
  let ?tev = "\<lparr>xcom_news_data = JObj [(''titles'', JArr [JStr ''A'']), (''total_count'', JInt 1)],
         gigachat_installed = True,
         GIGACHAT_CREDENTIALS = ''abc'',
         GIGACHAT_MODEL = ''GigaChat-Pro'',
         gigachat_client = (\<lambda>key i request.
            Inr \<lparr>resp_choices = Some [\<lparr>msg_content = Some (JStr ''   ''),
                                        msg_tool_calls = None, msg_repr = []\<rparr>],
                 resp_repr = []\<rparr>),
         news_server = (\<lambda>i. Raises (ReqTimeout []))\<rparr>"
  let ?prompt = "prompt_head @ ''1. A'' @ prompt_tail"
  have blank: "no_text sample_lib (JStr ''   '')"
    by (simp add: no_text_def sample_lib_def sample_strip_def sample_space_def)
  have one: "str_nat (Suc 0) = ''1''"
    by code_simp
  have prompt_ok: "build_prompt sample_lib (xcom_news_data ?tev) = Inr (Some ?prompt)"
    by (simp add: build_prompt_def thn_def has_key_def py_str_def one)
  have key_ok: "clean_credentials sample_lib (GIGACHAT_CREDENTIALS ?tev) \<noteq> []"
    by (simp add: clean_credentials_def sample_lib_def sample_strip_def sample_space_def)
  have final_text: "ex_outcome (gigachat_exchange sample_lib
                  (gigachat_client ?tev (clean_credentials sample_lib (GIGACHAT_CREDENTIALS ?tev)))
                  (news_server ?tev) (GIGACHAT_MODEL ?tev) ?prompt) = Inr (JStr ''   '')"
    by (simp add: gigachat_exchange_def register_news_tool_def thn_def first_chat_def
          user_message_def MessagesRole_def read_reply_def message_text_def)
  show ?thesis
    using empty_summary_raises [OF blank, of _ ?tev ?prompt] blank prompt_ok key_ok final_text
    by simp
qed

section \<open>One round of tool resolution\<close>

lemma tool_message_raises: "tool_message lib call tool_result = Inl (MissingMember ''TOOL'')"
  by (simp add: tool_message_def MessagesRole_def thn_def)

lemma append_turn_raises:
  "append_turn lib message call tool_result conversation = Inl (MissingMember ''TOOL'')"
  by (simp add: append_turn_def assistant_message_def MessagesRole_def thn_def
        tool_message_raises)

lemma first_chat_sent:
  "first_chat model tools prompt =
     Inr (Chat [\<lparr>role = USER, content = prompt, name = None\<rparr>] model tools (7 / 10))"
  by (simp add: first_chat_def user_message_def MessagesRole_def thn_def)

text \<open>
  C1. The claim is that, when the first reply of the model requests the tool \<open>news\<close> and
  the dispatch returns a result, the task appends the assistant message and a tool
  message with the encoded result, sends the conversation once more and takes the content
  of the second reply as the final text. The code does not get that far. It builds the
  tool message with the role \<open>MessagesRole.TOOL\<close>, a member the enum does not have, so
  the lookup raises right after the first dispatch that returns: the exchange ends with
  that exception, one chat has been sent and none is sent again, and the task raises with
  the text \<open>TOOL\<close> under the prefix of its \<open>except\<close> clause and pushes nothing.
\<close>

theorem tool_call_not_resolved:
  assumes "first = Chat [\<lparr>role = USER, content = prompt, name = None\<rparr>] model
                     [NEWS_TOOL_DEFINITION] (7 / 10)"
    and "client 0 first = Inr response"
    and "resp_choices response = Some (message # others)"
    and "msg_tool_calls message = Some (tool_call # tool_calls)"
    and "tc_function tool_call = Some called"
    and "execute_news_tool lib (server 0) (tool_call_dict called) = (Inr tool_result, sent)"
  shows "gigachat_exchange lib client server model prompt =
           \<lparr>ex_outcome = Inl (MissingMember ''TOOL''), ex_chats = [first], ex_requests = sent\<rparr>
       \<and> deliver lib (gigachat_exchange lib client server model prompt) =
           \<lparr>returned = Inl (Exception (msg_summary_error @ ''TOOL'')), xcom_pushed = [],
            task_chats = [first], task_requests = sent\<rparr>"
proof -
  have registered: "register_news_tool None = Inr [NEWS_TOOL_DEFINITION]"
    by (simp add: register_news_tool_def thn_def get_news_tool_def)
  have loop: "resolve_tool_calls lib server message 0 (tool_call # tool_calls) (chat_messages first)
              = (Inl (MissingMember ''TOOL''), sent)"
    using assms(5,6) by (simp add: append_turn_raises)
  have exchange: "gigachat_exchange lib client server model prompt =
           \<lparr>ex_outcome = Inl (MissingMember ''TOOL''), ex_chats = [first], ex_requests = sent\<rparr>"
    using registered assms(1-4) loop
    by (simp add: gigachat_exchange_def first_chat_sent read_reply_def resend_def
          del: resolve_tool_calls.simps)
  show ?thesis
    by (simp add: exchange deliver_def thn_def wrap_exception_def)
qed

theorem tool_call_not_resolved_witness:
  "execute_news_tool sample_lib
     (Response 200 [] (Inr (JObj [(''titles'', JArr [JStr ''A'']), (''total_count'', JInt 1)])))
     (tool_call_dict \<lparr>fn_name = Some (JStr ''news''), fn_arguments = Some (JStr ''{}'')\<rparr>)
   = (Inr (JObj [(''titles'', JArr [JStr ''A'']), (''total_count'', JInt 1)]), [NewsServerGet])
   \<and> summarize_news_with_gigachat sample_lib
        \<lparr>xcom_news_data = JObj [(''titles'', JArr [JStr ''A'']), (''total_count'', JInt 1)],
         gigachat_installed = True,
         GIGACHAT_CREDENTIALS = ''abc'',
         GIGACHAT_MODEL = ''GigaChat-Pro'',
         gigachat_client = (\<lambda>key i request.
            if i = 0
            then Inr \<lparr>resp_choices =
                        Some [\<lparr>msg_content = Some (JStr ''I will look the news up.''),
                               msg_tool_calls =
                                 Some [\<lparr>tc_function =
                                          Some \<lparr>fn_name = Some (JStr ''news''),
                                                fn_arguments = Some (JStr ''{}'')\<rparr>\<rparr>],
                               msg_repr = []\<rparr>],
                      resp_repr = []\<rparr>
            else Inr \<lparr>resp_choices =
                        Some [\<lparr>msg_content = Some (JStr ''Bitcoin is down.''),
                               msg_tool_calls = None, msg_repr = []\<rparr>],
                      resp_repr = []\<rparr>),
         news_server = (\<lambda>i. Response 200 []
            (Inr (JObj [(''titles'', JArr [JStr ''A'']), (''total_count'', JInt 1)])))\<rparr>
      = \<lparr>returned = Inl (Exception (msg_summary_error @ ''TOOL'')),
         xcom_pushed = [],
         task_chats = [Chat [\<lparr>role = USER, content = prompt_head @ ''1. A'' @ prompt_tail,
                               name = None\<rparr>]
                         ''GigaChat-Pro'' [NEWS_TOOL_DEFINITION] (7 / 10)],
         task_requests = [NewsServerGet]\<rparr>"
proof -
  let ?result = "JObj [(''titles'', JArr [JStr ''A'']), (''total_count'', JInt 1)]"
  let ?server = "\<lambda>i::nat. Response 200 [] (Inr ?result)"
  let ?called = "\<lparr>fn_name = Some (JStr ''news''), fn_arguments = Some (JStr ''{}'')\<rparr>"
  let ?message = "\<lparr>msg_content = Some (JStr ''I will look the news up.''),
                   msg_tool_calls = Some [\<lparr>tc_function = Some ?called\<rparr>], msg_repr = []\<rparr>"
  let ?response = "\<lparr>resp_choices = Some [?message], resp_repr = []\<rparr>"
  let ?response2 = "\<lparr>resp_choices =
                        Some [\<lparr>msg_content = Some (JStr ''Bitcoin is down.''),
                               msg_tool_calls = None, msg_repr = []\<rparr>],
                     resp_repr = []\<rparr>"
  let ?client = "\<lambda>(i::nat) (request::chat). if i = 0 then Inr ?response else Inr ?response2"
  let ?tev = "\<lparr>xcom_news_data = ?result, gigachat_installed = True,
               GIGACHAT_CREDENTIALS = ''abc'', GIGACHAT_MODEL = ''GigaChat-Pro'',
               gigachat_client = (\<lambda>key::string. ?client), news_server = ?server\<rparr>"
  let ?prompt = "prompt_head @ ''1. A'' @ prompt_tail"
  have run: "execute_news_tool sample_lib (?server 0) (tool_call_dict ?called)
             = (Inr ?result, [NewsServerGet])"
    by (simp add: execute_news_tool_def tool_call_dict_def decode_arguments_def sample_lib_def
          sample_loads_def get_news_titles_def fetch_json_def response_json_def)
  have c0: "?client 0 (Chat [\<lparr>role = USER, content = ?prompt, name = None\<rparr>] ''GigaChat-Pro''
                          [NEWS_TOOL_DEFINITION] (7 / 10)) = Inr ?response"
    by simp
  note at = tool_call_not_resolved
    [where first = "Chat [\<lparr>role = USER, content = ?prompt, name = None\<rparr>] ''GigaChat-Pro''
                      [NEWS_TOOL_DEFINITION] (7 / 10)"
       and prompt = ?prompt and model = "''GigaChat-Pro''" and client = ?client
       and response = ?response and message = ?message and others = "[]"
       and tool_call = "\<lparr>tc_function = Some ?called\<rparr>" and tool_calls = "[]"
       and called = ?called and lib = sample_lib and server = ?server
       and tool_result = ?result and sent = "[NewsServerGet]"]
  have delivered: "deliver sample_lib
        (gigachat_exchange sample_lib ?client ?server ''GigaChat-Pro'' ?prompt)
      = \<lparr>returned = Inl (Exception (msg_summary_error @ ''TOOL'')), xcom_pushed = [],
         task_chats = [Chat [\<lparr>role = USER, content = ?prompt, name = None\<rparr>] ''GigaChat-Pro''
                         [NEWS_TOOL_DEFINITION] (7 / 10)],
         task_requests = [NewsServerGet]\<rparr>"
    by (rule conjunct2 [OF at]) (simp_all add: run)
  have one: "str_nat (Suc 0) = ''1''"
    by code_simp
  have prompt_ok: "build_prompt sample_lib (xcom_news_data ?tev) = Inr (Some ?prompt)"
    by (simp add: build_prompt_def thn_def has_key_def py_str_def one)
  have key_ok: "clean_credentials sample_lib (GIGACHAT_CREDENTIALS ?tev) \<noteq> []"
    by (simp add: clean_credentials_def sample_lib_def sample_strip_def sample_space_def)
  have task: "summarize_news_with_gigachat sample_lib ?tev
      = deliver sample_lib (gigachat_exchange sample_lib ?client ?server ''GigaChat-Pro'' ?prompt)"
    using prompt_ok key_ok by (simp add: summarize_news_with_gigachat_def)
  have run': "execute_news_tool sample_lib (Response 200 [] (Inr ?result)) (tool_call_dict ?called)
             = (Inr ?result, [NewsServerGet])"
    using run by simp
  show ?thesis
    by (intro conjI) (fact run', simp only: task delivered)
qed


end
